theory Spec2Isabelle
  imports Main "HOL-Library.AList"
begin

section \<open>JavaScript values\<close>

text \<open>
  The library passes plain JavaScript data around: message payloads, the context document and
  whatever a peer posts. A value is a primitive, an array or an object; an object is a finite
  map from property names to values. Values are immutable here: \<open>{...a, ...b}\<close> builds a new
  object, as the spread does in the source.
\<close>

datatype jsval =
    JUndefined
  | JNull
  | JBool bool
  | JNum int
  | JStr string
  | JArr "jsval list"
  | JObj "string \<Rightarrow> jsval option"

type_synonym obj = "string \<Rightarrow> jsval option"

text \<open>The errors the modelled code can raise.\<close>

datatype js_error =
    MessageTimeout nat          \<comment> \<open>\<open>new Error(`Message timeout after ${timeout}ms`)\<close>\<close>
  | MessengerDestroyed          \<comment> \<open>\<open>new Error('Messenger destroyed')\<close>\<close>
  | TargetWindowNotAvailable    \<comment> \<open>\<open>new Error('Target window not available')\<close>\<close>
  | TypeError                   \<comment> \<open>a property read on \<open>undefined\<close>/\<open>null\<close>, or a call of a non-function\<close>

text \<open>Truthiness, as \<open>if (v)\<close>, \<open>v && ...\<close> and \<open>v || ...\<close> test it.\<close>

fun truthy :: "jsval \<Rightarrow> bool" where
  "truthy JUndefined = False"
| "truthy JNull = False"
| "truthy (JBool b) = b"
| "truthy (JNum n) = (n \<noteq> 0)"
| "truthy (JStr s) = (s \<noteq> [])"
| "truthy (JArr xs) = True"
| "truthy (JObj m) = True"

text \<open>
  \<open>v.k\<close> for a value that is not \<open>undefined\<close> or \<open>null\<close>: the property of an object, and
  \<open>undefined\<close> where it is absent. None of the property names this program reads is a built-in
  property of a string, a number, a boolean or an array, so those give \<open>undefined\<close> too.
  \<open>read_prop\<close> is the same read with the \<open>TypeError\<close> of \<open>undefined.k\<close> and \<open>null.k\<close> written out.
\<close>

fun get :: "jsval \<Rightarrow> string \<Rightarrow> jsval" where
  "get (JObj m) k = (case m k of None \<Rightarrow> JUndefined | Some v \<Rightarrow> v)"
| "get v k = JUndefined"

fun read_prop :: "jsval \<Rightarrow> string \<Rightarrow> js_error + jsval" where
  "read_prop JUndefined k = Inl TypeError"
| "read_prop JNull k = Inl TypeError"
| "read_prop v k = Inr (get v k)"

fun is_string :: "jsval \<Rightarrow> bool" where
  "is_string (JStr s) = True"
| "is_string v = False"

fun is_number :: "jsval \<Rightarrow> bool" where
  "is_number (JNum n) = True"
| "is_number v = False"

text \<open>\<open>v === s\<close> for a string \<open>s\<close>.\<close>

fun strict_eq_str :: "jsval \<Rightarrow> string \<Rightarrow> bool" where
  "strict_eq_str (JStr s) t = (s = t)"
| "strict_eq_str v t = False"

fun the_string :: "jsval \<Rightarrow> string" where
  "the_string (JStr s) = s"
| "the_string v = []"

text \<open>Decimal numerals, for template literals and for the index keys of arrays.\<close>

definition digit_char :: "nat \<Rightarrow> char" where
  "digit_char d = ''0123456789'' ! d"

fun show_nat :: "nat \<Rightarrow> string" where
  "show_nat n = (if n < 10 then [digit_char n] else show_nat (n div 10) @ [digit_char (n mod 10)])"

declare show_nat.simps [simp del]

definition show_int :: "int \<Rightarrow> string" where
  "show_int i = (if i < 0 then CHR ''-'' # show_nat (nat (- i)) else show_nat (nat i))"

text \<open>
  The own enumerable properties a spread \<open>...v\<close> copies: those of an object; the index keys of
  an array or of a string; none for \<open>undefined\<close>, \<open>null\<close>, a boolean or a number.
\<close>

fun own_props :: "jsval \<Rightarrow> obj" where
  "own_props (JObj m) = m"
| "own_props (JArr xs) = map_of (zip (map show_nat [0..<length xs]) xs)"
| "own_props (JStr s) = map_of (zip (map show_nat [0..<length s]) (map (\<lambda>c. JStr [c]) s))"
| "own_props v = Map.empty"

text \<open>\<open>{...a, ...b}\<close>: the properties of \<open>b\<close> replace those of \<open>a\<close>, key by key.\<close>

definition spread :: "obj \<Rightarrow> jsval \<Rightarrow> obj" where
  "spread a b = a ++ own_props b"


section \<open>The runtime: promises, timers, the clock and the message bus\<close>

text \<open>
  A promise is a handle into a table of promise states; its \<open>resolve\<close> and \<open>reject\<close> functions
  are the handle. A promise settles once: a later call of \<open>resolve\<close> or \<open>reject\<close> changes nothing.
  Every call is recorded with what made it, so that the theorems can count them.
\<close>

datatype promise_state = Pending | Resolved jsval | Rejected js_error

datatype cause =
    ByReply        \<comment> \<open>\<open>handleResponse\<close>: \<open>pendingMessage.resolve(payload.data)\<close>\<close>
  | ByTimeout      \<comment> \<open>the \<open>setTimeout\<close> callback of \<open>sendWithResponse\<close>\<close>
  | ByDestroy      \<comment> \<open>\<open>destroy\<close>: \<open>pending.reject(new Error('Messenger destroyed'))\<close>\<close>
  | ByThrow        \<comment> \<open>the executor of \<open>new Promise\<close> threw\<close>
  | ByModalClose   \<comment> \<open>\<open>handleModalClose\<close>: \<open>modalResolve(data)\<close>\<close>

text \<open>What an \<open>async\<close> function of the library does after an \<open>await\<close>.\<close>

datatype continuation =
    AfterHandler jsval   \<comment> \<open>\<open>handleIncomingMessage\<close> after \<open>await handler(payload)\<close>, for this payload\<close>
  | AfterSyncRequest     \<comment> \<open>\<open>syncContext\<close> after \<open>await this.messenger.send(..., true)\<close>\<close>

text \<open>
  The handlers the library itself registers are closures over the context manager and the
  managed iframe; they are named here and interpreted by \<open>invoke\<close> below. A handler the
  application registers is a function of the payload.
\<close>

datatype handler =
    ContextRequest      \<comment> \<open>\<open>ContextManager.setupMessageHandlers\<close>, \<open>state:request\<close>\<close>
  | ContextUpdate       \<comment> \<open>\<open>ContextManager.setupMessageHandlers\<close>, \<open>state:update\<close>\<close>
  | ContextSync         \<comment> \<open>\<open>ContextManager.setupMessageHandlers\<close>, \<open>state:sync\<close>\<close>
  | HostNavigate        \<comment> \<open>\<open>HostIframeManager.setupIframeHandlers\<close>, \<open>navigation:navigate_to\<close>\<close>
  | HostGoBack          \<comment> \<open>\<open>HostIframeManager.setupIframeHandlers\<close>, \<open>navigation:go_back\<close>\<close>
  | HostModalOpen       \<comment> \<open>\<open>HostIframeManager.setupIframeHandlers\<close>, \<open>ui:modal_open\<close>\<close>
  | HostModalClose      \<comment> \<open>\<open>HostIframeManager.setupIframeHandlers\<close>, \<open>ui:modal_close\<close>\<close>
  | HostStateUpdate     \<comment> \<open>\<open>HostIframeManager.setupIframeHandlers\<close>, \<open>state:update\<close>\<close>
  | HostError           \<comment> \<open>\<open>HostIframeManager.setupIframeHandlers\<close>, \<open>error\<close>\<close>
  | GuestFocus          \<comment> \<open>\<open>IframeApp.setupDefaultHandlers\<close>, \<open>ui:focus\<close>\<close>
  | GuestBlur           \<comment> \<open>\<open>IframeApp.setupDefaultHandlers\<close>, \<open>ui:blur\<close>\<close>
  | GuestResize         \<comment> \<open>\<open>IframeApp.setupDefaultHandlers\<close>, \<open>ui:resize\<close>\<close>
  | External "jsval \<Rightarrow> jsval"

text \<open>
  \<open>window.addEventListener('message', this.handleMessage.bind(this))\<close> registers the function
  object that \<open>bind\<close> returns. \<open>bind\<close> returns a new function object at each call, different
  from \<open>this.handleMessage\<close> itself.
\<close>

datatype listener =
    HandleMessage         \<comment> \<open>the method \<open>this.handleMessage\<close>\<close>
  | BoundHandleMessage    \<comment> \<open>\<open>this.handleMessage.bind(this)\<close>, made in \<open>init\<close>\<close>

datatype window = ParentWindow | ContentWindow

datatype console_level = ConsoleLog | ConsoleWarn | ConsoleError

datatype console_arg = Val jsval | Err js_error

datatype window_effect =
    WindowOpen jsval        \<comment> \<open>\<open>window.open(url, '_blank')\<close>\<close>
  | LocationHref jsval      \<comment> \<open>\<open>window.location.href = url\<close>\<close>

record PendingMessage =
  promise :: nat     \<comment> \<open>\<open>resolve\<close> and \<open>reject\<close> of this promise\<close>
  timeout :: nat     \<comment> \<open>the timer handle\<close>

record MessagingConfig =
  cfg_targetOrigin :: string
  cfg_timeout :: "nat option"
  cfg_debug :: "bool option"
  cfg_maxRetries :: "nat option"

text \<open>
  One side of the channel: an \<open>IframeMessenger\<close>, the \<open>ContextManager\<close> built on it and, on the
  host, the modal fields of the \<open>ManagedIframe\<close> and of the \<open>HostIframeManager\<close>; then the
  runtime they run on, and what they have done to the outside.
\<close>

record system =
  \<comment> \<open>\<open>IframeMessenger\<close>\<close>
  pendingMessages :: "(string \<times> PendingMessage) list"
  messageHandlers :: "(string \<times> handler) list"
  config_targetOrigin :: string
  config_timeout :: nat
  config_debug :: bool
  config_maxRetries :: nat
  isHost :: bool
  targetWindow :: "window option"
  \<comment> \<open>\<open>ContextManager\<close>\<close>
  cm_context :: obj
  contextHistory :: "obj list"
  \<comment> \<open>\<open>ManagedIframe\<close> and \<open>HostIframeManager\<close>\<close>
  iframe_id :: string
  modalStack :: "string list"
  modalResolve :: "nat option"
  onNavigationCallback :: bool
  onModalCallback :: bool
  \<comment> \<open>the runtime\<close>
  listeners :: "listener list"
  promises :: "nat \<Rightarrow> promise_state option"
  timers :: "nat \<Rightarrow> (string \<times> nat) option"
  next_handle :: nat
  awaiting :: "(nat \<times> continuation) list"
  microtasks :: "(continuation \<times> promise_state) list"
  clock :: "nat \<Rightarrow> int"
  clock_reads :: nat
  random :: "nat \<Rightarrow> string"
  random_reads :: nat
  \<comment> \<open>what has been done\<close>
  posted :: "(window \<times> jsval \<times> string) list"
  console :: "(console_level \<times> string \<times> console_arg) list"
  invoked :: "(string \<times> jsval) list"
  modal_callbacks :: "(string \<times> jsval) list"
  navigation_callbacks :: "(jsval \<times> jsval) list"
  window_effects :: "window_effect list"
  settle_calls :: "(nat \<times> cause) list"

text \<open>
  \<open>Date.now()\<close> and \<open>Math.random().toString(36).substr(2, 9)\<close> read the next value of a
  sequence the environment chooses.
\<close>

definition date_now :: "system \<Rightarrow> int \<times> system" where
  "date_now st = (clock st (clock_reads st), st\<lparr>clock_reads := Suc (clock_reads st)\<rparr>)"

definition math_random :: "system \<Rightarrow> string \<times> system" where
  "math_random st = (random st (random_reads st), st\<lparr>random_reads := Suc (random_reads st)\<rparr>)"

definition new_promise :: "system \<Rightarrow> nat \<times> system" where
  "new_promise st =
     (next_handle st,
      st\<lparr>next_handle := Suc (next_handle st),
         promises := (promises st)(next_handle st \<mapsto> Pending)\<rparr>)"

text \<open>A call of a promise's \<open>resolve\<close> or \<open>reject\<close>.\<close>

definition settle :: "nat \<Rightarrow> promise_state \<Rightarrow> cause \<Rightarrow> system \<Rightarrow> system" where
  "settle p outcome c st =
     (let st1 = st\<lparr>settle_calls := settle_calls st @ [(p, c)]\<rparr> in
      case promises st1 p of
        Some Pending \<Rightarrow>
          st1\<lparr>promises := (promises st1)(p \<mapsto> outcome),
              microtasks := microtasks st1 @
                map (\<lambda>(q, k). (k, outcome)) (filter (\<lambda>(q, k). q = p) (awaiting st1)),
              awaiting := filter (\<lambda>(q, k). q \<noteq> p) (awaiting st1)\<rparr>
      | other \<Rightarrow> st1)"

text \<open>\<open>await p\<close>: the rest of the function runs as a microtask once \<open>p\<close> is settled.\<close>

definition await :: "nat \<Rightarrow> continuation \<Rightarrow> system \<Rightarrow> system" where
  "await p k st =
     (case promises st p of
        None \<Rightarrow> st
      | Some Pending \<Rightarrow> st\<lparr>awaiting := awaiting st @ [(p, k)]\<rparr>
      | Some outcome \<Rightarrow> st\<lparr>microtasks := microtasks st @ [(k, outcome)]\<rparr>)"

text \<open>\<open>setTimeout(() => { pendingMessages.delete(id); reject(...) }, timeout)\<close> and \<open>clearTimeout\<close>.\<close>

definition setTimeout :: "string \<Rightarrow> nat \<Rightarrow> system \<Rightarrow> nat \<times> system" where
  "setTimeout pid p st =
     (next_handle st,
      st\<lparr>next_handle := Suc (next_handle st),
         timers := (timers st)(next_handle st \<mapsto> (pid, p))\<rparr>)"

definition clearTimeout :: "nat \<Rightarrow> system \<Rightarrow> system" where
  "clearTimeout t st = st\<lparr>timers := (timers st)(t := None)\<rparr>"

section \<open>IframeMessenger\<close>

definition debug_log :: "string \<Rightarrow> jsval \<Rightarrow> system \<Rightarrow> system" where
  "debug_log msg arg st =
     (if config_debug st then st\<lparr>console := console st @ [(ConsoleLog, msg, Val arg)]\<rparr> else st)"

definition generateId :: "system \<Rightarrow> string \<times> system" where
  "generateId st =
     (let (now, st1) = date_now st;
          (r, st2) = math_random st1
      in (show_int now @ ''-'' @ r, st2))"

text \<open>
  \<open>postMessage\<close> throws when there is no target window. The \<open>postMessage\<close> of the window itself
  is taken to return: every value of the model can be cloned, and the target origin is taken to
  be one that the window accepts.
\<close>

definition postMessage :: "jsval \<Rightarrow> system \<Rightarrow> (js_error + unit) \<times> system" where
  "postMessage payload st =
     (case targetWindow st of
        None \<Rightarrow> (Inl TargetWindowNotAvailable, st)
      | Some w \<Rightarrow> (Inr (), st\<lparr>posted := posted st @ [(w, payload, config_targetOrigin st)]\<rparr>))"

definition source_tag :: "system \<Rightarrow> jsval" where
  "source_tag st = JStr (if isHost st then ''host'' else ''iframe'')"

definition sendWithResponse :: "string \<Rightarrow> jsval \<Rightarrow> system \<Rightarrow> nat \<times> system" where
  "sendWithResponse pid payload st =
     (let (p, st1) = new_promise st;
          (t, st2) = setTimeout pid p st1;
          st3 = st2\<lparr>pendingMessages :=
                  AList.update pid \<lparr>promise = p, timeout = t\<rparr> (pendingMessages st2)\<rparr>
      in case postMessage payload st3 of
           (Inl e, st4) \<Rightarrow> (p, settle p (Rejected e) ByThrow st4)
         | (Inr u, st4) \<Rightarrow> (p, st4))"

text \<open>
  \<open>send\<close> is \<open>async\<close>: it returns a promise. With \<open>requiresResponse\<close> that promise follows the one
  of \<open>sendWithResponse\<close>; without, it is fulfilled once the message is posted, or rejected with
  what \<open>postMessage\<close> threw.
\<close>

datatype send_result = SendDone | SendThrew js_error | SendAwaits nat

definition send :: "string \<Rightarrow> string \<Rightarrow> jsval \<Rightarrow> bool \<Rightarrow> system \<Rightarrow> send_result \<times> system" where
  "send type action data requiresResponse st =
     (let (messageId, st1) = generateId st;
          (now, st2) = date_now st1;
          payload = JObj [''id'' \<mapsto> JStr messageId, ''type'' \<mapsto> JStr type,
                          ''action'' \<mapsto> JStr action, ''data'' \<mapsto> data,
                          ''timestamp'' \<mapsto> JNum now,
                          ''requiresResponse'' \<mapsto> JBool requiresResponse,
                          ''source'' \<mapsto> source_tag st2,
                          ''targetOrigin'' \<mapsto> JStr (config_targetOrigin st2)];
          st3 = debug_log ''Sending message:'' payload st2
      in if requiresResponse
         then (case sendWithResponse messageId payload st3 of (p, st4) \<Rightarrow> (SendAwaits p, st4))
         else (case postMessage payload st3 of
                 (Inl e, st4) \<Rightarrow> (SendThrew e, st4)
               | (Inr u, st4) \<Rightarrow> (SendDone, st4)))"

definition respond :: "string \<Rightarrow> jsval \<Rightarrow> system \<Rightarrow> (js_error + unit) \<times> system" where
  "respond originalMessageId data st =
     (let (rid, st1) = generateId st;
          (now, st2) = date_now st1;
          responsePayload = JObj [''id'' \<mapsto> JStr rid, ''type'' \<mapsto> JStr ''response'',
                                  ''action'' \<mapsto> JStr ''message_response'', ''data'' \<mapsto> data,
                                  ''timestamp'' \<mapsto> JNum now,
                                  ''responseId'' \<mapsto> JStr originalMessageId,
                                  ''source'' \<mapsto> source_tag st2,
                                  ''targetOrigin'' \<mapsto> JStr (config_targetOrigin st2)];
          st3 = debug_log ''Sending response:'' responsePayload st2
      in postMessage responsePayload st3)"

definition on_type :: "string \<Rightarrow> handler \<Rightarrow> system \<Rightarrow> system" where
  "on_type type h st = st\<lparr>messageHandlers := AList.update type h (messageHandlers st)\<rparr>"

definition onAction :: "string \<Rightarrow> string \<Rightarrow> handler \<Rightarrow> system \<Rightarrow> system" where
  "onAction type action h st =
     st\<lparr>messageHandlers := AList.update (type @ '':'' @ action) h (messageHandlers st)\<rparr>"

text \<open>\<open>off(type, action?)\<close>: \<open>action ? `${type}:${action}` : type\<close> tests the action's truthiness.\<close>

definition off :: "string \<Rightarrow> string option \<Rightarrow> system \<Rightarrow> system" where
  "off type action st =
     (let key = (case action of
                   None \<Rightarrow> type
                 | Some a \<Rightarrow> if a \<noteq> [] then type @ '':'' @ a else type)
      in st\<lparr>messageHandlers := AList.delete key (messageHandlers st)\<rparr>)"

definition setTargetWindow :: "bool \<Rightarrow> system \<Rightarrow> system" where
  "setTargetWindow hasContentWindow st =
     (if isHost st \<and> hasContentWindow then st\<lparr>targetWindow := Some ContentWindow\<rparr> else st)"


section \<open>ContextManager\<close>

definition lookup :: "obj \<Rightarrow> string \<Rightarrow> jsval" where
  "lookup m k = (case m k of None \<Rightarrow> JUndefined | Some v \<Rightarrow> v)"

definition maxHistorySize :: nat where
  "maxHistorySize = 10"

text \<open>\<open>contextHistory.push({ ...this.context })\<close>, then \<open>shift()\<close> when over the limit.\<close>

definition addToHistory :: "system \<Rightarrow> system" where
  "addToHistory st =
     (let h = contextHistory st @ [cm_context st]
      in st\<lparr>contextHistory := (if length h > maxHistorySize then tl h else h)\<rparr>)"

text \<open>
  \<open>updateContext\<close> is \<open>async\<close>; everything up to its \<open>await\<close> of \<open>send\<close> runs at the call, and
  nothing follows the \<open>await\<close>. The result is what the returned promise settles with.
\<close>

definition updateContext :: "jsval \<Rightarrow> bool \<Rightarrow> system \<Rightarrow> (js_error + unit) \<times> system" where
  "updateContext updates notify st =
     (let st1 = addToHistory st;
          merged = spread (cm_context st1) updates;
          (now, st2) = date_now st1;
          st3 = st2\<lparr>cm_context := merged(''updatedAt'' \<mapsto> JNum now)\<rparr>
      in if notify
         then (case send ''state'' ''update'' updates False st3 of
                 (SendThrew e, st4) \<Rightarrow> (Inl e, st4)
               | (SendDone, st4) \<Rightarrow> (Inr (), st4)
               | (SendAwaits p, st4) \<Rightarrow> (Inr (), st4))
         else (Inr (), st3))"

text \<open>\<open>this.context = { ...this.context, ...remoteContext, updatedAt: Date.now() }\<close> of \<open>syncContext\<close>.\<close>

definition merge_remote :: "jsval \<Rightarrow> system \<Rightarrow> system" where
  "merge_remote remoteContext st =
     (let merged = spread (cm_context st) remoteContext;
          (now, st1) = date_now st
      in st1\<lparr>cm_context := merged(''updatedAt'' \<mapsto> JNum now)\<rparr>)"

definition warn_sync_failed :: "js_error \<Rightarrow> system \<Rightarrow> system" where
  "warn_sync_failed e st =
     st\<lparr>console := console st @ [(ConsoleWarn, ''Failed to sync context:'', Err e)]\<rparr>"

text \<open>
  \<open>syncContext(remoteContext?)\<close>: the push path merges at the call; the pull path sends
  \<open>state/request\<close> and goes on (\<open>AfterSyncRequest\<close>) when the reply promise is settled.
\<close>

definition syncContext :: "jsval \<Rightarrow> system \<Rightarrow> system" where
  "syncContext remoteContext st =
     (if truthy remoteContext then merge_remote remoteContext st
      else (case send ''state'' ''request'' JUndefined True st of
              (SendAwaits p, st1) \<Rightarrow> await p AfterSyncRequest st1
            | (SendThrew e, st1) \<Rightarrow> warn_sync_failed e st1
            | (SendDone, st1) \<Rightarrow> st1))"

definition updateNavigation :: "jsval \<Rightarrow> system \<Rightarrow> (js_error + unit) \<times> system" where
  "updateNavigation navigation st =
     (let updatedNavigation =
            JObj (spread (own_props (lookup (cm_context st) ''navigation'')) navigation)
      in updateContext (JObj [''navigation'' \<mapsto> updatedNavigation]) True st)"

text \<open>
  \<open>breadcrumbs.findIndex(b => b.path === path)\<close>: the index of the first element whose \<open>path\<close>
  is the string \<open>path\<close>; elements after a match are not looked at.
\<close>

fun findIndex_path :: "string \<Rightarrow> jsval list \<Rightarrow> js_error + nat option" where
  "findIndex_path path [] = Inr None"
| "findIndex_path path (b # bs) =
     (case read_prop b ''path'' of
        Inl e \<Rightarrow> Inl e
      | Inr v \<Rightarrow>
          if strict_eq_str v path then Inr (Some 0)
          else (case findIndex_path path bs of
                  Inl e \<Rightarrow> Inl e
                | Inr None \<Rightarrow> Inr None
                | Inr (Some i) \<Rightarrow> Inr (Some (Suc i))))"

text \<open>
  \<open>addBreadcrumb\<close>. The source pushes to, or splices, the array it read from the context and
  hands the same array to \<open>updateNavigation\<close>. Values are immutable here, so history entries
  keep the breadcrumbs they were pushed with, where in the source an entry that shares the
  array shows its later content; the theorems on \<open>addBreadcrumb\<close> speak of the current context.
\<close>

definition addBreadcrumb :: "string \<Rightarrow> string \<Rightarrow> jsval \<Rightarrow> system \<Rightarrow> (js_error + unit) \<times> system" where
  "addBreadcrumb label path params st =
     (case read_prop (lookup (cm_context st) ''navigation'') ''breadcrumbs'' of
        Inl e \<Rightarrow> (Inl e, st)
      | Inr v \<Rightarrow>
          (case (if truthy v then v else JArr []) of
             JArr breadcrumbs \<Rightarrow>
               (case findIndex_path path breadcrumbs of
                  Inl e \<Rightarrow> (Inl e, st)
                | Inr (Some existingIndex) \<Rightarrow>
                    updateNavigation
                      (JObj [''breadcrumbs'' \<mapsto> JArr (take (existingIndex + 1) breadcrumbs)]) st
                | Inr None \<Rightarrow>
                    updateNavigation
                      (JObj [''breadcrumbs'' \<mapsto>
                         JArr (breadcrumbs @
                           [JObj [''label'' \<mapsto> JStr label, ''path'' \<mapsto> JStr path,
                                  ''params'' \<mapsto> params]])]) st)
           | other \<Rightarrow> (Inl TypeError, st)))"

definition getHistory :: "system \<Rightarrow> obj list" where
  "getHistory st = contextHistory st"

definition restoreFromHistory :: "int \<Rightarrow> system \<Rightarrow> (js_error + bool) \<times> system" where
  "restoreFromHistory index st =
     (if 0 \<le> index \<and> index < int (length (contextHistory st))
      then (case updateContext (JObj (contextHistory st ! nat index)) True st of
              (Inl e, st1) \<Rightarrow> (Inl e, st1)
            | (Inr u, st1) \<Rightarrow> (Inr True, st1))
      else (Inr False, st))"

section \<open>HostIframeManager: the handlers of one managed iframe\<close>

text \<open>
  \<open>handleNavigation\<close>. \<open>updateNavigation\<close> is \<open>async\<close> and not awaited: what it throws is lost.
\<close>

definition handleNavigation :: "jsval \<Rightarrow> system \<Rightarrow> (js_error + unit) \<times> system" where
  "handleNavigation data st =
     (case read_prop data ''external'' of
        Inl e \<Rightarrow> (Inl e, st)
      | Inr external \<Rightarrow>
          if truthy external
          then (if strict_eq_str (get data ''target'') ''_blank''
                then (Inr (), st\<lparr>window_effects := window_effects st @ [WindowOpen (get data ''url'')]\<rparr>)
                else (Inr (), st\<lparr>window_effects := window_effects st @ [LocationHref (get data ''url'')]\<rparr>))
          else
            (let st1 = snd (updateNavigation
                         (JObj [''currentRoute'' \<mapsto> get data ''route'',
                                ''previousRoute'' \<mapsto> get data ''previousRoute'',
                                ''params'' \<mapsto> get data ''params'',
                                ''state'' \<mapsto> get data ''state'']) st)
             in (Inr (),
                 if onNavigationCallback st1
                 then st1\<lparr>navigation_callbacks := navigation_callbacks st1 @ [(get data ''route'', data)]\<rparr>
                 else st1)))"

definition handleGoBack :: "jsval \<Rightarrow> system \<Rightarrow> (js_error + unit) \<times> system" where
  "handleGoBack data st =
     (if onNavigationCallback st
      then (case read_prop data ''route'' of
              Inl e \<Rightarrow> (Inl e, st)
            | Inr route \<Rightarrow>
                (Inr (),
                 st\<lparr>navigation_callbacks := navigation_callbacks st @
                      [(route, JObj ((spread Map.empty data)(''isBack'' \<mapsto> JBool True)))]\<rparr>))
      else (Inr (), st))"

text \<open>
  \<open>handleModalOpen\<close> returns a new promise and keeps its \<open>resolve\<close> in the one \<open>modalResolve\<close>
  field of the managed iframe. The callbacks that the application has set are code of the
  application: a call is recorded, and the callback is taken to return.
\<close>

definition handleModalOpen :: "jsval \<Rightarrow> system \<Rightarrow> nat \<times> system" where
  "handleModalOpen data st =
     (let (p, st1) = new_promise st;
          st2 = st1\<lparr>modalStack := modalStack st1 @ [iframe_id st1]\<rparr>;
          st3 = st2\<lparr>modalResolve := Some p\<rparr>
      in (p, if onModalCallback st3
             then st3\<lparr>modal_callbacks := modal_callbacks st3 @ [(''open'', data)]\<rparr>
             else st3))"

definition handleModalClose :: "jsval \<Rightarrow> system \<Rightarrow> system" where
  "handleModalClose data st =
     (let st1 = st\<lparr>modalStack := remove1 (iframe_id st) (modalStack st)\<rparr>;
          st2 = (case modalResolve st1 of
                   None \<Rightarrow> st1
                 | Some p \<Rightarrow> (settle p (Resolved data) ByModalClose st1)\<lparr>modalResolve := None\<rparr>)
      in if onModalCallback st2
         then st2\<lparr>modal_callbacks := modal_callbacks st2 @ [(''close'', data)]\<rparr>
         else st2)"


section \<open>Inbound dispatch\<close>

text \<open>
  What a registered handler does when \<open>handleIncomingMessage\<close> calls it: it returns a value,
  returns a promise, or throws. The handlers of \<open>ContextManager\<close> and the \<open>state:update\<close>
  handler of the host call an \<open>async\<close> method without returning its promise, so they
  return \<open>undefined\<close> and lose what it throws. The default handlers of \<open>IframeApp\<close> act on
  the document only.
\<close>

datatype handler_result = Returned jsval | ReturnedPromise nat | Threw js_error

definition returned :: "(js_error + unit) \<times> system \<Rightarrow> handler_result \<times> system" where
  "returned r = (case r of (Inl e, st) \<Rightarrow> (Threw e, st) | (Inr u, st) \<Rightarrow> (Returned JUndefined, st))"

fun invoke :: "handler \<Rightarrow> jsval \<Rightarrow> system \<Rightarrow> handler_result \<times> system" where
  "invoke ContextRequest payload st = (Returned (JObj (cm_context st)), st)"
| "invoke ContextUpdate payload st =
     (Returned JUndefined, snd (updateContext (get payload ''data'') True st))"
| "invoke ContextSync payload st = (Returned JUndefined, syncContext (get payload ''data'') st)"
| "invoke HostNavigate payload st = returned (handleNavigation (get payload ''data'') st)"
| "invoke HostGoBack payload st = returned (handleGoBack (get payload ''data'') st)"
| "invoke HostModalOpen payload st =
     (case handleModalOpen (get payload ''data'') st of (p, st1) \<Rightarrow> (ReturnedPromise p, st1))"
| "invoke HostModalClose payload st = (Returned JUndefined, handleModalClose (get payload ''data'') st)"
| "invoke HostStateUpdate payload st =
     (Returned JUndefined, snd (updateContext (get payload ''data'') False st))"
| "invoke HostError payload st =
     (Returned JUndefined,
      st\<lparr>console := console st @
           [(ConsoleError, ''Error from iframe '' @ iframe_id st @ '':'', Val (get payload ''data''))]\<rparr>)"
| "invoke GuestFocus payload st = (Returned JUndefined, st)"
| "invoke GuestBlur payload st = (Returned JUndefined, st)"
| "invoke GuestResize payload st = (Returned JUndefined, st)"
| "invoke (External f) payload st = (Returned (f payload), st)"

text \<open>
  \<open>const result = await handler(payload)\<close>: the handler runs at once; the rest of
  \<open>handleIncomingMessage\<close> is a microtask, queued now for a plain value and when the promise
  is settled for a promise. If the handler throws, nothing follows.
\<close>

definition dispatch :: "string \<Rightarrow> handler \<Rightarrow> jsval \<Rightarrow> system \<Rightarrow> system" where
  "dispatch key h payload st =
     (case invoke h payload (st\<lparr>invoked := invoked st @ [(key, payload)]\<rparr>) of
        (Returned v, st1) \<Rightarrow>
          st1\<lparr>microtasks := microtasks st1 @ [(AfterHandler payload, Resolved v)]\<rparr>
      | (ReturnedPromise p, st1) \<Rightarrow> await p (AfterHandler payload) st1
      | (Threw e, st1) \<Rightarrow> st1)"

definition no_handler_error :: jsval where
  "no_handler_error = JObj [''error'' \<mapsto> JStr ''No handler found'']"

definition handleIncomingMessage :: "jsval \<Rightarrow> system \<Rightarrow> system" where
  "handleIncomingMessage payload st =
     (let type = the_string (get payload ''type'');
          action = the_string (get payload ''action'')
      in case map_of (messageHandlers st) (type @ '':'' @ action) of
           Some actionHandler \<Rightarrow> dispatch (type @ '':'' @ action) actionHandler payload st
         | None \<Rightarrow>
             (case map_of (messageHandlers st) type of
                Some typeHandler \<Rightarrow> dispatch type typeHandler payload st
              | None \<Rightarrow>
                  (let st1 = debug_log ''No handler found for message:'' payload st
                   in if truthy (get payload ''requiresResponse'')
                      then snd (respond (the_string (get payload ''id'')) no_handler_error st1)
                      else st1)))"

text \<open>\<open>pendingMessages.get(payload.responseId)\<close>: the keys of the table are strings.\<close>

fun pending_get :: "jsval \<Rightarrow> (string \<times> PendingMessage) list \<Rightarrow> PendingMessage option" where
  "pending_get (JStr k) al = map_of al k"
| "pending_get v al = None"

definition handleResponse :: "jsval \<Rightarrow> system \<Rightarrow> system" where
  "handleResponse payload st =
     (case pending_get (get payload ''responseId'') (pendingMessages st) of
        None \<Rightarrow> st
      | Some pendingMessage \<Rightarrow>
          (let st1 = clearTimeout (timeout pendingMessage) st;
               st2 = st1\<lparr>pendingMessages :=
                       AList.delete (the_string (get payload ''responseId'')) (pendingMessages st1)\<rparr>
           in settle (promise pendingMessage) (Resolved (get payload ''data'')) ByReply st2))"

definition isValidPayload :: "jsval \<Rightarrow> bool" where
  "isValidPayload payload =
     (truthy payload \<and>
      is_string (get payload ''id'') \<and>
      is_string (get payload ''type'') \<and>
      is_string (get payload ''action'') \<and>
      is_number (get payload ''timestamp'') \<and>
      (strict_eq_str (get payload ''source'') ''host'' \<or>
       strict_eq_str (get payload ''source'') ''iframe''))"

definition handleMessage :: "string \<Rightarrow> jsval \<Rightarrow> system \<Rightarrow> system" where
  "handleMessage origin data st =
     (if origin \<noteq> config_targetOrigin st
      then debug_log ''Message from unauthorized origin:'' (JStr origin) st
      else if \<not> isValidPayload data
      then debug_log ''Invalid message payload:'' data st
      else (let st1 = debug_log ''Received message:'' data st
            in if strict_eq_str (get data ''type'') ''response'' \<and> truthy (get data ''responseId'')
               then handleResponse data st1
               else handleIncomingMessage data st1))"

text \<open>
  \<open>destroy\<close>: \<open>removeEventListener('message', this.handleMessage)\<close> removes the listener that is
  that function object, if one is registered; then every pending message is rejected and both
  tables are cleared.
\<close>

definition destroy :: "system \<Rightarrow> system" where
  "destroy st =
     (let st1 = st\<lparr>listeners := remove1 HandleMessage (listeners st)\<rparr>;
          st2 = fold (\<lambda>(k, pending) s.
                        settle (promise pending) (Rejected MessengerDestroyed) ByDestroy
                          (clearTimeout (timeout pending) s))
                     (pendingMessages st1) st1
      in st2\<lparr>pendingMessages := [], messageHandlers := []\<rparr>)"

text \<open>The callback of the timer \<open>sendWithResponse\<close> set, when the timeout elapses.\<close>

definition timeout_elapsed :: "nat \<Rightarrow> system \<Rightarrow> system" where
  "timeout_elapsed t st =
     (case timers st t of
        None \<Rightarrow> st
      | Some (pid, p) \<Rightarrow>
          (let st1 = st\<lparr>timers := (timers st)(t := None)\<rparr>;
               st2 = st1\<lparr>pendingMessages := AList.delete pid (pendingMessages st1)\<rparr>
           in settle p (Rejected (MessageTimeout (config_timeout st2))) ByTimeout st2))"

section \<open>Microtasks\<close>

fun run_microtask :: "continuation \<times> promise_state \<Rightarrow> system \<Rightarrow> system" where
  "run_microtask (AfterHandler payload, Resolved result) st =
     (if truthy (get payload ''requiresResponse'')
      then snd (respond (the_string (get payload ''id'')) result st)
      else st)"
| "run_microtask (AfterHandler payload, Rejected e) st = st"
| "run_microtask (AfterHandler payload, Pending) st = st"
| "run_microtask (AfterSyncRequest, Resolved remoteContext) st =
     (if truthy remoteContext then merge_remote remoteContext st else st)"
| "run_microtask (AfterSyncRequest, Rejected e) st = warn_sync_failed e st"
| "run_microtask (AfterSyncRequest, Pending) st = st"

text \<open>After each task the microtask queue is run until it is empty; no microtask queues another.\<close>

definition drain :: "system \<Rightarrow> system" where
  "drain st = fold run_microtask (microtasks st) (st\<lparr>microtasks := []\<rparr>)"

section \<open>Construction\<close>

text \<open>A page before any of the library's objects exists.\<close>

definition boot :: "(nat \<Rightarrow> int) \<Rightarrow> (nat \<Rightarrow> string) \<Rightarrow> system" where
  "boot clk rnd =
     \<lparr>pendingMessages = [], messageHandlers = [], config_targetOrigin = [],
      config_timeout = 0, config_debug = False, config_maxRetries = 0, isHost = False,
      targetWindow = None, cm_context = Map.empty, contextHistory = [], iframe_id = [],
      modalStack = [], modalResolve = None, onNavigationCallback = False,
      onModalCallback = False, listeners = [], promises = Map.empty, timers = Map.empty,
      next_handle = 0, awaiting = [], microtasks = [], clock = clk, clock_reads = 0,
      random = rnd, random_reads = 0, posted = [], console = [], invoked = [],
      modal_callbacks = [], navigation_callbacks = [], window_effects = [],
      settle_calls = []\<rparr>"

text \<open>\<open>new IframeMessenger(config, isHost)\<close>: the defaults, then \<open>init()\<close>.\<close>

definition new_IframeMessenger :: "MessagingConfig \<Rightarrow> bool \<Rightarrow> system \<Rightarrow> system" where
  "new_IframeMessenger config host st =
     (let st1 = st\<lparr>pendingMessages := [], messageHandlers := [],
                   config_targetOrigin := cfg_targetOrigin config,
                   config_timeout := (case cfg_timeout config of None \<Rightarrow> 5000 | Some n \<Rightarrow> n),
                   config_debug := (case cfg_debug config of None \<Rightarrow> False | Some b \<Rightarrow> b),
                   config_maxRetries := (case cfg_maxRetries config of None \<Rightarrow> 3 | Some n \<Rightarrow> n),
                   isHost := host, targetWindow := None\<rparr>;
          st2 = st1\<lparr>listeners := listeners st1 @ [BoundHandleMessage]\<rparr>
      in if \<not> host then st2\<lparr>targetWindow := Some ParentWindow\<rparr> else st2)"

definition generateContextId :: "system \<Rightarrow> string \<times> system" where
  "generateContextId st =
     (let (now, st1) = date_now st;
          (r, st2) = math_random st1
      in (''ctx_'' @ show_int now @ ''_'' @ r, st2))"

definition setupMessageHandlers :: "system \<Rightarrow> system" where
  "setupMessageHandlers st =
     onAction ''state'' ''sync'' ContextSync
       (onAction ''state'' ''update'' ContextUpdate
          (onAction ''state'' ''request'' ContextRequest st))"

text \<open>\<open>new ContextManager(messenger, initialContext?)\<close>.\<close>

definition new_ContextManager :: "jsval \<Rightarrow> system \<Rightarrow> system" where
  "new_ContextManager initialContext st =
     (let (cid, st1) = generateContextId st;
          (created, st2) = date_now st1;
          (updated, st3) = date_now st2;
          defaults = [''id'' \<mapsto> JStr cid, ''route'' \<mapsto> JStr ''/'',
                      ''navigation'' \<mapsto> JObj [''currentRoute'' \<mapsto> JStr ''/''],
                      ''app'' \<mapsto> JObj [''environment'' \<mapsto> JStr ''development''],
                      ''createdAt'' \<mapsto> JNum created, ''updatedAt'' \<mapsto> JNum updated]
      in setupMessageHandlers
           (st3\<lparr>cm_context := spread defaults initialContext, contextHistory := []\<rparr>))"

definition setupIframeHandlers :: "system \<Rightarrow> system" where
  "setupIframeHandlers st =
     on_type ''error'' HostError
       (onAction ''state'' ''update'' HostStateUpdate
          (onAction ''ui'' ''modal_close'' HostModalClose
             (onAction ''ui'' ''modal_open'' HostModalOpen
                (onAction ''navigation'' ''go_back'' HostGoBack
                   (onAction ''navigation'' ''navigate_to'' HostNavigate st)))))"

definition setupDefaultHandlers :: "system \<Rightarrow> system" where
  "setupDefaultHandlers st =
     onAction ''ui'' ''resize'' GuestResize
       (onAction ''ui'' ''blur'' GuestBlur
          (onAction ''ui'' ''focus'' GuestFocus st))"

text \<open>
  The guest side as the constructor of \<open>IframeApp\<close> builds it, and the host side as
  \<open>createIframe\<close> builds it for the iframe \<open>iid\<close> whose \<open>src\<close> has the origin \<open>origin\<close> and the
  path \<open>pathname\<close>, up to \<open>setupIframeHandlers\<close>; the target window is set later, when the
  iframe has loaded.
\<close>

definition new_IframeApp :: "string \<Rightarrow> bool \<Rightarrow> system \<Rightarrow> system" where
  "new_IframeApp hostOrigin dbg st =
     setupDefaultHandlers
       (new_ContextManager JUndefined
          (new_IframeMessenger
             \<lparr>cfg_targetOrigin = hostOrigin, cfg_timeout = None, cfg_debug = Some dbg,
              cfg_maxRetries = None\<rparr> False st))"

definition createIframe :: "string \<Rightarrow> string \<Rightarrow> string \<Rightarrow> bool \<Rightarrow> system \<Rightarrow> system" where
  "createIframe iid origin pathname dbg st =
     setupIframeHandlers
       ((new_ContextManager (JObj [''id'' \<mapsto> JStr iid, ''route'' \<mapsto> JStr pathname])
           (new_IframeMessenger
              \<lparr>cfg_targetOrigin = origin, cfg_timeout = None, cfg_debug = Some dbg,
               cfg_maxRetries = None\<rparr> True st))\<lparr>iframe_id := iid\<rparr>)"

section \<open>Tasks\<close>

text \<open>
  Everything happens in tasks of one event loop: a \<open>message\<close> event of the window, a timer
  that fires, or a call the application makes. A task runs to its end, then the microtasks.
\<close>

datatype event =
    Message string jsval                   \<comment> \<open>a \<open>message\<close> event: \<open>event.origin\<close>, \<open>event.data\<close>\<close>
  | TimerFires nat
  | Send string string jsval bool
  | Respond string jsval
  | On string handler
  | OnAction string string handler
  | Off string "string option"
  | SetTargetWindow bool
  | Destroy
  | UpdateContext jsval bool
  | SyncContext jsval
  | UpdateNavigation jsval
  | AddBreadcrumb string string jsval
  | RestoreFromHistory int

text \<open>
  The window calls each registered listener. \<open>this.handleMessage\<close> itself is never registered;
  called by the window it would read \<open>this.config\<close> of the window and throw.
\<close>

fun call_listener :: "string \<Rightarrow> jsval \<Rightarrow> listener \<Rightarrow> system \<Rightarrow> system" where
  "call_listener origin data BoundHandleMessage st = handleMessage origin data st"
| "call_listener origin data HandleMessage st = st"

definition deliver :: "string \<Rightarrow> jsval \<Rightarrow> system \<Rightarrow> system" where
  "deliver origin data st = fold (call_listener origin data) (listeners st) st"

fun task :: "event \<Rightarrow> system \<Rightarrow> system" where
  "task (Message origin data) st = deliver origin data st"
| "task (TimerFires t) st = timeout_elapsed t st"
| "task (Send type action data requiresResponse) st = snd (send type action data requiresResponse st)"
| "task (Respond originalMessageId data) st = snd (respond originalMessageId data st)"
| "task (On type h) st = on_type type h st"
| "task (OnAction type action h) st = onAction type action h st"
| "task (Off type action) st = off type action st"
| "task (SetTargetWindow hasContentWindow) st = setTargetWindow hasContentWindow st"
| "task Destroy st = destroy st"
| "task (UpdateContext updates notify) st = snd (updateContext updates notify st)"
| "task (SyncContext remoteContext) st = syncContext remoteContext st"
| "task (UpdateNavigation navigation) st = snd (updateNavigation navigation st)"
| "task (AddBreadcrumb label path params) st = snd (addBreadcrumb label path params st)"
| "task (RestoreFromHistory index) st = snd (restoreFromHistory index st)"

definition step :: "event \<Rightarrow> system \<Rightarrow> system" where
  "step e st = drain (task e st)"

definition run :: "event list \<Rightarrow> system \<Rightarrow> system" where
  "run es st = fold step es st"

section \<open>Observations and example states\<close>

text \<open>What the theorems read off a state, and the concrete states they are tried on.\<close>

definition updatedAt :: "system \<Rightarrow> jsval" where
  "updatedAt st = lookup (cm_context st) ''updatedAt''"

text \<open>\<open>a < b\<close> for two numbers.\<close>

fun num_less :: "jsval \<Rightarrow> jsval \<Rightarrow> bool" where
  "num_less (JNum a) (JNum b) = (a < b)"
| "num_less a b = False"

text \<open>What the next call of \<open>Date.now()\<close> returns.\<close>

definition next_reading :: "system \<Rightarrow> int" where
  "next_reading st = clock st (clock_reads st)"

text \<open>
  A clock that returns the same millisecond at every call, one that advances by a millisecond
  at every call, and a random source.
\<close>

definition frozen_clock :: "nat \<Rightarrow> int" where
  "frozen_clock n = 1000"

definition ticking_clock :: "nat \<Rightarrow> int" where
  "ticking_clock n = 1000 + int n"

definition some_random :: "nat \<Rightarrow> string" where
  "some_random n = ''k3x9''"

definition guest0 :: system where
  "guest0 = new_IframeApp ''https://host.example'' False (boot frozen_clock some_random)"

definition guest1 :: system where
  "guest1 = new_IframeApp ''https://host.example'' False (boot ticking_clock some_random)"

text \<open>
  The breadcrumbs of the current context, the breadcrumb \<open>{label, path, params}\<close>, and the test
  \<open>b.path === path\<close> of \<open>addBreadcrumb\<close>.
\<close>

definition breadcrumbs :: "system \<Rightarrow> jsval" where
  "breadcrumbs st = get (lookup (cm_context st) ''navigation'') ''breadcrumbs''"

definition crumb :: "string \<Rightarrow> string \<Rightarrow> jsval \<Rightarrow> jsval" where
  "crumb label path params =
     JObj [''label'' \<mapsto> JStr label, ''path'' \<mapsto> JStr path, ''params'' \<mapsto> params]"

definition has_path :: "string \<Rightarrow> jsval \<Rightarrow> bool" where
  "has_path path b = strict_eq_str (get b ''path'') path"

text \<open>The guest \<open>guest0\<close> after \<open>addBreadcrumb('Home', '/')\<close> and \<open>addBreadcrumb('List', '/list')\<close>.\<close>

definition guest_home_list :: system where
  "guest_home_list =
     snd (addBreadcrumb ''List'' ''/list'' JUndefined
            (snd (addBreadcrumb ''Home'' ''/'' JUndefined guest0)))"

text \<open>
  The host side of the iframe \<open>frame1\<close> served from \<open>https://guest.example/app\<close>, before the
  iframe has loaded.
\<close>

definition host0 :: system where
  "host0 = createIframe ''frame1'' ''https://guest.example'' ''/app'' False (boot frozen_clock some_random)"

text \<open>Envelopes as a peer posts them.\<close>

definition update_message :: jsval where
  "update_message =
     JObj [''id'' \<mapsto> JStr ''m1'', ''type'' \<mapsto> JStr ''state'', ''action'' \<mapsto> JStr ''update'',
           ''data'' \<mapsto> JObj [''route'' \<mapsto> JStr ''/orders''], ''timestamp'' \<mapsto> JNum 1000,
           ''requiresResponse'' \<mapsto> JBool False, ''source'' \<mapsto> JStr ''host'',
           ''targetOrigin'' \<mapsto> JStr ''https://guest.example'']"

definition data_request :: "string \<Rightarrow> jsval" where
  "data_request sender =
     JObj [''id'' \<mapsto> JStr ''m2'', ''type'' \<mapsto> JStr ''data'', ''action'' \<mapsto> JStr ''request'',
           ''data'' \<mapsto> JObj [''type'' \<mapsto> JStr ''user-info''], ''timestamp'' \<mapsto> JNum 1000,
           ''requiresResponse'' \<mapsto> JBool True, ''source'' \<mapsto> JStr sender,
           ''targetOrigin'' \<mapsto> JStr ''https://host.example'']"

text \<open>
  A request whose \<open>type\<close> is the string \<open>state:update\<close>: no handler is registered for that
  category, nor for the pair of it and the action \<open>x\<close>.
\<close>

definition colon_request :: jsval where
  "colon_request =
     JObj [''id'' \<mapsto> JStr ''m3'', ''type'' \<mapsto> JStr ''state:update'', ''action'' \<mapsto> JStr ''x'',
           ''data'' \<mapsto> JObj [''route'' \<mapsto> JStr ''/orders''], ''timestamp'' \<mapsto> JNum 1000,
           ''requiresResponse'' \<mapsto> JBool True, ''source'' \<mapsto> JStr ''host'',
           ''targetOrigin'' \<mapsto> JStr ''https://guest.example'']"

text \<open>What of a posted message the theorems look at.\<close>

definition posted_summary ::
  "window \<times> jsval \<times> string \<Rightarrow> window \<times> jsval \<times> jsval \<times> jsval \<times> jsval \<times> string" where
  "posted_summary m =
     (case m of (w, payload, origin) \<Rightarrow>
        (w, get payload ''type'', get payload ''action'', get payload ''responseId'',
         get payload ''data'', origin))"

text \<open>
  The host once the iframe has loaded, after \<open>sendWithResponse\<close> of the envelope
  \<open>data_request ''host''\<close>.
\<close>

definition host_waiting :: system where
  "host_waiting = snd (sendWithResponse ''m2'' (data_request ''host'') (setTargetWindow True host0))"

text \<open>
  The host once the iframe has loaded, and what a guest may send it: two \<open>ui/modal_open\<close>
  requests and one \<open>ui/modal_close\<close>, and a \<open>state/sync\<close> that carries no data.
\<close>

definition host_loaded :: system where
  "host_loaded = setTargetWindow True host0"

definition modal_open_message :: "string \<Rightarrow> string \<Rightarrow> jsval" where
  "modal_open_message i route =
     JObj [''id'' \<mapsto> JStr i, ''type'' \<mapsto> JStr ''ui'', ''action'' \<mapsto> JStr ''modal_open'',
           ''data'' \<mapsto> JObj [''route'' \<mapsto> JStr route], ''timestamp'' \<mapsto> JNum 1000,
           ''requiresResponse'' \<mapsto> JBool True, ''source'' \<mapsto> JStr ''iframe'',
           ''targetOrigin'' \<mapsto> JStr ''https://host.example'']"

definition modal_close_message :: "string \<Rightarrow> jsval \<Rightarrow> jsval" where
  "modal_close_message i result =
     JObj [''id'' \<mapsto> JStr i, ''type'' \<mapsto> JStr ''ui'', ''action'' \<mapsto> JStr ''modal_close'',
           ''data'' \<mapsto> result, ''timestamp'' \<mapsto> JNum 1000,
           ''requiresResponse'' \<mapsto> JBool False, ''source'' \<mapsto> JStr ''iframe'',
           ''targetOrigin'' \<mapsto> JStr ''https://host.example'']"

definition two_opens_one_close :: "event list" where
  "two_opens_one_close =
     [Message ''https://guest.example'' (modal_open_message ''m1'' ''/pick-a''),
      Message ''https://guest.example'' (modal_open_message ''m2'' ''/pick-b''),
      Message ''https://guest.example'' (modal_close_message ''m3'' (JStr ''saved''))]"

definition sync_message :: jsval where
  "sync_message =
     JObj [''id'' \<mapsto> JStr ''m4'', ''type'' \<mapsto> JStr ''state'', ''action'' \<mapsto> JStr ''sync'',
           ''timestamp'' \<mapsto> JNum 1000, ''requiresResponse'' \<mapsto> JBool False,
           ''source'' \<mapsto> JStr ''iframe'', ''targetOrigin'' \<mapsto> JStr ''https://host.example'']"

text \<open>
  A sequence of \<open>updateContext\<close> calls, each with its partial and its \<open>notify\<close> flag, and the
  contexts the manager held just before each of them.
\<close>

fun updateContexts :: "(jsval \<times> bool) list \<Rightarrow> system \<Rightarrow> system" where
  "updateContexts [] st = st"
| "updateContexts ((u, n) # us) st = updateContexts us (snd (updateContext u n st))"

fun prior_contexts :: "(jsval \<times> bool) list \<Rightarrow> system \<Rightarrow> obj list" where
  "prior_contexts [] st = []"
| "prior_contexts ((u, n) # us) st = cm_context st # prior_contexts us (snd (updateContext u n st))"

text \<open>The last \<open>n\<close> elements of a list.\<close>

definition last_n :: "nat \<Rightarrow> 'a list \<Rightarrow> 'a list" where
  "last_n n xs = drop (length xs - n) xs"

definition history_bounded :: "system \<Rightarrow> bool" where
  "history_bounded st = (length (contextHistory st) \<le> maxHistorySize)"

text \<open>Eleven updates of the route, to \<open>/1\<close>, ..., \<open>/11\<close>, and the route of a context.\<close>

definition route_update :: "nat \<Rightarrow> jsval \<times> bool" where
  "route_update i = (JObj [''route'' \<mapsto> JStr (''/'' @ show_nat i)], False)"

definition eleven_updates :: "(jsval \<times> bool) list" where
  "eleven_updates = map route_update [1, 2, 3, 4, 5, 6, 7, 8, 9, 10, 11]"

definition route_of :: "obj \<Rightarrow> jsval" where
  "route_of c = lookup c ''route''"

section \<open>The life of a promise\<close>

text \<open>
  The part of a state that decides which promise can still be settled, and by what: the promise
  table, the timers, the pending messages, the calls of \<open>resolve\<close> and \<open>reject\<close> made so far,
  the next free handle and the \<open>modalResolve\<close> field.
\<close>

definition core ::
  "system \<Rightarrow> (nat \<Rightarrow> promise_state option) \<times> (nat \<Rightarrow> (string \<times> nat) option) \<times>
     (string \<times> PendingMessage) list \<times> (nat \<times> cause) list \<times> nat \<times> nat option" where
  "core st =
     (promises st, timers st, pendingMessages st, settle_calls st, next_handle st, modalResolve st)"

text \<open>
  \<open>changes st st'\<close>: \<open>st'\<close> comes from \<open>st\<close> by some of the six operations that touch that part
  (\<open>sendWithResponse\<close>, \<open>handleResponse\<close>, the timeout callback, \<open>destroy\<close>, \<open>handleModalOpen\<close>,
  \<open>handleModalClose\<close>), in any order, with any changes to the rest of the state in between.
\<close>

inductive changes :: "system \<Rightarrow> system \<Rightarrow> bool" where
  same: "core st' = core st \<Longrightarrow> changes st st'"
| seq: "changes st st' \<Longrightarrow> changes st' st'' \<Longrightarrow> changes st st''"
| request: "changes st (snd (sendWithResponse pid payload st))"
| reply: "changes st (handleResponse payload st)"
| elapsed: "changes st (timeout_elapsed t st)"
| destroyed: "changes st (destroy st)"
| modal_opened: "changes st (snd (handleModalOpen d st))"
| modal_closed: "changes st (handleModalClose d st)"

text \<open>The causes of the calls of \<open>resolve\<close> and \<open>reject\<close> made on the promise \<open>p\<close>, in order.\<close>

definition calls_on :: "nat \<Rightarrow> system \<Rightarrow> cause list" where
  "calls_on p st = map snd (filter (\<lambda>qc. fst qc = p) (settle_calls st))"

text \<open>Every handle in use is below \<open>n\<close>.\<close>

definition handles_below :: "nat \<Rightarrow> system \<Rightarrow> bool" where
  "handles_below n st \<longleftrightarrow>
     (\<forall>k pm. (k, pm) \<in> set (pendingMessages st) \<longrightarrow> promise pm < n \<and> timeout pm < n) \<and>
     (\<forall>t k q. timers st t = Some (k, q) \<longrightarrow> t < n \<and> q < n) \<and>
     (\<forall>q c. (q, c) \<in> set (settle_calls st) \<longrightarrow> q < n) \<and>
     (\<forall>q. modalResolve st = Some q \<longrightarrow> q < n)"

text \<open>No pending message and no timer holds the \<open>resolve\<close> or \<open>reject\<close> of the promise \<open>p\<close>.\<close>

definition unreferenced :: "nat \<Rightarrow> system \<Rightarrow> bool" where
  "unreferenced p st \<longleftrightarrow>
     (\<forall>k pm. (k, pm) \<in> set (pendingMessages st) \<longrightarrow> promise pm \<noteq> p) \<and>
     (\<forall>t k. timers st t \<noteq> Some (k, p))"

text \<open>
  The promise \<open>p\<close> is in the state \<open>v\<close> after the calls \<open>cs\<close>, and only \<open>modalResolve\<close> may still
  hold its \<open>resolve\<close>; \<open>frozen\<close>: nothing holds it.
\<close>

definition quiet :: "nat \<Rightarrow> promise_state option \<Rightarrow> cause list \<Rightarrow> system \<Rightarrow> bool" where
  "quiet p v cs st \<longleftrightarrow>
     p < next_handle st \<and> promises st p = v \<and> calls_on p st = cs \<and> unreferenced p st"

definition frozen :: "nat \<Rightarrow> promise_state option \<Rightarrow> cause list \<Rightarrow> system \<Rightarrow> bool" where
  "frozen p v cs st \<longleftrightarrow> quiet p v cs st \<and> modalResolve st \<noteq> Some p"

text \<open>
  Handles are given out in increasing order, the keys of \<open>pendingMessages\<close> are distinct, and
  the promise whose \<open>resolve\<close> is kept in \<open>modalResolve\<close> is pending, has never been settled and
  is known to no pending message and no timer.
\<close>

definition well_formed :: "system \<Rightarrow> bool" where
  "well_formed st \<longleftrightarrow>
     distinct (map fst (pendingMessages st)) \<and>
     handles_below (next_handle st) st \<and>
     (\<forall>q. modalResolve st = Some q \<longrightarrow> quiet q (Some Pending) [] st)"

text \<open>
  A request sent with \<open>sendWithResponse\<close> (promise \<open>p\<close>, timer \<open>t\<close>, message id \<open>pid\<close>) is
  \<open>awaiting_reply\<close>: the promise is pending, neither \<open>resolve\<close> nor \<open>reject\<close> has been called, the
  timer is set, and what refers to the promise or the timer is the pending message under \<open>pid\<close>
  and that timer. Or it is \<open>settled_by\<close> one cause: exactly one call has been made, by the reply,
  the timeout or \<open>destroy\<close>, the promise holds what that call gave it, the timer is gone and
  nothing holds the promise's \<open>resolve\<close> or \<open>reject\<close> any more.
\<close>

definition linked :: "nat \<Rightarrow> nat \<Rightarrow> string \<Rightarrow> system \<Rightarrow> bool" where
  "linked p t pid st \<longleftrightarrow>
     p < next_handle st \<and> t < next_handle st \<and> modalResolve st \<noteq> Some p \<and>
     (\<forall>k pm. (k, pm) \<in> set (pendingMessages st) \<longrightarrow>
        promise pm = p \<or> timeout pm = t \<longrightarrow> k = pid \<and> promise pm = p \<and> timeout pm = t) \<and>
     (\<forall>t' k q. timers st t' = Some (k, q) \<longrightarrow> q = p \<or> t' = t \<longrightarrow> t' = t \<and> k = pid \<and> q = p)"

definition awaiting_reply :: "nat \<Rightarrow> nat \<Rightarrow> string \<Rightarrow> system \<Rightarrow> bool" where
  "awaiting_reply p t pid st \<longleftrightarrow>
     promises st p = Some Pending \<and> calls_on p st = [] \<and> timers st t = Some (pid, p) \<and>
     linked p t pid st"

fun outcome_of :: "cause \<Rightarrow> promise_state option \<Rightarrow> bool" where
  "outcome_of ByReply r = (\<exists>v. r = Some (Resolved v))"
| "outcome_of ByTimeout r = (\<exists>n. r = Some (Rejected (MessageTimeout n)))"
| "outcome_of ByDestroy r = (r = Some (Rejected MessengerDestroyed))"
| "outcome_of ByThrow r = False"
| "outcome_of ByModalClose r = False"

definition settled_by :: "nat \<Rightarrow> nat \<Rightarrow> cause \<Rightarrow> system \<Rightarrow> bool" where
  "settled_by p t c st \<longleftrightarrow>
     frozen p (promises st p) [c] st \<and> outcome_of c (promises st p) \<and>
     t < next_handle st \<and> timers st t = None"

text \<open>
  A promise nothing can settle any more: it is pending, no call has been made on it, and its
  \<open>resolve\<close> and \<open>reject\<close> are kept nowhere.
\<close>

definition orphaned :: "nat \<Rightarrow> system \<Rightarrow> bool" where
  "orphaned p st \<longleftrightarrow> frozen p (Some Pending) [] st"

text \<open>What \<open>destroy\<close> does for one pending message.\<close>

definition reject_pending :: "string \<times> PendingMessage \<Rightarrow> system \<Rightarrow> system" where
  "reject_pending = (\<lambda>(k, pending) s.
      settle (promise pending) (Rejected MessengerDestroyed) ByDestroy (clearTimeout (timeout pending) s))"

text \<open>The timer \<open>t\<close> has been given out and is no longer set.\<close>

definition timer_gone :: "nat \<Rightarrow> system \<Rightarrow> bool" where
  "timer_gone t st \<longleftrightarrow> t < next_handle st \<and> timers st t = None"

text \<open>The two states of a request, together.\<close>

definition request_state :: "nat \<Rightarrow> nat \<Rightarrow> string \<Rightarrow> system \<Rightarrow> bool" where
  "request_state p t pid st \<longleftrightarrow>
     awaiting_reply p t pid st \<or> settled_by p t ByReply st \<or> settled_by p t ByTimeout st \<or>
     settled_by p t ByDestroy st"

section \<open>Lemmas\<close>

subsection \<open>Frame lemmas: the fields each operation leaves as they are\<close>

lemma fold_frame:
  assumes "\<And>x s. sel (g x s) = sel s"
  shows "sel (fold g xs s) = sel s"
  using assms by (induction xs arbitrary: s) simp_all

lemma snd_returned [simp]: "snd (returned r) = snd r"
  by (simp add: returned_def split: prod.split sum.split)

lemma date_now_frame [simp]:
  "pendingMessages (snd (date_now st)) = pendingMessages st"
  "messageHandlers (snd (date_now st)) = messageHandlers st"
  "config_targetOrigin (snd (date_now st)) = config_targetOrigin st"
  "config_timeout (snd (date_now st)) = config_timeout st"
  "config_debug (snd (date_now st)) = config_debug st"
  "config_maxRetries (snd (date_now st)) = config_maxRetries st"
  "isHost (snd (date_now st)) = isHost st"
  "targetWindow (snd (date_now st)) = targetWindow st"
  "cm_context (snd (date_now st)) = cm_context st"
  "contextHistory (snd (date_now st)) = contextHistory st"
  "iframe_id (snd (date_now st)) = iframe_id st"
  "modalStack (snd (date_now st)) = modalStack st"
  "modalResolve (snd (date_now st)) = modalResolve st"
  "onNavigationCallback (snd (date_now st)) = onNavigationCallback st"
  "onModalCallback (snd (date_now st)) = onModalCallback st"
  "listeners (snd (date_now st)) = listeners st"
  "promises (snd (date_now st)) = promises st"
  "timers (snd (date_now st)) = timers st"
  "next_handle (snd (date_now st)) = next_handle st"
  "awaiting (snd (date_now st)) = awaiting st"
  "microtasks (snd (date_now st)) = microtasks st"
  "clock (snd (date_now st)) = clock st"
  "random (snd (date_now st)) = random st"
  "random_reads (snd (date_now st)) = random_reads st"
  "posted (snd (date_now st)) = posted st"
  "console (snd (date_now st)) = console st"
  "invoked (snd (date_now st)) = invoked st"
  "modal_callbacks (snd (date_now st)) = modal_callbacks st"
  "navigation_callbacks (snd (date_now st)) = navigation_callbacks st"
  "window_effects (snd (date_now st)) = window_effects st"
  "settle_calls (snd (date_now st)) = settle_calls st"
  by (simp_all add: date_now_def)

lemma math_random_frame [simp]:
  "pendingMessages (snd (math_random st)) = pendingMessages st"
  "messageHandlers (snd (math_random st)) = messageHandlers st"
  "config_targetOrigin (snd (math_random st)) = config_targetOrigin st"
  "config_timeout (snd (math_random st)) = config_timeout st"
  "config_debug (snd (math_random st)) = config_debug st"
  "config_maxRetries (snd (math_random st)) = config_maxRetries st"
  "isHost (snd (math_random st)) = isHost st"
  "targetWindow (snd (math_random st)) = targetWindow st"
  "cm_context (snd (math_random st)) = cm_context st"
  "contextHistory (snd (math_random st)) = contextHistory st"
  "iframe_id (snd (math_random st)) = iframe_id st"
  "modalStack (snd (math_random st)) = modalStack st"
  "modalResolve (snd (math_random st)) = modalResolve st"
  "onNavigationCallback (snd (math_random st)) = onNavigationCallback st"
  "onModalCallback (snd (math_random st)) = onModalCallback st"
  "listeners (snd (math_random st)) = listeners st"
  "promises (snd (math_random st)) = promises st"
  "timers (snd (math_random st)) = timers st"
  "next_handle (snd (math_random st)) = next_handle st"
  "awaiting (snd (math_random st)) = awaiting st"
  "microtasks (snd (math_random st)) = microtasks st"
  "clock (snd (math_random st)) = clock st"
  "clock_reads (snd (math_random st)) = clock_reads st"
  "random (snd (math_random st)) = random st"
  "posted (snd (math_random st)) = posted st"
  "console (snd (math_random st)) = console st"
  "invoked (snd (math_random st)) = invoked st"
  "modal_callbacks (snd (math_random st)) = modal_callbacks st"
  "navigation_callbacks (snd (math_random st)) = navigation_callbacks st"
  "window_effects (snd (math_random st)) = window_effects st"
  "settle_calls (snd (math_random st)) = settle_calls st"
  by (simp_all add: math_random_def)

lemma generateId_frame [simp]:
  "pendingMessages (snd (generateId st)) = pendingMessages st"
  "messageHandlers (snd (generateId st)) = messageHandlers st"
  "config_targetOrigin (snd (generateId st)) = config_targetOrigin st"
  "config_timeout (snd (generateId st)) = config_timeout st"
  "config_debug (snd (generateId st)) = config_debug st"
  "config_maxRetries (snd (generateId st)) = config_maxRetries st"
  "isHost (snd (generateId st)) = isHost st"
  "targetWindow (snd (generateId st)) = targetWindow st"
  "cm_context (snd (generateId st)) = cm_context st"
  "contextHistory (snd (generateId st)) = contextHistory st"
  "iframe_id (snd (generateId st)) = iframe_id st"
  "modalStack (snd (generateId st)) = modalStack st"
  "modalResolve (snd (generateId st)) = modalResolve st"
  "onNavigationCallback (snd (generateId st)) = onNavigationCallback st"
  "onModalCallback (snd (generateId st)) = onModalCallback st"
  "listeners (snd (generateId st)) = listeners st"
  "promises (snd (generateId st)) = promises st"
  "timers (snd (generateId st)) = timers st"
  "next_handle (snd (generateId st)) = next_handle st"
  "awaiting (snd (generateId st)) = awaiting st"
  "microtasks (snd (generateId st)) = microtasks st"
  "clock (snd (generateId st)) = clock st"
  "random (snd (generateId st)) = random st"
  "posted (snd (generateId st)) = posted st"
  "console (snd (generateId st)) = console st"
  "invoked (snd (generateId st)) = invoked st"
  "modal_callbacks (snd (generateId st)) = modal_callbacks st"
  "navigation_callbacks (snd (generateId st)) = navigation_callbacks st"
  "window_effects (snd (generateId st)) = window_effects st"
  "settle_calls (snd (generateId st)) = settle_calls st"
  by (simp_all add: generateId_def split_beta)

lemma generateContextId_frame [simp]:
  "pendingMessages (snd (generateContextId st)) = pendingMessages st"
  "messageHandlers (snd (generateContextId st)) = messageHandlers st"
  "config_targetOrigin (snd (generateContextId st)) = config_targetOrigin st"
  "config_timeout (snd (generateContextId st)) = config_timeout st"
  "config_debug (snd (generateContextId st)) = config_debug st"
  "config_maxRetries (snd (generateContextId st)) = config_maxRetries st"
  "isHost (snd (generateContextId st)) = isHost st"
  "targetWindow (snd (generateContextId st)) = targetWindow st"
  "cm_context (snd (generateContextId st)) = cm_context st"
  "contextHistory (snd (generateContextId st)) = contextHistory st"
  "iframe_id (snd (generateContextId st)) = iframe_id st"
  "modalStack (snd (generateContextId st)) = modalStack st"
  "modalResolve (snd (generateContextId st)) = modalResolve st"
  "onNavigationCallback (snd (generateContextId st)) = onNavigationCallback st"
  "onModalCallback (snd (generateContextId st)) = onModalCallback st"
  "listeners (snd (generateContextId st)) = listeners st"
  "promises (snd (generateContextId st)) = promises st"
  "timers (snd (generateContextId st)) = timers st"
  "next_handle (snd (generateContextId st)) = next_handle st"
  "awaiting (snd (generateContextId st)) = awaiting st"
  "microtasks (snd (generateContextId st)) = microtasks st"
  "clock (snd (generateContextId st)) = clock st"
  "random (snd (generateContextId st)) = random st"
  "posted (snd (generateContextId st)) = posted st"
  "console (snd (generateContextId st)) = console st"
  "invoked (snd (generateContextId st)) = invoked st"
  "modal_callbacks (snd (generateContextId st)) = modal_callbacks st"
  "navigation_callbacks (snd (generateContextId st)) = navigation_callbacks st"
  "window_effects (snd (generateContextId st)) = window_effects st"
  "settle_calls (snd (generateContextId st)) = settle_calls st"
  by (simp_all add: generateContextId_def split_beta)

lemma debug_log_frame [simp]:
  "pendingMessages (debug_log m a st) = pendingMessages st"
  "messageHandlers (debug_log m a st) = messageHandlers st"
  "config_targetOrigin (debug_log m a st) = config_targetOrigin st"
  "config_timeout (debug_log m a st) = config_timeout st"
  "config_debug (debug_log m a st) = config_debug st"
  "config_maxRetries (debug_log m a st) = config_maxRetries st"
  "isHost (debug_log m a st) = isHost st"
  "targetWindow (debug_log m a st) = targetWindow st"
  "cm_context (debug_log m a st) = cm_context st"
  "contextHistory (debug_log m a st) = contextHistory st"
  "iframe_id (debug_log m a st) = iframe_id st"
  "modalStack (debug_log m a st) = modalStack st"
  "modalResolve (debug_log m a st) = modalResolve st"
  "onNavigationCallback (debug_log m a st) = onNavigationCallback st"
  "onModalCallback (debug_log m a st) = onModalCallback st"
  "listeners (debug_log m a st) = listeners st"
  "promises (debug_log m a st) = promises st"
  "timers (debug_log m a st) = timers st"
  "next_handle (debug_log m a st) = next_handle st"
  "awaiting (debug_log m a st) = awaiting st"
  "microtasks (debug_log m a st) = microtasks st"
  "clock (debug_log m a st) = clock st"
  "clock_reads (debug_log m a st) = clock_reads st"
  "random (debug_log m a st) = random st"
  "random_reads (debug_log m a st) = random_reads st"
  "posted (debug_log m a st) = posted st"
  "invoked (debug_log m a st) = invoked st"
  "modal_callbacks (debug_log m a st) = modal_callbacks st"
  "navigation_callbacks (debug_log m a st) = navigation_callbacks st"
  "window_effects (debug_log m a st) = window_effects st"
  "settle_calls (debug_log m a st) = settle_calls st"
  by (simp_all add: debug_log_def)

lemma postMessage_frame [simp]:
  "pendingMessages (snd (postMessage payload st)) = pendingMessages st"
  "messageHandlers (snd (postMessage payload st)) = messageHandlers st"
  "config_targetOrigin (snd (postMessage payload st)) = config_targetOrigin st"
  "config_timeout (snd (postMessage payload st)) = config_timeout st"
  "config_debug (snd (postMessage payload st)) = config_debug st"
  "config_maxRetries (snd (postMessage payload st)) = config_maxRetries st"
  "isHost (snd (postMessage payload st)) = isHost st"
  "targetWindow (snd (postMessage payload st)) = targetWindow st"
  "cm_context (snd (postMessage payload st)) = cm_context st"
  "contextHistory (snd (postMessage payload st)) = contextHistory st"
  "iframe_id (snd (postMessage payload st)) = iframe_id st"
  "modalStack (snd (postMessage payload st)) = modalStack st"
  "modalResolve (snd (postMessage payload st)) = modalResolve st"
  "onNavigationCallback (snd (postMessage payload st)) = onNavigationCallback st"
  "onModalCallback (snd (postMessage payload st)) = onModalCallback st"
  "listeners (snd (postMessage payload st)) = listeners st"
  "promises (snd (postMessage payload st)) = promises st"
  "timers (snd (postMessage payload st)) = timers st"
  "next_handle (snd (postMessage payload st)) = next_handle st"
  "awaiting (snd (postMessage payload st)) = awaiting st"
  "microtasks (snd (postMessage payload st)) = microtasks st"
  "clock (snd (postMessage payload st)) = clock st"
  "clock_reads (snd (postMessage payload st)) = clock_reads st"
  "random (snd (postMessage payload st)) = random st"
  "random_reads (snd (postMessage payload st)) = random_reads st"
  "console (snd (postMessage payload st)) = console st"
  "invoked (snd (postMessage payload st)) = invoked st"
  "modal_callbacks (snd (postMessage payload st)) = modal_callbacks st"
  "navigation_callbacks (snd (postMessage payload st)) = navigation_callbacks st"
  "window_effects (snd (postMessage payload st)) = window_effects st"
  "settle_calls (snd (postMessage payload st)) = settle_calls st"
  by (simp_all add: postMessage_def split: option.split)

lemma new_promise_frame [simp]:
  "pendingMessages (snd (new_promise st)) = pendingMessages st"
  "messageHandlers (snd (new_promise st)) = messageHandlers st"
  "config_targetOrigin (snd (new_promise st)) = config_targetOrigin st"
  "config_timeout (snd (new_promise st)) = config_timeout st"
  "config_debug (snd (new_promise st)) = config_debug st"
  "config_maxRetries (snd (new_promise st)) = config_maxRetries st"
  "isHost (snd (new_promise st)) = isHost st"
  "targetWindow (snd (new_promise st)) = targetWindow st"
  "cm_context (snd (new_promise st)) = cm_context st"
  "contextHistory (snd (new_promise st)) = contextHistory st"
  "iframe_id (snd (new_promise st)) = iframe_id st"
  "modalStack (snd (new_promise st)) = modalStack st"
  "modalResolve (snd (new_promise st)) = modalResolve st"
  "onNavigationCallback (snd (new_promise st)) = onNavigationCallback st"
  "onModalCallback (snd (new_promise st)) = onModalCallback st"
  "listeners (snd (new_promise st)) = listeners st"
  "timers (snd (new_promise st)) = timers st"
  "awaiting (snd (new_promise st)) = awaiting st"
  "microtasks (snd (new_promise st)) = microtasks st"
  "clock (snd (new_promise st)) = clock st"
  "clock_reads (snd (new_promise st)) = clock_reads st"
  "random (snd (new_promise st)) = random st"
  "random_reads (snd (new_promise st)) = random_reads st"
  "posted (snd (new_promise st)) = posted st"
  "console (snd (new_promise st)) = console st"
  "invoked (snd (new_promise st)) = invoked st"
  "modal_callbacks (snd (new_promise st)) = modal_callbacks st"
  "navigation_callbacks (snd (new_promise st)) = navigation_callbacks st"
  "window_effects (snd (new_promise st)) = window_effects st"
  "settle_calls (snd (new_promise st)) = settle_calls st"
  by (simp_all add: new_promise_def)

lemma setTimeout_frame [simp]:
  "pendingMessages (snd (setTimeout pid p st)) = pendingMessages st"
  "messageHandlers (snd (setTimeout pid p st)) = messageHandlers st"
  "config_targetOrigin (snd (setTimeout pid p st)) = config_targetOrigin st"
  "config_timeout (snd (setTimeout pid p st)) = config_timeout st"
  "config_debug (snd (setTimeout pid p st)) = config_debug st"
  "config_maxRetries (snd (setTimeout pid p st)) = config_maxRetries st"
  "isHost (snd (setTimeout pid p st)) = isHost st"
  "targetWindow (snd (setTimeout pid p st)) = targetWindow st"
  "cm_context (snd (setTimeout pid p st)) = cm_context st"
  "contextHistory (snd (setTimeout pid p st)) = contextHistory st"
  "iframe_id (snd (setTimeout pid p st)) = iframe_id st"
  "modalStack (snd (setTimeout pid p st)) = modalStack st"
  "modalResolve (snd (setTimeout pid p st)) = modalResolve st"
  "onNavigationCallback (snd (setTimeout pid p st)) = onNavigationCallback st"
  "onModalCallback (snd (setTimeout pid p st)) = onModalCallback st"
  "listeners (snd (setTimeout pid p st)) = listeners st"
  "promises (snd (setTimeout pid p st)) = promises st"
  "awaiting (snd (setTimeout pid p st)) = awaiting st"
  "microtasks (snd (setTimeout pid p st)) = microtasks st"
  "clock (snd (setTimeout pid p st)) = clock st"
  "clock_reads (snd (setTimeout pid p st)) = clock_reads st"
  "random (snd (setTimeout pid p st)) = random st"
  "random_reads (snd (setTimeout pid p st)) = random_reads st"
  "posted (snd (setTimeout pid p st)) = posted st"
  "console (snd (setTimeout pid p st)) = console st"
  "invoked (snd (setTimeout pid p st)) = invoked st"
  "modal_callbacks (snd (setTimeout pid p st)) = modal_callbacks st"
  "navigation_callbacks (snd (setTimeout pid p st)) = navigation_callbacks st"
  "window_effects (snd (setTimeout pid p st)) = window_effects st"
  "settle_calls (snd (setTimeout pid p st)) = settle_calls st"
  by (simp_all add: setTimeout_def)

lemma clearTimeout_frame [simp]:
  "pendingMessages (clearTimeout t st) = pendingMessages st"
  "messageHandlers (clearTimeout t st) = messageHandlers st"
  "config_targetOrigin (clearTimeout t st) = config_targetOrigin st"
  "config_timeout (clearTimeout t st) = config_timeout st"
  "config_debug (clearTimeout t st) = config_debug st"
  "config_maxRetries (clearTimeout t st) = config_maxRetries st"
  "isHost (clearTimeout t st) = isHost st"
  "targetWindow (clearTimeout t st) = targetWindow st"
  "cm_context (clearTimeout t st) = cm_context st"
  "contextHistory (clearTimeout t st) = contextHistory st"
  "iframe_id (clearTimeout t st) = iframe_id st"
  "modalStack (clearTimeout t st) = modalStack st"
  "modalResolve (clearTimeout t st) = modalResolve st"
  "onNavigationCallback (clearTimeout t st) = onNavigationCallback st"
  "onModalCallback (clearTimeout t st) = onModalCallback st"
  "listeners (clearTimeout t st) = listeners st"
  "promises (clearTimeout t st) = promises st"
  "next_handle (clearTimeout t st) = next_handle st"
  "awaiting (clearTimeout t st) = awaiting st"
  "microtasks (clearTimeout t st) = microtasks st"
  "clock (clearTimeout t st) = clock st"
  "clock_reads (clearTimeout t st) = clock_reads st"
  "random (clearTimeout t st) = random st"
  "random_reads (clearTimeout t st) = random_reads st"
  "posted (clearTimeout t st) = posted st"
  "console (clearTimeout t st) = console st"
  "invoked (clearTimeout t st) = invoked st"
  "modal_callbacks (clearTimeout t st) = modal_callbacks st"
  "navigation_callbacks (clearTimeout t st) = navigation_callbacks st"
  "window_effects (clearTimeout t st) = window_effects st"
  "settle_calls (clearTimeout t st) = settle_calls st"
  by (simp_all add: clearTimeout_def)

lemma settle_frame [simp]:
  "pendingMessages (settle p out c st) = pendingMessages st"
  "messageHandlers (settle p out c st) = messageHandlers st"
  "config_targetOrigin (settle p out c st) = config_targetOrigin st"
  "config_timeout (settle p out c st) = config_timeout st"
  "config_debug (settle p out c st) = config_debug st"
  "config_maxRetries (settle p out c st) = config_maxRetries st"
  "isHost (settle p out c st) = isHost st"
  "targetWindow (settle p out c st) = targetWindow st"
  "cm_context (settle p out c st) = cm_context st"
  "contextHistory (settle p out c st) = contextHistory st"
  "iframe_id (settle p out c st) = iframe_id st"
  "modalStack (settle p out c st) = modalStack st"
  "modalResolve (settle p out c st) = modalResolve st"
  "onNavigationCallback (settle p out c st) = onNavigationCallback st"
  "onModalCallback (settle p out c st) = onModalCallback st"
  "listeners (settle p out c st) = listeners st"
  "timers (settle p out c st) = timers st"
  "next_handle (settle p out c st) = next_handle st"
  "clock (settle p out c st) = clock st"
  "clock_reads (settle p out c st) = clock_reads st"
  "random (settle p out c st) = random st"
  "random_reads (settle p out c st) = random_reads st"
  "posted (settle p out c st) = posted st"
  "console (settle p out c st) = console st"
  "invoked (settle p out c st) = invoked st"
  "modal_callbacks (settle p out c st) = modal_callbacks st"
  "navigation_callbacks (settle p out c st) = navigation_callbacks st"
  "window_effects (settle p out c st) = window_effects st"
  by (simp_all add: settle_def Let_def split: option.split promise_state.split)

lemma await_frame [simp]:
  "pendingMessages (await p k st) = pendingMessages st"
  "messageHandlers (await p k st) = messageHandlers st"
  "config_targetOrigin (await p k st) = config_targetOrigin st"
  "config_timeout (await p k st) = config_timeout st"
  "config_debug (await p k st) = config_debug st"
  "config_maxRetries (await p k st) = config_maxRetries st"
  "isHost (await p k st) = isHost st"
  "targetWindow (await p k st) = targetWindow st"
  "cm_context (await p k st) = cm_context st"
  "contextHistory (await p k st) = contextHistory st"
  "iframe_id (await p k st) = iframe_id st"
  "modalStack (await p k st) = modalStack st"
  "modalResolve (await p k st) = modalResolve st"
  "onNavigationCallback (await p k st) = onNavigationCallback st"
  "onModalCallback (await p k st) = onModalCallback st"
  "listeners (await p k st) = listeners st"
  "promises (await p k st) = promises st"
  "timers (await p k st) = timers st"
  "next_handle (await p k st) = next_handle st"
  "clock (await p k st) = clock st"
  "clock_reads (await p k st) = clock_reads st"
  "random (await p k st) = random st"
  "random_reads (await p k st) = random_reads st"
  "posted (await p k st) = posted st"
  "console (await p k st) = console st"
  "invoked (await p k st) = invoked st"
  "modal_callbacks (await p k st) = modal_callbacks st"
  "navigation_callbacks (await p k st) = navigation_callbacks st"
  "window_effects (await p k st) = window_effects st"
  "settle_calls (await p k st) = settle_calls st"
  by (simp_all add: await_def split: option.split promise_state.split)

lemma sendWithResponse_frame [simp]:
  "messageHandlers (snd (sendWithResponse pid payload st)) = messageHandlers st"
  "config_targetOrigin (snd (sendWithResponse pid payload st)) = config_targetOrigin st"
  "config_timeout (snd (sendWithResponse pid payload st)) = config_timeout st"
  "config_debug (snd (sendWithResponse pid payload st)) = config_debug st"
  "config_maxRetries (snd (sendWithResponse pid payload st)) = config_maxRetries st"
  "isHost (snd (sendWithResponse pid payload st)) = isHost st"
  "targetWindow (snd (sendWithResponse pid payload st)) = targetWindow st"
  "cm_context (snd (sendWithResponse pid payload st)) = cm_context st"
  "contextHistory (snd (sendWithResponse pid payload st)) = contextHistory st"
  "iframe_id (snd (sendWithResponse pid payload st)) = iframe_id st"
  "modalStack (snd (sendWithResponse pid payload st)) = modalStack st"
  "modalResolve (snd (sendWithResponse pid payload st)) = modalResolve st"
  "onNavigationCallback (snd (sendWithResponse pid payload st)) = onNavigationCallback st"
  "onModalCallback (snd (sendWithResponse pid payload st)) = onModalCallback st"
  "listeners (snd (sendWithResponse pid payload st)) = listeners st"
  "clock (snd (sendWithResponse pid payload st)) = clock st"
  "clock_reads (snd (sendWithResponse pid payload st)) = clock_reads st"
  "random (snd (sendWithResponse pid payload st)) = random st"
  "random_reads (snd (sendWithResponse pid payload st)) = random_reads st"
  "console (snd (sendWithResponse pid payload st)) = console st"
  "invoked (snd (sendWithResponse pid payload st)) = invoked st"
  "modal_callbacks (snd (sendWithResponse pid payload st)) = modal_callbacks st"
  "navigation_callbacks (snd (sendWithResponse pid payload st)) = navigation_callbacks st"
  "window_effects (snd (sendWithResponse pid payload st)) = window_effects st"
  by (simp_all add: sendWithResponse_def split_beta Let_def split: sum.split)

lemma send_frame [simp]:
  "messageHandlers (snd (send type action data requiresResponse st)) = messageHandlers st"
  "config_targetOrigin (snd (send type action data requiresResponse st)) = config_targetOrigin st"
  "config_timeout (snd (send type action data requiresResponse st)) = config_timeout st"
  "config_debug (snd (send type action data requiresResponse st)) = config_debug st"
  "config_maxRetries (snd (send type action data requiresResponse st)) = config_maxRetries st"
  "isHost (snd (send type action data requiresResponse st)) = isHost st"
  "targetWindow (snd (send type action data requiresResponse st)) = targetWindow st"
  "cm_context (snd (send type action data requiresResponse st)) = cm_context st"
  "contextHistory (snd (send type action data requiresResponse st)) = contextHistory st"
  "iframe_id (snd (send type action data requiresResponse st)) = iframe_id st"
  "modalStack (snd (send type action data requiresResponse st)) = modalStack st"
  "modalResolve (snd (send type action data requiresResponse st)) = modalResolve st"
  "onNavigationCallback (snd (send type action data requiresResponse st)) = onNavigationCallback st"
  "onModalCallback (snd (send type action data requiresResponse st)) = onModalCallback st"
  "listeners (snd (send type action data requiresResponse st)) = listeners st"
  "clock (snd (send type action data requiresResponse st)) = clock st"
  "random (snd (send type action data requiresResponse st)) = random st"
  "invoked (snd (send type action data requiresResponse st)) = invoked st"
  "modal_callbacks (snd (send type action data requiresResponse st)) = modal_callbacks st"
  "navigation_callbacks (snd (send type action data requiresResponse st)) = navigation_callbacks st"
  "window_effects (snd (send type action data requiresResponse st)) = window_effects st"
  by (simp_all add: send_def split_beta Let_def split: sum.split)

lemma send_fire_frame [simp]:
  "pendingMessages (snd (send type action data False st)) = pendingMessages st"
  "messageHandlers (snd (send type action data False st)) = messageHandlers st"
  "config_targetOrigin (snd (send type action data False st)) = config_targetOrigin st"
  "config_timeout (snd (send type action data False st)) = config_timeout st"
  "config_debug (snd (send type action data False st)) = config_debug st"
  "config_maxRetries (snd (send type action data False st)) = config_maxRetries st"
  "isHost (snd (send type action data False st)) = isHost st"
  "targetWindow (snd (send type action data False st)) = targetWindow st"
  "cm_context (snd (send type action data False st)) = cm_context st"
  "contextHistory (snd (send type action data False st)) = contextHistory st"
  "iframe_id (snd (send type action data False st)) = iframe_id st"
  "modalStack (snd (send type action data False st)) = modalStack st"
  "modalResolve (snd (send type action data False st)) = modalResolve st"
  "onNavigationCallback (snd (send type action data False st)) = onNavigationCallback st"
  "onModalCallback (snd (send type action data False st)) = onModalCallback st"
  "listeners (snd (send type action data False st)) = listeners st"
  "promises (snd (send type action data False st)) = promises st"
  "timers (snd (send type action data False st)) = timers st"
  "next_handle (snd (send type action data False st)) = next_handle st"
  "awaiting (snd (send type action data False st)) = awaiting st"
  "microtasks (snd (send type action data False st)) = microtasks st"
  "clock (snd (send type action data False st)) = clock st"
  "random (snd (send type action data False st)) = random st"
  "invoked (snd (send type action data False st)) = invoked st"
  "modal_callbacks (snd (send type action data False st)) = modal_callbacks st"
  "navigation_callbacks (snd (send type action data False st)) = navigation_callbacks st"
  "window_effects (snd (send type action data False st)) = window_effects st"
  "settle_calls (snd (send type action data False st)) = settle_calls st"
  by (simp_all add: send_def split_beta Let_def split: sum.split)

lemma respond_frame [simp]:
  "pendingMessages (snd (respond originalMessageId data st)) = pendingMessages st"
  "messageHandlers (snd (respond originalMessageId data st)) = messageHandlers st"
  "config_targetOrigin (snd (respond originalMessageId data st)) = config_targetOrigin st"
  "config_timeout (snd (respond originalMessageId data st)) = config_timeout st"
  "config_debug (snd (respond originalMessageId data st)) = config_debug st"
  "config_maxRetries (snd (respond originalMessageId data st)) = config_maxRetries st"
  "isHost (snd (respond originalMessageId data st)) = isHost st"
  "targetWindow (snd (respond originalMessageId data st)) = targetWindow st"
  "cm_context (snd (respond originalMessageId data st)) = cm_context st"
  "contextHistory (snd (respond originalMessageId data st)) = contextHistory st"
  "iframe_id (snd (respond originalMessageId data st)) = iframe_id st"
  "modalStack (snd (respond originalMessageId data st)) = modalStack st"
  "modalResolve (snd (respond originalMessageId data st)) = modalResolve st"
  "onNavigationCallback (snd (respond originalMessageId data st)) = onNavigationCallback st"
  "onModalCallback (snd (respond originalMessageId data st)) = onModalCallback st"
  "listeners (snd (respond originalMessageId data st)) = listeners st"
  "promises (snd (respond originalMessageId data st)) = promises st"
  "timers (snd (respond originalMessageId data st)) = timers st"
  "next_handle (snd (respond originalMessageId data st)) = next_handle st"
  "awaiting (snd (respond originalMessageId data st)) = awaiting st"
  "microtasks (snd (respond originalMessageId data st)) = microtasks st"
  "clock (snd (respond originalMessageId data st)) = clock st"
  "random (snd (respond originalMessageId data st)) = random st"
  "invoked (snd (respond originalMessageId data st)) = invoked st"
  "modal_callbacks (snd (respond originalMessageId data st)) = modal_callbacks st"
  "navigation_callbacks (snd (respond originalMessageId data st)) = navigation_callbacks st"
  "window_effects (snd (respond originalMessageId data st)) = window_effects st"
  "settle_calls (snd (respond originalMessageId data st)) = settle_calls st"
  by (simp_all add: respond_def split_beta Let_def)

lemma on_type_frame [simp]:
  "pendingMessages (on_type type h st) = pendingMessages st"
  "config_targetOrigin (on_type type h st) = config_targetOrigin st"
  "config_timeout (on_type type h st) = config_timeout st"
  "config_debug (on_type type h st) = config_debug st"
  "config_maxRetries (on_type type h st) = config_maxRetries st"
  "isHost (on_type type h st) = isHost st"
  "targetWindow (on_type type h st) = targetWindow st"
  "cm_context (on_type type h st) = cm_context st"
  "contextHistory (on_type type h st) = contextHistory st"
  "iframe_id (on_type type h st) = iframe_id st"
  "modalStack (on_type type h st) = modalStack st"
  "modalResolve (on_type type h st) = modalResolve st"
  "onNavigationCallback (on_type type h st) = onNavigationCallback st"
  "onModalCallback (on_type type h st) = onModalCallback st"
  "listeners (on_type type h st) = listeners st"
  "promises (on_type type h st) = promises st"
  "timers (on_type type h st) = timers st"
  "next_handle (on_type type h st) = next_handle st"
  "awaiting (on_type type h st) = awaiting st"
  "microtasks (on_type type h st) = microtasks st"
  "clock (on_type type h st) = clock st"
  "clock_reads (on_type type h st) = clock_reads st"
  "random (on_type type h st) = random st"
  "random_reads (on_type type h st) = random_reads st"
  "posted (on_type type h st) = posted st"
  "console (on_type type h st) = console st"
  "invoked (on_type type h st) = invoked st"
  "modal_callbacks (on_type type h st) = modal_callbacks st"
  "navigation_callbacks (on_type type h st) = navigation_callbacks st"
  "window_effects (on_type type h st) = window_effects st"
  "settle_calls (on_type type h st) = settle_calls st"
  by (simp_all add: on_type_def)

lemma onAction_frame [simp]:
  "pendingMessages (onAction type action h st) = pendingMessages st"
  "config_targetOrigin (onAction type action h st) = config_targetOrigin st"
  "config_timeout (onAction type action h st) = config_timeout st"
  "config_debug (onAction type action h st) = config_debug st"
  "config_maxRetries (onAction type action h st) = config_maxRetries st"
  "isHost (onAction type action h st) = isHost st"
  "targetWindow (onAction type action h st) = targetWindow st"
  "cm_context (onAction type action h st) = cm_context st"
  "contextHistory (onAction type action h st) = contextHistory st"
  "iframe_id (onAction type action h st) = iframe_id st"
  "modalStack (onAction type action h st) = modalStack st"
  "modalResolve (onAction type action h st) = modalResolve st"
  "onNavigationCallback (onAction type action h st) = onNavigationCallback st"
  "onModalCallback (onAction type action h st) = onModalCallback st"
  "listeners (onAction type action h st) = listeners st"
  "promises (onAction type action h st) = promises st"
  "timers (onAction type action h st) = timers st"
  "next_handle (onAction type action h st) = next_handle st"
  "awaiting (onAction type action h st) = awaiting st"
  "microtasks (onAction type action h st) = microtasks st"
  "clock (onAction type action h st) = clock st"
  "clock_reads (onAction type action h st) = clock_reads st"
  "random (onAction type action h st) = random st"
  "random_reads (onAction type action h st) = random_reads st"
  "posted (onAction type action h st) = posted st"
  "console (onAction type action h st) = console st"
  "invoked (onAction type action h st) = invoked st"
  "modal_callbacks (onAction type action h st) = modal_callbacks st"
  "navigation_callbacks (onAction type action h st) = navigation_callbacks st"
  "window_effects (onAction type action h st) = window_effects st"
  "settle_calls (onAction type action h st) = settle_calls st"
  by (simp_all add: onAction_def)

lemma off_frame [simp]:
  "pendingMessages (off type action st) = pendingMessages st"
  "config_targetOrigin (off type action st) = config_targetOrigin st"
  "config_timeout (off type action st) = config_timeout st"
  "config_debug (off type action st) = config_debug st"
  "config_maxRetries (off type action st) = config_maxRetries st"
  "isHost (off type action st) = isHost st"
  "targetWindow (off type action st) = targetWindow st"
  "cm_context (off type action st) = cm_context st"
  "contextHistory (off type action st) = contextHistory st"
  "iframe_id (off type action st) = iframe_id st"
  "modalStack (off type action st) = modalStack st"
  "modalResolve (off type action st) = modalResolve st"
  "onNavigationCallback (off type action st) = onNavigationCallback st"
  "onModalCallback (off type action st) = onModalCallback st"
  "listeners (off type action st) = listeners st"
  "promises (off type action st) = promises st"
  "timers (off type action st) = timers st"
  "next_handle (off type action st) = next_handle st"
  "awaiting (off type action st) = awaiting st"
  "microtasks (off type action st) = microtasks st"
  "clock (off type action st) = clock st"
  "clock_reads (off type action st) = clock_reads st"
  "random (off type action st) = random st"
  "random_reads (off type action st) = random_reads st"
  "posted (off type action st) = posted st"
  "console (off type action st) = console st"
  "invoked (off type action st) = invoked st"
  "modal_callbacks (off type action st) = modal_callbacks st"
  "navigation_callbacks (off type action st) = navigation_callbacks st"
  "window_effects (off type action st) = window_effects st"
  "settle_calls (off type action st) = settle_calls st"
  by (simp_all add: off_def Let_def)

lemma setTargetWindow_frame [simp]:
  "pendingMessages (setTargetWindow hasContentWindow st) = pendingMessages st"
  "messageHandlers (setTargetWindow hasContentWindow st) = messageHandlers st"
  "config_targetOrigin (setTargetWindow hasContentWindow st) = config_targetOrigin st"
  "config_timeout (setTargetWindow hasContentWindow st) = config_timeout st"
  "config_debug (setTargetWindow hasContentWindow st) = config_debug st"
  "config_maxRetries (setTargetWindow hasContentWindow st) = config_maxRetries st"
  "isHost (setTargetWindow hasContentWindow st) = isHost st"
  "cm_context (setTargetWindow hasContentWindow st) = cm_context st"
  "contextHistory (setTargetWindow hasContentWindow st) = contextHistory st"
  "iframe_id (setTargetWindow hasContentWindow st) = iframe_id st"
  "modalStack (setTargetWindow hasContentWindow st) = modalStack st"
  "modalResolve (setTargetWindow hasContentWindow st) = modalResolve st"
  "onNavigationCallback (setTargetWindow hasContentWindow st) = onNavigationCallback st"
  "onModalCallback (setTargetWindow hasContentWindow st) = onModalCallback st"
  "listeners (setTargetWindow hasContentWindow st) = listeners st"
  "promises (setTargetWindow hasContentWindow st) = promises st"
  "timers (setTargetWindow hasContentWindow st) = timers st"
  "next_handle (setTargetWindow hasContentWindow st) = next_handle st"
  "awaiting (setTargetWindow hasContentWindow st) = awaiting st"
  "microtasks (setTargetWindow hasContentWindow st) = microtasks st"
  "clock (setTargetWindow hasContentWindow st) = clock st"
  "clock_reads (setTargetWindow hasContentWindow st) = clock_reads st"
  "random (setTargetWindow hasContentWindow st) = random st"
  "random_reads (setTargetWindow hasContentWindow st) = random_reads st"
  "posted (setTargetWindow hasContentWindow st) = posted st"
  "console (setTargetWindow hasContentWindow st) = console st"
  "invoked (setTargetWindow hasContentWindow st) = invoked st"
  "modal_callbacks (setTargetWindow hasContentWindow st) = modal_callbacks st"
  "navigation_callbacks (setTargetWindow hasContentWindow st) = navigation_callbacks st"
  "window_effects (setTargetWindow hasContentWindow st) = window_effects st"
  "settle_calls (setTargetWindow hasContentWindow st) = settle_calls st"
  by (simp_all add: setTargetWindow_def)

lemma addToHistory_frame [simp]:
  "pendingMessages (addToHistory st) = pendingMessages st"
  "messageHandlers (addToHistory st) = messageHandlers st"
  "config_targetOrigin (addToHistory st) = config_targetOrigin st"
  "config_timeout (addToHistory st) = config_timeout st"
  "config_debug (addToHistory st) = config_debug st"
  "config_maxRetries (addToHistory st) = config_maxRetries st"
  "isHost (addToHistory st) = isHost st"
  "targetWindow (addToHistory st) = targetWindow st"
  "cm_context (addToHistory st) = cm_context st"
  "iframe_id (addToHistory st) = iframe_id st"
  "modalStack (addToHistory st) = modalStack st"
  "modalResolve (addToHistory st) = modalResolve st"
  "onNavigationCallback (addToHistory st) = onNavigationCallback st"
  "onModalCallback (addToHistory st) = onModalCallback st"
  "listeners (addToHistory st) = listeners st"
  "promises (addToHistory st) = promises st"
  "timers (addToHistory st) = timers st"
  "next_handle (addToHistory st) = next_handle st"
  "awaiting (addToHistory st) = awaiting st"
  "microtasks (addToHistory st) = microtasks st"
  "clock (addToHistory st) = clock st"
  "clock_reads (addToHistory st) = clock_reads st"
  "random (addToHistory st) = random st"
  "random_reads (addToHistory st) = random_reads st"
  "posted (addToHistory st) = posted st"
  "console (addToHistory st) = console st"
  "invoked (addToHistory st) = invoked st"
  "modal_callbacks (addToHistory st) = modal_callbacks st"
  "navigation_callbacks (addToHistory st) = navigation_callbacks st"
  "window_effects (addToHistory st) = window_effects st"
  "settle_calls (addToHistory st) = settle_calls st"
  by (simp_all add: addToHistory_def Let_def)

lemma updateContext_frame [simp]:
  "pendingMessages (snd (updateContext updates notify st)) = pendingMessages st"
  "messageHandlers (snd (updateContext updates notify st)) = messageHandlers st"
  "config_targetOrigin (snd (updateContext updates notify st)) = config_targetOrigin st"
  "config_timeout (snd (updateContext updates notify st)) = config_timeout st"
  "config_debug (snd (updateContext updates notify st)) = config_debug st"
  "config_maxRetries (snd (updateContext updates notify st)) = config_maxRetries st"
  "isHost (snd (updateContext updates notify st)) = isHost st"
  "targetWindow (snd (updateContext updates notify st)) = targetWindow st"
  "iframe_id (snd (updateContext updates notify st)) = iframe_id st"
  "modalStack (snd (updateContext updates notify st)) = modalStack st"
  "modalResolve (snd (updateContext updates notify st)) = modalResolve st"
  "onNavigationCallback (snd (updateContext updates notify st)) = onNavigationCallback st"
  "onModalCallback (snd (updateContext updates notify st)) = onModalCallback st"
  "listeners (snd (updateContext updates notify st)) = listeners st"
  "promises (snd (updateContext updates notify st)) = promises st"
  "timers (snd (updateContext updates notify st)) = timers st"
  "next_handle (snd (updateContext updates notify st)) = next_handle st"
  "awaiting (snd (updateContext updates notify st)) = awaiting st"
  "microtasks (snd (updateContext updates notify st)) = microtasks st"
  "clock (snd (updateContext updates notify st)) = clock st"
  "random (snd (updateContext updates notify st)) = random st"
  "invoked (snd (updateContext updates notify st)) = invoked st"
  "modal_callbacks (snd (updateContext updates notify st)) = modal_callbacks st"
  "navigation_callbacks (snd (updateContext updates notify st)) = navigation_callbacks st"
  "window_effects (snd (updateContext updates notify st)) = window_effects st"
  "settle_calls (snd (updateContext updates notify st)) = settle_calls st"
  by (simp_all add: updateContext_def split_beta Let_def split: send_result.split)

lemma merge_remote_frame [simp]:
  "pendingMessages (merge_remote remoteContext st) = pendingMessages st"
  "messageHandlers (merge_remote remoteContext st) = messageHandlers st"
  "config_targetOrigin (merge_remote remoteContext st) = config_targetOrigin st"
  "config_timeout (merge_remote remoteContext st) = config_timeout st"
  "config_debug (merge_remote remoteContext st) = config_debug st"
  "config_maxRetries (merge_remote remoteContext st) = config_maxRetries st"
  "isHost (merge_remote remoteContext st) = isHost st"
  "targetWindow (merge_remote remoteContext st) = targetWindow st"
  "contextHistory (merge_remote remoteContext st) = contextHistory st"
  "iframe_id (merge_remote remoteContext st) = iframe_id st"
  "modalStack (merge_remote remoteContext st) = modalStack st"
  "modalResolve (merge_remote remoteContext st) = modalResolve st"
  "onNavigationCallback (merge_remote remoteContext st) = onNavigationCallback st"
  "onModalCallback (merge_remote remoteContext st) = onModalCallback st"
  "listeners (merge_remote remoteContext st) = listeners st"
  "promises (merge_remote remoteContext st) = promises st"
  "timers (merge_remote remoteContext st) = timers st"
  "next_handle (merge_remote remoteContext st) = next_handle st"
  "awaiting (merge_remote remoteContext st) = awaiting st"
  "microtasks (merge_remote remoteContext st) = microtasks st"
  "clock (merge_remote remoteContext st) = clock st"
  "random (merge_remote remoteContext st) = random st"
  "random_reads (merge_remote remoteContext st) = random_reads st"
  "posted (merge_remote remoteContext st) = posted st"
  "console (merge_remote remoteContext st) = console st"
  "invoked (merge_remote remoteContext st) = invoked st"
  "modal_callbacks (merge_remote remoteContext st) = modal_callbacks st"
  "navigation_callbacks (merge_remote remoteContext st) = navigation_callbacks st"
  "window_effects (merge_remote remoteContext st) = window_effects st"
  "settle_calls (merge_remote remoteContext st) = settle_calls st"
  by (simp_all add: merge_remote_def split_beta Let_def)

lemma warn_sync_failed_frame [simp]:
  "pendingMessages (warn_sync_failed e st) = pendingMessages st"
  "messageHandlers (warn_sync_failed e st) = messageHandlers st"
  "config_targetOrigin (warn_sync_failed e st) = config_targetOrigin st"
  "config_timeout (warn_sync_failed e st) = config_timeout st"
  "config_debug (warn_sync_failed e st) = config_debug st"
  "config_maxRetries (warn_sync_failed e st) = config_maxRetries st"
  "isHost (warn_sync_failed e st) = isHost st"
  "targetWindow (warn_sync_failed e st) = targetWindow st"
  "cm_context (warn_sync_failed e st) = cm_context st"
  "contextHistory (warn_sync_failed e st) = contextHistory st"
  "iframe_id (warn_sync_failed e st) = iframe_id st"
  "modalStack (warn_sync_failed e st) = modalStack st"
  "modalResolve (warn_sync_failed e st) = modalResolve st"
  "onNavigationCallback (warn_sync_failed e st) = onNavigationCallback st"
  "onModalCallback (warn_sync_failed e st) = onModalCallback st"
  "listeners (warn_sync_failed e st) = listeners st"
  "promises (warn_sync_failed e st) = promises st"
  "timers (warn_sync_failed e st) = timers st"
  "next_handle (warn_sync_failed e st) = next_handle st"
  "awaiting (warn_sync_failed e st) = awaiting st"
  "microtasks (warn_sync_failed e st) = microtasks st"
  "clock (warn_sync_failed e st) = clock st"
  "clock_reads (warn_sync_failed e st) = clock_reads st"
  "random (warn_sync_failed e st) = random st"
  "random_reads (warn_sync_failed e st) = random_reads st"
  "posted (warn_sync_failed e st) = posted st"
  "invoked (warn_sync_failed e st) = invoked st"
  "modal_callbacks (warn_sync_failed e st) = modal_callbacks st"
  "navigation_callbacks (warn_sync_failed e st) = navigation_callbacks st"
  "window_effects (warn_sync_failed e st) = window_effects st"
  "settle_calls (warn_sync_failed e st) = settle_calls st"
  by (simp_all add: warn_sync_failed_def)

lemma syncContext_frame [simp]:
  "messageHandlers (syncContext remoteContext st) = messageHandlers st"
  "config_targetOrigin (syncContext remoteContext st) = config_targetOrigin st"
  "config_timeout (syncContext remoteContext st) = config_timeout st"
  "config_debug (syncContext remoteContext st) = config_debug st"
  "config_maxRetries (syncContext remoteContext st) = config_maxRetries st"
  "isHost (syncContext remoteContext st) = isHost st"
  "targetWindow (syncContext remoteContext st) = targetWindow st"
  "contextHistory (syncContext remoteContext st) = contextHistory st"
  "iframe_id (syncContext remoteContext st) = iframe_id st"
  "modalStack (syncContext remoteContext st) = modalStack st"
  "modalResolve (syncContext remoteContext st) = modalResolve st"
  "onNavigationCallback (syncContext remoteContext st) = onNavigationCallback st"
  "onModalCallback (syncContext remoteContext st) = onModalCallback st"
  "listeners (syncContext remoteContext st) = listeners st"
  "clock (syncContext remoteContext st) = clock st"
  "random (syncContext remoteContext st) = random st"
  "invoked (syncContext remoteContext st) = invoked st"
  "modal_callbacks (syncContext remoteContext st) = modal_callbacks st"
  "navigation_callbacks (syncContext remoteContext st) = navigation_callbacks st"
  "window_effects (syncContext remoteContext st) = window_effects st"
  by (simp_all add: syncContext_def split_beta split: send_result.split)

lemma updateNavigation_frame [simp]:
  "pendingMessages (snd (updateNavigation navigation st)) = pendingMessages st"
  "messageHandlers (snd (updateNavigation navigation st)) = messageHandlers st"
  "config_targetOrigin (snd (updateNavigation navigation st)) = config_targetOrigin st"
  "config_timeout (snd (updateNavigation navigation st)) = config_timeout st"
  "config_debug (snd (updateNavigation navigation st)) = config_debug st"
  "config_maxRetries (snd (updateNavigation navigation st)) = config_maxRetries st"
  "isHost (snd (updateNavigation navigation st)) = isHost st"
  "targetWindow (snd (updateNavigation navigation st)) = targetWindow st"
  "iframe_id (snd (updateNavigation navigation st)) = iframe_id st"
  "modalStack (snd (updateNavigation navigation st)) = modalStack st"
  "modalResolve (snd (updateNavigation navigation st)) = modalResolve st"
  "onNavigationCallback (snd (updateNavigation navigation st)) = onNavigationCallback st"
  "onModalCallback (snd (updateNavigation navigation st)) = onModalCallback st"
  "listeners (snd (updateNavigation navigation st)) = listeners st"
  "promises (snd (updateNavigation navigation st)) = promises st"
  "timers (snd (updateNavigation navigation st)) = timers st"
  "next_handle (snd (updateNavigation navigation st)) = next_handle st"
  "awaiting (snd (updateNavigation navigation st)) = awaiting st"
  "microtasks (snd (updateNavigation navigation st)) = microtasks st"
  "clock (snd (updateNavigation navigation st)) = clock st"
  "random (snd (updateNavigation navigation st)) = random st"
  "invoked (snd (updateNavigation navigation st)) = invoked st"
  "modal_callbacks (snd (updateNavigation navigation st)) = modal_callbacks st"
  "navigation_callbacks (snd (updateNavigation navigation st)) = navigation_callbacks st"
  "window_effects (snd (updateNavigation navigation st)) = window_effects st"
  "settle_calls (snd (updateNavigation navigation st)) = settle_calls st"
  by (simp_all add: updateNavigation_def Let_def)

lemma addBreadcrumb_frame [simp]:
  "pendingMessages (snd (addBreadcrumb label path params st)) = pendingMessages st"
  "messageHandlers (snd (addBreadcrumb label path params st)) = messageHandlers st"
  "config_targetOrigin (snd (addBreadcrumb label path params st)) = config_targetOrigin st"
  "config_timeout (snd (addBreadcrumb label path params st)) = config_timeout st"
  "config_debug (snd (addBreadcrumb label path params st)) = config_debug st"
  "config_maxRetries (snd (addBreadcrumb label path params st)) = config_maxRetries st"
  "isHost (snd (addBreadcrumb label path params st)) = isHost st"
  "targetWindow (snd (addBreadcrumb label path params st)) = targetWindow st"
  "iframe_id (snd (addBreadcrumb label path params st)) = iframe_id st"
  "modalStack (snd (addBreadcrumb label path params st)) = modalStack st"
  "modalResolve (snd (addBreadcrumb label path params st)) = modalResolve st"
  "onNavigationCallback (snd (addBreadcrumb label path params st)) = onNavigationCallback st"
  "onModalCallback (snd (addBreadcrumb label path params st)) = onModalCallback st"
  "listeners (snd (addBreadcrumb label path params st)) = listeners st"
  "promises (snd (addBreadcrumb label path params st)) = promises st"
  "timers (snd (addBreadcrumb label path params st)) = timers st"
  "next_handle (snd (addBreadcrumb label path params st)) = next_handle st"
  "awaiting (snd (addBreadcrumb label path params st)) = awaiting st"
  "microtasks (snd (addBreadcrumb label path params st)) = microtasks st"
  "clock (snd (addBreadcrumb label path params st)) = clock st"
  "random (snd (addBreadcrumb label path params st)) = random st"
  "invoked (snd (addBreadcrumb label path params st)) = invoked st"
  "modal_callbacks (snd (addBreadcrumb label path params st)) = modal_callbacks st"
  "navigation_callbacks (snd (addBreadcrumb label path params st)) = navigation_callbacks st"
  "window_effects (snd (addBreadcrumb label path params st)) = window_effects st"
  "settle_calls (snd (addBreadcrumb label path params st)) = settle_calls st"
  by (simp_all add: addBreadcrumb_def split: sum.split jsval.split option.split)

lemma restoreFromHistory_frame [simp]:
  "pendingMessages (snd (restoreFromHistory index st)) = pendingMessages st"
  "messageHandlers (snd (restoreFromHistory index st)) = messageHandlers st"
  "config_targetOrigin (snd (restoreFromHistory index st)) = config_targetOrigin st"
  "config_timeout (snd (restoreFromHistory index st)) = config_timeout st"
  "config_debug (snd (restoreFromHistory index st)) = config_debug st"
  "config_maxRetries (snd (restoreFromHistory index st)) = config_maxRetries st"
  "isHost (snd (restoreFromHistory index st)) = isHost st"
  "targetWindow (snd (restoreFromHistory index st)) = targetWindow st"
  "iframe_id (snd (restoreFromHistory index st)) = iframe_id st"
  "modalStack (snd (restoreFromHistory index st)) = modalStack st"
  "modalResolve (snd (restoreFromHistory index st)) = modalResolve st"
  "onNavigationCallback (snd (restoreFromHistory index st)) = onNavigationCallback st"
  "onModalCallback (snd (restoreFromHistory index st)) = onModalCallback st"
  "listeners (snd (restoreFromHistory index st)) = listeners st"
  "promises (snd (restoreFromHistory index st)) = promises st"
  "timers (snd (restoreFromHistory index st)) = timers st"
  "next_handle (snd (restoreFromHistory index st)) = next_handle st"
  "awaiting (snd (restoreFromHistory index st)) = awaiting st"
  "microtasks (snd (restoreFromHistory index st)) = microtasks st"
  "clock (snd (restoreFromHistory index st)) = clock st"
  "random (snd (restoreFromHistory index st)) = random st"
  "invoked (snd (restoreFromHistory index st)) = invoked st"
  "modal_callbacks (snd (restoreFromHistory index st)) = modal_callbacks st"
  "navigation_callbacks (snd (restoreFromHistory index st)) = navigation_callbacks st"
  "window_effects (snd (restoreFromHistory index st)) = window_effects st"
  "settle_calls (snd (restoreFromHistory index st)) = settle_calls st"
  by (simp_all add: restoreFromHistory_def split_beta split: sum.split)

lemma handleNavigation_frame [simp]:
  "pendingMessages (snd (handleNavigation data st)) = pendingMessages st"
  "messageHandlers (snd (handleNavigation data st)) = messageHandlers st"
  "config_targetOrigin (snd (handleNavigation data st)) = config_targetOrigin st"
  "config_timeout (snd (handleNavigation data st)) = config_timeout st"
  "config_debug (snd (handleNavigation data st)) = config_debug st"
  "config_maxRetries (snd (handleNavigation data st)) = config_maxRetries st"
  "isHost (snd (handleNavigation data st)) = isHost st"
  "targetWindow (snd (handleNavigation data st)) = targetWindow st"
  "iframe_id (snd (handleNavigation data st)) = iframe_id st"
  "modalStack (snd (handleNavigation data st)) = modalStack st"
  "modalResolve (snd (handleNavigation data st)) = modalResolve st"
  "onNavigationCallback (snd (handleNavigation data st)) = onNavigationCallback st"
  "onModalCallback (snd (handleNavigation data st)) = onModalCallback st"
  "listeners (snd (handleNavigation data st)) = listeners st"
  "promises (snd (handleNavigation data st)) = promises st"
  "timers (snd (handleNavigation data st)) = timers st"
  "next_handle (snd (handleNavigation data st)) = next_handle st"
  "awaiting (snd (handleNavigation data st)) = awaiting st"
  "microtasks (snd (handleNavigation data st)) = microtasks st"
  "clock (snd (handleNavigation data st)) = clock st"
  "random (snd (handleNavigation data st)) = random st"
  "invoked (snd (handleNavigation data st)) = invoked st"
  "modal_callbacks (snd (handleNavigation data st)) = modal_callbacks st"
  "settle_calls (snd (handleNavigation data st)) = settle_calls st"
  by (simp_all add: handleNavigation_def Let_def split: sum.split)

lemma handleGoBack_frame [simp]:
  "pendingMessages (snd (handleGoBack data st)) = pendingMessages st"
  "messageHandlers (snd (handleGoBack data st)) = messageHandlers st"
  "config_targetOrigin (snd (handleGoBack data st)) = config_targetOrigin st"
  "config_timeout (snd (handleGoBack data st)) = config_timeout st"
  "config_debug (snd (handleGoBack data st)) = config_debug st"
  "config_maxRetries (snd (handleGoBack data st)) = config_maxRetries st"
  "isHost (snd (handleGoBack data st)) = isHost st"
  "targetWindow (snd (handleGoBack data st)) = targetWindow st"
  "cm_context (snd (handleGoBack data st)) = cm_context st"
  "contextHistory (snd (handleGoBack data st)) = contextHistory st"
  "iframe_id (snd (handleGoBack data st)) = iframe_id st"
  "modalStack (snd (handleGoBack data st)) = modalStack st"
  "modalResolve (snd (handleGoBack data st)) = modalResolve st"
  "onNavigationCallback (snd (handleGoBack data st)) = onNavigationCallback st"
  "onModalCallback (snd (handleGoBack data st)) = onModalCallback st"
  "listeners (snd (handleGoBack data st)) = listeners st"
  "promises (snd (handleGoBack data st)) = promises st"
  "timers (snd (handleGoBack data st)) = timers st"
  "next_handle (snd (handleGoBack data st)) = next_handle st"
  "awaiting (snd (handleGoBack data st)) = awaiting st"
  "microtasks (snd (handleGoBack data st)) = microtasks st"
  "clock (snd (handleGoBack data st)) = clock st"
  "clock_reads (snd (handleGoBack data st)) = clock_reads st"
  "random (snd (handleGoBack data st)) = random st"
  "random_reads (snd (handleGoBack data st)) = random_reads st"
  "posted (snd (handleGoBack data st)) = posted st"
  "console (snd (handleGoBack data st)) = console st"
  "invoked (snd (handleGoBack data st)) = invoked st"
  "modal_callbacks (snd (handleGoBack data st)) = modal_callbacks st"
  "window_effects (snd (handleGoBack data st)) = window_effects st"
  "settle_calls (snd (handleGoBack data st)) = settle_calls st"
  by (simp_all add: handleGoBack_def split: sum.split)

lemma handleModalOpen_frame [simp]:
  "pendingMessages (snd (handleModalOpen data st)) = pendingMessages st"
  "messageHandlers (snd (handleModalOpen data st)) = messageHandlers st"
  "config_targetOrigin (snd (handleModalOpen data st)) = config_targetOrigin st"
  "config_timeout (snd (handleModalOpen data st)) = config_timeout st"
  "config_debug (snd (handleModalOpen data st)) = config_debug st"
  "config_maxRetries (snd (handleModalOpen data st)) = config_maxRetries st"
  "isHost (snd (handleModalOpen data st)) = isHost st"
  "targetWindow (snd (handleModalOpen data st)) = targetWindow st"
  "cm_context (snd (handleModalOpen data st)) = cm_context st"
  "contextHistory (snd (handleModalOpen data st)) = contextHistory st"
  "iframe_id (snd (handleModalOpen data st)) = iframe_id st"
  "onNavigationCallback (snd (handleModalOpen data st)) = onNavigationCallback st"
  "onModalCallback (snd (handleModalOpen data st)) = onModalCallback st"
  "listeners (snd (handleModalOpen data st)) = listeners st"
  "timers (snd (handleModalOpen data st)) = timers st"
  "awaiting (snd (handleModalOpen data st)) = awaiting st"
  "microtasks (snd (handleModalOpen data st)) = microtasks st"
  "clock (snd (handleModalOpen data st)) = clock st"
  "clock_reads (snd (handleModalOpen data st)) = clock_reads st"
  "random (snd (handleModalOpen data st)) = random st"
  "random_reads (snd (handleModalOpen data st)) = random_reads st"
  "posted (snd (handleModalOpen data st)) = posted st"
  "console (snd (handleModalOpen data st)) = console st"
  "invoked (snd (handleModalOpen data st)) = invoked st"
  "navigation_callbacks (snd (handleModalOpen data st)) = navigation_callbacks st"
  "window_effects (snd (handleModalOpen data st)) = window_effects st"
  "settle_calls (snd (handleModalOpen data st)) = settle_calls st"
  by (simp_all add: handleModalOpen_def split_beta Let_def)

lemma handleModalClose_frame [simp]:
  "pendingMessages (handleModalClose data st) = pendingMessages st"
  "messageHandlers (handleModalClose data st) = messageHandlers st"
  "config_targetOrigin (handleModalClose data st) = config_targetOrigin st"
  "config_timeout (handleModalClose data st) = config_timeout st"
  "config_debug (handleModalClose data st) = config_debug st"
  "config_maxRetries (handleModalClose data st) = config_maxRetries st"
  "isHost (handleModalClose data st) = isHost st"
  "targetWindow (handleModalClose data st) = targetWindow st"
  "cm_context (handleModalClose data st) = cm_context st"
  "contextHistory (handleModalClose data st) = contextHistory st"
  "iframe_id (handleModalClose data st) = iframe_id st"
  "onNavigationCallback (handleModalClose data st) = onNavigationCallback st"
  "onModalCallback (handleModalClose data st) = onModalCallback st"
  "listeners (handleModalClose data st) = listeners st"
  "timers (handleModalClose data st) = timers st"
  "next_handle (handleModalClose data st) = next_handle st"
  "clock (handleModalClose data st) = clock st"
  "clock_reads (handleModalClose data st) = clock_reads st"
  "random (handleModalClose data st) = random st"
  "random_reads (handleModalClose data st) = random_reads st"
  "posted (handleModalClose data st) = posted st"
  "console (handleModalClose data st) = console st"
  "invoked (handleModalClose data st) = invoked st"
  "navigation_callbacks (handleModalClose data st) = navigation_callbacks st"
  "window_effects (handleModalClose data st) = window_effects st"
  by (simp_all add: handleModalClose_def Let_def split: option.split)

lemma invoke_frame [simp]:
  "messageHandlers (snd (invoke h payload st)) = messageHandlers st"
  "config_targetOrigin (snd (invoke h payload st)) = config_targetOrigin st"
  "config_timeout (snd (invoke h payload st)) = config_timeout st"
  "config_debug (snd (invoke h payload st)) = config_debug st"
  "config_maxRetries (snd (invoke h payload st)) = config_maxRetries st"
  "isHost (snd (invoke h payload st)) = isHost st"
  "targetWindow (snd (invoke h payload st)) = targetWindow st"
  "iframe_id (snd (invoke h payload st)) = iframe_id st"
  "onNavigationCallback (snd (invoke h payload st)) = onNavigationCallback st"
  "onModalCallback (snd (invoke h payload st)) = onModalCallback st"
  "listeners (snd (invoke h payload st)) = listeners st"
  "clock (snd (invoke h payload st)) = clock st"
  "random (snd (invoke h payload st)) = random st"
  "invoked (snd (invoke h payload st)) = invoked st"
  by (cases h; simp add: split_beta)+

lemma dispatch_frame [simp]:
  "messageHandlers (dispatch key h payload st) = messageHandlers st"
  "config_targetOrigin (dispatch key h payload st) = config_targetOrigin st"
  "config_timeout (dispatch key h payload st) = config_timeout st"
  "config_debug (dispatch key h payload st) = config_debug st"
  "config_maxRetries (dispatch key h payload st) = config_maxRetries st"
  "isHost (dispatch key h payload st) = isHost st"
  "targetWindow (dispatch key h payload st) = targetWindow st"
  "iframe_id (dispatch key h payload st) = iframe_id st"
  "onNavigationCallback (dispatch key h payload st) = onNavigationCallback st"
  "onModalCallback (dispatch key h payload st) = onModalCallback st"
  "listeners (dispatch key h payload st) = listeners st"
  "clock (dispatch key h payload st) = clock st"
  "random (dispatch key h payload st) = random st"
  by (simp_all add: dispatch_def split_beta split: handler_result.split)

lemma handleIncomingMessage_frame [simp]:
  "messageHandlers (handleIncomingMessage payload st) = messageHandlers st"
  "config_targetOrigin (handleIncomingMessage payload st) = config_targetOrigin st"
  "config_timeout (handleIncomingMessage payload st) = config_timeout st"
  "config_debug (handleIncomingMessage payload st) = config_debug st"
  "config_maxRetries (handleIncomingMessage payload st) = config_maxRetries st"
  "isHost (handleIncomingMessage payload st) = isHost st"
  "targetWindow (handleIncomingMessage payload st) = targetWindow st"
  "iframe_id (handleIncomingMessage payload st) = iframe_id st"
  "onNavigationCallback (handleIncomingMessage payload st) = onNavigationCallback st"
  "onModalCallback (handleIncomingMessage payload st) = onModalCallback st"
  "listeners (handleIncomingMessage payload st) = listeners st"
  "clock (handleIncomingMessage payload st) = clock st"
  "random (handleIncomingMessage payload st) = random st"
  by (simp_all add: handleIncomingMessage_def Let_def split: option.split)

lemma handleResponse_frame [simp]:
  "messageHandlers (handleResponse payload st) = messageHandlers st"
  "config_targetOrigin (handleResponse payload st) = config_targetOrigin st"
  "config_timeout (handleResponse payload st) = config_timeout st"
  "config_debug (handleResponse payload st) = config_debug st"
  "config_maxRetries (handleResponse payload st) = config_maxRetries st"
  "isHost (handleResponse payload st) = isHost st"
  "targetWindow (handleResponse payload st) = targetWindow st"
  "cm_context (handleResponse payload st) = cm_context st"
  "contextHistory (handleResponse payload st) = contextHistory st"
  "iframe_id (handleResponse payload st) = iframe_id st"
  "modalStack (handleResponse payload st) = modalStack st"
  "modalResolve (handleResponse payload st) = modalResolve st"
  "onNavigationCallback (handleResponse payload st) = onNavigationCallback st"
  "onModalCallback (handleResponse payload st) = onModalCallback st"
  "listeners (handleResponse payload st) = listeners st"
  "next_handle (handleResponse payload st) = next_handle st"
  "clock (handleResponse payload st) = clock st"
  "clock_reads (handleResponse payload st) = clock_reads st"
  "random (handleResponse payload st) = random st"
  "random_reads (handleResponse payload st) = random_reads st"
  "posted (handleResponse payload st) = posted st"
  "console (handleResponse payload st) = console st"
  "invoked (handleResponse payload st) = invoked st"
  "modal_callbacks (handleResponse payload st) = modal_callbacks st"
  "navigation_callbacks (handleResponse payload st) = navigation_callbacks st"
  "window_effects (handleResponse payload st) = window_effects st"
  by (simp_all add: handleResponse_def Let_def split: option.split)

lemma handleMessage_frame [simp]:
  "messageHandlers (handleMessage origin data st) = messageHandlers st"
  "config_targetOrigin (handleMessage origin data st) = config_targetOrigin st"
  "config_timeout (handleMessage origin data st) = config_timeout st"
  "config_debug (handleMessage origin data st) = config_debug st"
  "config_maxRetries (handleMessage origin data st) = config_maxRetries st"
  "isHost (handleMessage origin data st) = isHost st"
  "targetWindow (handleMessage origin data st) = targetWindow st"
  "iframe_id (handleMessage origin data st) = iframe_id st"
  "onNavigationCallback (handleMessage origin data st) = onNavigationCallback st"
  "onModalCallback (handleMessage origin data st) = onModalCallback st"
  "listeners (handleMessage origin data st) = listeners st"
  "clock (handleMessage origin data st) = clock st"
  "random (handleMessage origin data st) = random st"
  by (simp_all add: handleMessage_def Let_def)

lemma timeout_elapsed_frame [simp]:
  "messageHandlers (timeout_elapsed t st) = messageHandlers st"
  "config_targetOrigin (timeout_elapsed t st) = config_targetOrigin st"
  "config_timeout (timeout_elapsed t st) = config_timeout st"
  "config_debug (timeout_elapsed t st) = config_debug st"
  "config_maxRetries (timeout_elapsed t st) = config_maxRetries st"
  "isHost (timeout_elapsed t st) = isHost st"
  "targetWindow (timeout_elapsed t st) = targetWindow st"
  "cm_context (timeout_elapsed t st) = cm_context st"
  "contextHistory (timeout_elapsed t st) = contextHistory st"
  "iframe_id (timeout_elapsed t st) = iframe_id st"
  "modalStack (timeout_elapsed t st) = modalStack st"
  "modalResolve (timeout_elapsed t st) = modalResolve st"
  "onNavigationCallback (timeout_elapsed t st) = onNavigationCallback st"
  "onModalCallback (timeout_elapsed t st) = onModalCallback st"
  "listeners (timeout_elapsed t st) = listeners st"
  "next_handle (timeout_elapsed t st) = next_handle st"
  "clock (timeout_elapsed t st) = clock st"
  "clock_reads (timeout_elapsed t st) = clock_reads st"
  "random (timeout_elapsed t st) = random st"
  "random_reads (timeout_elapsed t st) = random_reads st"
  "posted (timeout_elapsed t st) = posted st"
  "console (timeout_elapsed t st) = console st"
  "invoked (timeout_elapsed t st) = invoked st"
  "modal_callbacks (timeout_elapsed t st) = modal_callbacks st"
  "navigation_callbacks (timeout_elapsed t st) = navigation_callbacks st"
  "window_effects (timeout_elapsed t st) = window_effects st"
  by (simp_all add: timeout_elapsed_def Let_def split: option.split prod.split)

lemma run_microtask_pair_frame [simp]:
  "pendingMessages (run_microtask (k, out) st) = pendingMessages st"
  "messageHandlers (run_microtask (k, out) st) = messageHandlers st"
  "config_targetOrigin (run_microtask (k, out) st) = config_targetOrigin st"
  "config_timeout (run_microtask (k, out) st) = config_timeout st"
  "config_debug (run_microtask (k, out) st) = config_debug st"
  "config_maxRetries (run_microtask (k, out) st) = config_maxRetries st"
  "isHost (run_microtask (k, out) st) = isHost st"
  "targetWindow (run_microtask (k, out) st) = targetWindow st"
  "contextHistory (run_microtask (k, out) st) = contextHistory st"
  "iframe_id (run_microtask (k, out) st) = iframe_id st"
  "modalStack (run_microtask (k, out) st) = modalStack st"
  "modalResolve (run_microtask (k, out) st) = modalResolve st"
  "onNavigationCallback (run_microtask (k, out) st) = onNavigationCallback st"
  "onModalCallback (run_microtask (k, out) st) = onModalCallback st"
  "listeners (run_microtask (k, out) st) = listeners st"
  "promises (run_microtask (k, out) st) = promises st"
  "timers (run_microtask (k, out) st) = timers st"
  "next_handle (run_microtask (k, out) st) = next_handle st"
  "awaiting (run_microtask (k, out) st) = awaiting st"
  "microtasks (run_microtask (k, out) st) = microtasks st"
  "clock (run_microtask (k, out) st) = clock st"
  "random (run_microtask (k, out) st) = random st"
  "invoked (run_microtask (k, out) st) = invoked st"
  "modal_callbacks (run_microtask (k, out) st) = modal_callbacks st"
  "navigation_callbacks (run_microtask (k, out) st) = navigation_callbacks st"
  "window_effects (run_microtask (k, out) st) = window_effects st"
  "settle_calls (run_microtask (k, out) st) = settle_calls st"
  by (cases k; cases out; simp)+

lemma run_microtask_frame [simp]:
  "pendingMessages (run_microtask m st) = pendingMessages st"
  "messageHandlers (run_microtask m st) = messageHandlers st"
  "config_targetOrigin (run_microtask m st) = config_targetOrigin st"
  "config_timeout (run_microtask m st) = config_timeout st"
  "config_debug (run_microtask m st) = config_debug st"
  "config_maxRetries (run_microtask m st) = config_maxRetries st"
  "isHost (run_microtask m st) = isHost st"
  "targetWindow (run_microtask m st) = targetWindow st"
  "contextHistory (run_microtask m st) = contextHistory st"
  "iframe_id (run_microtask m st) = iframe_id st"
  "modalStack (run_microtask m st) = modalStack st"
  "modalResolve (run_microtask m st) = modalResolve st"
  "onNavigationCallback (run_microtask m st) = onNavigationCallback st"
  "onModalCallback (run_microtask m st) = onModalCallback st"
  "listeners (run_microtask m st) = listeners st"
  "promises (run_microtask m st) = promises st"
  "timers (run_microtask m st) = timers st"
  "next_handle (run_microtask m st) = next_handle st"
  "awaiting (run_microtask m st) = awaiting st"
  "microtasks (run_microtask m st) = microtasks st"
  "clock (run_microtask m st) = clock st"
  "random (run_microtask m st) = random st"
  "invoked (run_microtask m st) = invoked st"
  "modal_callbacks (run_microtask m st) = modal_callbacks st"
  "navigation_callbacks (run_microtask m st) = navigation_callbacks st"
  "window_effects (run_microtask m st) = window_effects st"
  "settle_calls (run_microtask m st) = settle_calls st"
  by (cases m; simp)+

lemma call_listener_frame [simp]:
  "messageHandlers (call_listener origin data l st) = messageHandlers st"
  "config_targetOrigin (call_listener origin data l st) = config_targetOrigin st"
  "config_timeout (call_listener origin data l st) = config_timeout st"
  "config_debug (call_listener origin data l st) = config_debug st"
  "config_maxRetries (call_listener origin data l st) = config_maxRetries st"
  "isHost (call_listener origin data l st) = isHost st"
  "targetWindow (call_listener origin data l st) = targetWindow st"
  "iframe_id (call_listener origin data l st) = iframe_id st"
  "onNavigationCallback (call_listener origin data l st) = onNavigationCallback st"
  "onModalCallback (call_listener origin data l st) = onModalCallback st"
  "listeners (call_listener origin data l st) = listeners st"
  "clock (call_listener origin data l st) = clock st"
  "random (call_listener origin data l st) = random st"
  by (cases l; simp)+

lemma destroy_frame [simp]:
  "config_targetOrigin (destroy st) = config_targetOrigin st"
  "config_timeout (destroy st) = config_timeout st"
  "config_debug (destroy st) = config_debug st"
  "config_maxRetries (destroy st) = config_maxRetries st"
  "isHost (destroy st) = isHost st"
  "targetWindow (destroy st) = targetWindow st"
  "cm_context (destroy st) = cm_context st"
  "contextHistory (destroy st) = contextHistory st"
  "iframe_id (destroy st) = iframe_id st"
  "modalStack (destroy st) = modalStack st"
  "modalResolve (destroy st) = modalResolve st"
  "onNavigationCallback (destroy st) = onNavigationCallback st"
  "onModalCallback (destroy st) = onModalCallback st"
  "next_handle (destroy st) = next_handle st"
  "clock (destroy st) = clock st"
  "clock_reads (destroy st) = clock_reads st"
  "random (destroy st) = random st"
  "random_reads (destroy st) = random_reads st"
  "posted (destroy st) = posted st"
  "console (destroy st) = console st"
  "invoked (destroy st) = invoked st"
  "modal_callbacks (destroy st) = modal_callbacks st"
  "navigation_callbacks (destroy st) = navigation_callbacks st"
  "window_effects (destroy st) = window_effects st"
  by (simp_all add: destroy_def Let_def fold_frame split_beta)

lemma drain_frame [simp]:
  "pendingMessages (drain st) = pendingMessages st"
  "messageHandlers (drain st) = messageHandlers st"
  "config_targetOrigin (drain st) = config_targetOrigin st"
  "config_timeout (drain st) = config_timeout st"
  "config_debug (drain st) = config_debug st"
  "config_maxRetries (drain st) = config_maxRetries st"
  "isHost (drain st) = isHost st"
  "targetWindow (drain st) = targetWindow st"
  "contextHistory (drain st) = contextHistory st"
  "iframe_id (drain st) = iframe_id st"
  "modalStack (drain st) = modalStack st"
  "modalResolve (drain st) = modalResolve st"
  "onNavigationCallback (drain st) = onNavigationCallback st"
  "onModalCallback (drain st) = onModalCallback st"
  "listeners (drain st) = listeners st"
  "promises (drain st) = promises st"
  "timers (drain st) = timers st"
  "next_handle (drain st) = next_handle st"
  "awaiting (drain st) = awaiting st"
  "clock (drain st) = clock st"
  "random (drain st) = random st"
  "invoked (drain st) = invoked st"
  "modal_callbacks (drain st) = modal_callbacks st"
  "navigation_callbacks (drain st) = navigation_callbacks st"
  "window_effects (drain st) = window_effects st"
  "settle_calls (drain st) = settle_calls st"
  by (simp_all add: drain_def fold_frame)

lemma deliver_frame [simp]:
  "messageHandlers (deliver origin data st) = messageHandlers st"
  "config_targetOrigin (deliver origin data st) = config_targetOrigin st"
  "config_timeout (deliver origin data st) = config_timeout st"
  "config_debug (deliver origin data st) = config_debug st"
  "config_maxRetries (deliver origin data st) = config_maxRetries st"
  "isHost (deliver origin data st) = isHost st"
  "targetWindow (deliver origin data st) = targetWindow st"
  "iframe_id (deliver origin data st) = iframe_id st"
  "onNavigationCallback (deliver origin data st) = onNavigationCallback st"
  "onModalCallback (deliver origin data st) = onModalCallback st"
  "listeners (deliver origin data st) = listeners st"
  "clock (deliver origin data st) = clock st"
  "random (deliver origin data st) = random st"
  by (simp_all add: deliver_def fold_frame)

lemma task_frame [simp]:
  "config_targetOrigin (task e st) = config_targetOrigin st"
  "config_timeout (task e st) = config_timeout st"
  "config_debug (task e st) = config_debug st"
  "config_maxRetries (task e st) = config_maxRetries st"
  "isHost (task e st) = isHost st"
  "iframe_id (task e st) = iframe_id st"
  "onNavigationCallback (task e st) = onNavigationCallback st"
  "onModalCallback (task e st) = onModalCallback st"
  "clock (task e st) = clock st"
  "random (task e st) = random st"
  by (cases e; simp)+

lemma step_frame [simp]:
  "config_targetOrigin (step e st) = config_targetOrigin st"
  "config_timeout (step e st) = config_timeout st"
  "config_debug (step e st) = config_debug st"
  "config_maxRetries (step e st) = config_maxRetries st"
  "isHost (step e st) = isHost st"
  "iframe_id (step e st) = iframe_id st"
  "onNavigationCallback (step e st) = onNavigationCallback st"
  "onModalCallback (step e st) = onModalCallback st"
  "clock (step e st) = clock st"
  "random (step e st) = random st"
  by (simp_all add: step_def)

lemma run_frame [simp]:
  "config_targetOrigin (run es st) = config_targetOrigin st"
  "config_timeout (run es st) = config_timeout st"
  "config_debug (run es st) = config_debug st"
  "config_maxRetries (run es st) = config_maxRetries st"
  "isHost (run es st) = isHost st"
  "iframe_id (run es st) = iframe_id st"
  "onNavigationCallback (run es st) = onNavigationCallback st"
  "onModalCallback (run es st) = onModalCallback st"
  "clock (run es st) = clock st"
  "random (run es st) = random st"
  by (simp_all add: run_def fold_frame)

subsection \<open>Tests on values\<close>

lemma strict_eq_str_iff: "strict_eq_str v s = (v = JStr s)"
  by (cases v) auto

lemma is_string_iff: "is_string v = (\<exists>s. v = JStr s)"
  by (cases v) auto

subsection \<open>What the operations on the context compute\<close>

lemma date_now_value [simp]: "fst (date_now st) = clock st (clock_reads st)"
  by (simp add: date_now_def)

lemma updateContext_context:
  "cm_context (snd (updateContext u n st)) =
     (spread (cm_context st) u)(''updatedAt'' \<mapsto> JNum (clock st (clock_reads st)))"
  by (simp add: updateContext_def Let_def split_beta split: send_result.split)

lemma updateContext_history:
  "contextHistory (snd (updateContext u n st)) = contextHistory (addToHistory st)"
  by (simp add: updateContext_def Let_def split_beta split: send_result.split)

lemma merge_remote_context:
  "cm_context (merge_remote r st) =
     (spread (cm_context st) r)(''updatedAt'' \<mapsto> JNum (clock st (clock_reads st)))"
  by (simp add: merge_remote_def Let_def split_beta)

subsection \<open>What the messenger posts\<close>

lemma postMessage_posted:
  "posted (snd (postMessage payload st)) =
     (case targetWindow st of None \<Rightarrow> posted st
      | Some w \<Rightarrow> posted st @ [(w, payload, config_targetOrigin st)])"
  by (simp add: postMessage_def split: option.split)

lemma isValidPayload_response:
  "isValidPayload (JObj [''id'' \<mapsto> JStr rid, ''type'' \<mapsto> JStr ''response'',
      ''action'' \<mapsto> JStr ''message_response'', ''data'' \<mapsto> d, ''timestamp'' \<mapsto> JNum n,
      ''responseId'' \<mapsto> JStr i, ''source'' \<mapsto> source_tag st,
      ''targetOrigin'' \<mapsto> JStr origin])"
  by (simp add: isValidPayload_def source_tag_def)

lemma respond_posted:
  assumes "targetWindow st = Some w"
  shows "\<exists>reply. posted (snd (respond i d st)) = posted st @ [(w, reply, config_targetOrigin st)] \<and>
           isValidPayload reply \<and> get reply ''type'' = JStr ''response'' \<and>
           get reply ''action'' = JStr ''message_response'' \<and>
           get reply ''responseId'' = JStr i \<and> get reply ''data'' = d"
  using assms
  by (simp add: respond_def split_beta Let_def postMessage_posted isValidPayload_def source_tag_def)

lemma respond_no_target:
  "targetWindow st = None \<Longrightarrow> posted (snd (respond i d st)) = posted st"
  by (simp add: respond_def split_beta Let_def postMessage_posted)

lemma handleMessage_request:
  assumes "origin = config_targetOrigin st" "isValidPayload d"
    and "\<not> (strict_eq_str (get d ''type'') ''response'' \<and> truthy (get d ''responseId''))"
  shows "handleMessage origin d st = handleIncomingMessage d (debug_log ''Received message:'' d st)"
  using assms by (auto simp add: handleMessage_def Let_def)

lemma handleMessage_response:
  assumes "origin = config_targetOrigin st" "isValidPayload d"
    and "strict_eq_str (get d ''type'') ''response''" "truthy (get d ''responseId'')"
  shows "handleMessage origin d st = handleResponse d (debug_log ''Received message:'' d st)"
  using assms by (simp add: handleMessage_def Let_def)

lemma handleIncomingMessage_no_handler:
  assumes "map_of (messageHandlers st) (the_string (get d ''type'') @ '':'' @ the_string (get d ''action'')) = None"
    and "map_of (messageHandlers st) (the_string (get d ''type'')) = None"
    and "truthy (get d ''requiresResponse'')"
  shows "handleIncomingMessage d st =
           snd (respond (the_string (get d ''id'')) no_handler_error
                  (debug_log ''No handler found for message:'' d st))"
  using assms by (simp add: handleIncomingMessage_def Let_def)

lemma handleResponse_pending:
  assumes "pending_get (get d ''responseId'') (pendingMessages st) = Some pm"
    and "promises st (promise pm) = Some Pending"
  shows "promises (handleResponse d st) (promise pm) = Some (Resolved (get d ''data'')) \<and>
         timers (handleResponse d st) (timeout pm) = None \<and>
         settle_calls (handleResponse d st) = settle_calls st @ [(promise pm, ByReply)] \<and>
         pending_get (get d ''responseId'') (pendingMessages (handleResponse d st)) = None"
proof -
  obtain k where k: "get d ''responseId'' = JStr k"
    using assms(1) by (cases "get d ''responseId''") simp_all
  show ?thesis using assms k
    by (simp add: handleResponse_def Let_def settle_def clearTimeout_def AList.delete_conv')
qed

lemma drain_empty: "microtasks st = [] \<Longrightarrow> drain st = st"
  by (simp add: drain_def)

lemma send_posted:
  assumes "targetWindow st = Some w"
  shows "\<exists>p. posted (snd (send type action data False st)) = posted st @ [(w, p, config_targetOrigin st)] \<and>
           get p ''type'' = JStr type \<and> get p ''action'' = JStr action \<and> get p ''data'' = data \<and>
           get p ''responseId'' = JUndefined"
  using assms by (simp add: send_def split_beta Let_def postMessage_posted split: sum.split)

lemma updateContext_posted:
  assumes "targetWindow st = Some w"
  shows "\<exists>p. posted (snd (updateContext u True st)) = posted st @ [(w, p, config_targetOrigin st)] \<and>
           get p ''type'' = JStr ''state'' \<and> get p ''action'' = JStr ''update'' \<and> get p ''data'' = u \<and>
           get p ''responseId'' = JUndefined"
proof -
  let ?st3 = "(snd (date_now (addToHistory st)))\<lparr>cm_context :=
       (spread (cm_context (addToHistory st)) u)(''updatedAt'' \<mapsto> JNum (fst (date_now (addToHistory st))))\<rparr>"
  have eq: "snd (updateContext u True st) = snd (send ''state'' ''update'' u False ?st3)"
    by (simp add: updateContext_def split_beta Let_def split: send_result.split)
  have tw: "targetWindow ?st3 = Some w" using assms by simp
  show ?thesis unfolding eq using send_posted [OF tw, of "''state''" "''update''" u] by simp
qed

lemma updateContext_silent: "posted (snd (updateContext u False st)) = posted st"
  by (simp add: updateContext_def split_beta Let_def)

lemma handleIncomingMessage_action:
  assumes "the_string (get d ''type'') = ty" "the_string (get d ''action'') = ac"
    and "map_of (messageHandlers st) (ty @ '':'' @ ac) = Some h"
  shows "handleIncomingMessage d st = dispatch (ty @ '':'' @ ac) h d st"
  using assms by (simp add: handleIncomingMessage_def Let_def)

lemma dispatch_invoked: "invoked (dispatch key h d st) = invoked st @ [(key, d)]"
  by (simp add: dispatch_def split_beta split: handler_result.split)

lemma dispatch_ContextUpdate:
  "dispatch key ContextUpdate d st =
     (snd (updateContext (get d ''data'') True (st\<lparr>invoked := invoked st @ [(key, d)]\<rparr>)))
       \<lparr>microtasks := microtasks st @ [(AfterHandler d, Resolved JUndefined)]\<rparr>"
  by (simp add: dispatch_def)

lemma dispatch_HostStateUpdate:
  "dispatch key HostStateUpdate d st =
     (snd (updateContext (get d ''data'') False (st\<lparr>invoked := invoked st @ [(key, d)]\<rparr>)))
       \<lparr>microtasks := microtasks st @ [(AfterHandler d, Resolved JUndefined)]\<rparr>"
  by (simp add: dispatch_def)

subsection \<open>Every operation is a sequence of changes\<close>

lemma changes_refl [simp]: "changes st st"
  by (rule changes.same) simp

lemma changes_then_same: "changes st st' \<Longrightarrow> core st'' = core st' \<Longrightarrow> changes st st''"
  by (erule changes.seq) (rule changes.same)

lemma same_then_changes: "core st' = core st \<Longrightarrow> changes st' st'' \<Longrightarrow> changes st st''"
  by (rule changes.seq [OF changes.same])

lemma core_eqI:
  "promises st' = promises st \<Longrightarrow> timers st' = timers st \<Longrightarrow>
   pendingMessages st' = pendingMessages st \<Longrightarrow> settle_calls st' = settle_calls st \<Longrightarrow>
   next_handle st' = next_handle st \<Longrightarrow> modalResolve st' = modalResolve st \<Longrightarrow> core st' = core st"
  by (simp add: core_def)

lemma core_simple [simp]:
  "core (snd (date_now st)) = core st"
  "core (snd (generateId st)) = core st"
  "core (debug_log m a st) = core st"
  "core (snd (postMessage payload st)) = core st"
  "core (await p k st) = core st"
  "core (snd (send type action data False st)) = core st"
  "core (snd (respond i d st)) = core st"
  "core (on_type type h st) = core st"
  "core (onAction type action h st) = core st"
  "core (off type act st) = core st"
  "core (setTargetWindow b st) = core st"
  "core (addToHistory st) = core st"
  "core (snd (updateContext u n st)) = core st"
  "core (merge_remote r st) = core st"
  "core (warn_sync_failed e st) = core st"
  "core (snd (updateNavigation nav st)) = core st"
  "core (snd (addBreadcrumb l pth q st)) = core st"
  "core (snd (restoreFromHistory idx st)) = core st"
  "core (snd (handleNavigation d st)) = core st"
  "core (snd (handleGoBack d st)) = core st"
  "core (run_microtask mt st) = core st"
  "core (drain st) = core st"
  by (simp_all add: core_def)

lemma core_field_updates [simp]:
  "core (st\<lparr>invoked := x1\<rparr>) = core st"
  "core (st\<lparr>microtasks := x2\<rparr>) = core st"
  "core (st\<lparr>console := x3\<rparr>) = core st"
  "core (st\<lparr>awaiting := x4\<rparr>) = core st"
  by (simp_all add: core_def)

lemma changes_send: "changes st (snd (send type action data rr st))"
proof (cases rr)
  case False
  then show ?thesis by (simp add: changes.same)
next
  case True
  let ?st3 = "debug_log ''Sending message:''
      (JObj [''id'' \<mapsto> JStr (fst (generateId st)), ''type'' \<mapsto> JStr type,
             ''action'' \<mapsto> JStr action, ''data'' \<mapsto> data,
             ''timestamp'' \<mapsto> JNum (fst (date_now (snd (generateId st)))),
             ''requiresResponse'' \<mapsto> JBool True,
             ''source'' \<mapsto> source_tag (snd (date_now (snd (generateId st)))),
             ''targetOrigin'' \<mapsto> JStr (config_targetOrigin (snd (date_now (snd (generateId st)))))])
      (snd (date_now (snd (generateId st))))"
  have c: "core ?st3 = core st" by simp
  have "snd (send type action data rr st) =
      snd (sendWithResponse (fst (generateId st))
        (JObj [''id'' \<mapsto> JStr (fst (generateId st)), ''type'' \<mapsto> JStr type,
             ''action'' \<mapsto> JStr action, ''data'' \<mapsto> data,
             ''timestamp'' \<mapsto> JNum (fst (date_now (snd (generateId st)))),
             ''requiresResponse'' \<mapsto> JBool True,
             ''source'' \<mapsto> source_tag (snd (date_now (snd (generateId st)))),
             ''targetOrigin'' \<mapsto> JStr (config_targetOrigin (snd (date_now (snd (generateId st)))))]) ?st3)"
    using True by (simp add: send_def split_beta Let_def)
  then show ?thesis
    using same_then_changes [OF c changes.request] by simp
qed

lemma changes_syncContext: "changes st (syncContext r st)"
proof (cases "truthy r")
  case True
  then show ?thesis by (simp add: syncContext_def changes.same)
next
  case False
  have "core (syncContext r st) = core (snd (send ''state'' ''request'' JUndefined True st))"
    using False by (simp add: syncContext_def split_beta split: send_result.split)
  then show ?thesis by (rule changes_then_same [OF changes_send])
qed

lemma changes_invoke: "changes st (snd (invoke h d st))"
  by (cases h)
     (simp_all add: changes.same changes_syncContext changes.modal_opened changes.modal_closed
        split_beta)

lemma changes_dispatch: "changes st (dispatch key h d st)"
proof -
  let ?st0 = "st\<lparr>invoked := invoked st @ [(key, d)]\<rparr>"
  have "changes ?st0 (snd (invoke h d ?st0))" by (rule changes_invoke)
  then have 1: "changes st (snd (invoke h d ?st0))" by (rule same_then_changes [rotated]) simp
  have "core (dispatch key h d st) = core (snd (invoke h d ?st0))"
    by (simp add: dispatch_def split_beta split: handler_result.split)
  then show ?thesis by (rule changes_then_same [OF 1])
qed

lemma changes_handleIncomingMessage: "changes st (handleIncomingMessage d st)"
  by (simp add: handleIncomingMessage_def Let_def changes_dispatch changes.same split: option.split)

lemma changes_handleMessage: "changes st (handleMessage origin d st)"
proof -
  let ?st1 = "debug_log ''Received message:'' d st"
  have c: "core ?st1 = core st" by simp
  show ?thesis
    using same_then_changes [OF c changes.reply [of ?st1 d]]
      same_then_changes [OF c changes_handleIncomingMessage [of ?st1 d]]
    by (simp add: handleMessage_def Let_def changes.same)
qed

lemma changes_deliver: "changes st (deliver origin d st)"
proof -
  have "changes st (fold (call_listener origin d) ls st)" for ls
  proof (induction ls arbitrary: st)
    case Nil
    show ?case by simp
  next
    case (Cons l ls)
    have "changes st (call_listener origin d l st)"
      by (cases l) (simp_all add: changes_handleMessage)
    then show ?case using Cons.IH by (auto intro: changes.seq)
  qed
  then show ?thesis by (simp add: deliver_def)
qed

lemma changes_task: "changes st (task e st)"
  by (cases e)
     (simp_all add: changes_deliver changes.elapsed changes_send changes.same changes.destroyed
        changes_syncContext)

lemma changes_step: "changes st (step e st)"
  unfolding step_def by (rule changes_then_same [OF changes_task]) simp

lemma changes_run: "changes st (run es st)"
  unfolding run_def
proof (induction es arbitrary: st)
  case Nil
  show ?case by simp
next
  case (Cons e es)
  show ?case using changes_step [of st e] Cons.IH [of "step e st"] by (auto intro: changes.seq)
qed

subsection \<open>What the six operations do to promises, timers and pending messages\<close>

lemma settle_promises:
  "promises (settle p out c st) =
     (if promises st p = Some Pending then (promises st)(p \<mapsto> out) else promises st)"
  by (simp add: settle_def Let_def split: option.split promise_state.split)

lemma settle_calls_settle [simp]:
  "settle_calls (settle p out c st) = settle_calls st @ [(p, c)]"
  by (simp add: settle_def Let_def split: option.split promise_state.split)

lemma calls_on_settle:
  "calls_on q (settle p out c st) = (if q = p then calls_on q st @ [c] else calls_on q st)"
  by (simp add: calls_on_def)

lemma sendWithResponse_core:
  "next_handle (snd (sendWithResponse pid payload st)) = Suc (Suc (next_handle st))"
  "timers (snd (sendWithResponse pid payload st)) =
     (timers st)(Suc (next_handle st) \<mapsto> (pid, next_handle st))"
  "pendingMessages (snd (sendWithResponse pid payload st)) =
     AList.update pid \<lparr>promise = next_handle st, timeout = Suc (next_handle st)\<rparr> (pendingMessages st)"
  "promises (snd (sendWithResponse pid payload st)) =
     (promises st)(next_handle st \<mapsto>
        (if targetWindow st = None then Rejected TargetWindowNotAvailable else Pending))"
  "settle_calls (snd (sendWithResponse pid payload st)) =
     (if targetWindow st = None then settle_calls st @ [(next_handle st, ByThrow)]
      else settle_calls st)"
  "fst (sendWithResponse pid payload st) = next_handle st"
  by (simp_all add: sendWithResponse_def new_promise_def setTimeout_def postMessage_def
      settle_promises split_beta Let_def split: option.split)

lemma handleResponse_core:
  "handleResponse d st =
     (case pending_get (get d ''responseId'') (pendingMessages st) of
        None \<Rightarrow> st
      | Some pm \<Rightarrow>
          settle (promise pm) (Resolved (get d ''data'')) ByReply
            (st\<lparr>timers := (timers st)(timeout pm := None),
                pendingMessages := AList.delete (the_string (get d ''responseId'')) (pendingMessages st)\<rparr>))"
  by (simp add: handleResponse_def clearTimeout_def Let_def split: option.split)

lemma pending_get_Some:
  "pending_get v al = Some pm \<Longrightarrow> (the_string v, pm) \<in> set al"
  by (cases v) (auto dest: map_of_SomeD)

lemma timeout_elapsed_core:
  "timeout_elapsed t st =
     (case timers st t of
        None \<Rightarrow> st
      | Some (pid, p) \<Rightarrow>
          settle p (Rejected (MessageTimeout (config_timeout st))) ByTimeout
            (st\<lparr>timers := (timers st)(t := None),
                pendingMessages := AList.delete pid (pendingMessages st)\<rparr>))"
  by (simp add: timeout_elapsed_def Let_def split: option.split prod.split)

lemma destroy_alt:
  "destroy st =
     (fold reject_pending (pendingMessages st) (st\<lparr>listeners := remove1 HandleMessage (listeners st)\<rparr>))
       \<lparr>pendingMessages := [], messageHandlers := []\<rparr>"
  by (simp add: destroy_def reject_pending_def Let_def)

lemma fold_reject_pending:
  "next_handle (fold reject_pending xs s) = next_handle s"
  "modalResolve (fold reject_pending xs s) = modalResolve s"
  "pendingMessages (fold reject_pending xs s) = pendingMessages s"
  "settle_calls (fold reject_pending xs s) = settle_calls s @ map (\<lambda>(k, pm). (promise pm, ByDestroy)) xs"
  "timers (fold reject_pending xs s) t = (if t \<in> timeout ` snd ` set xs then None else timers s t)"
  "promises (fold reject_pending xs s) q =
     (if q \<in> promise ` snd ` set xs \<and> promises s q = Some Pending
      then Some (Rejected MessengerDestroyed) else promises s q)"
  by (induction xs arbitrary: s)
     (auto simp: reject_pending_def clearTimeout_def settle_promises split_beta)

lemma handleModalOpen_core:
  "next_handle (snd (handleModalOpen d st)) = Suc (next_handle st)"
  "promises (snd (handleModalOpen d st)) = (promises st)(next_handle st \<mapsto> Pending)"
  "modalResolve (snd (handleModalOpen d st)) = Some (next_handle st)"
  "fst (handleModalOpen d st) = next_handle st"
  by (simp_all add: handleModalOpen_def new_promise_def split_beta Let_def)

lemma handleModalClose_core:
  "modalResolve (handleModalClose d st) = None"
  "promises (handleModalClose d st) =
     (case modalResolve st of None \<Rightarrow> promises st
      | Some q \<Rightarrow> if promises st q = Some Pending then (promises st)(q \<mapsto> Resolved d) else promises st)"
  "settle_calls (handleModalClose d st) =
     (case modalResolve st of None \<Rightarrow> settle_calls st | Some q \<Rightarrow> settle_calls st @ [(q, ByModalClose)])"
  by (simp_all add: handleModalClose_def Let_def settle_promises split: option.split)

subsection \<open>Promises that are not referred to keep their state\<close>

lemma in_update:
  "(k', v') \<in> set (AList.update k v al) \<Longrightarrow> (k', v') = (k, v) \<or> (k', v') \<in> set al"
  by (induction al) (auto split: if_splits)

lemma in_delete: "(k', v') \<in> set (AList.delete k al) \<longleftrightarrow> (k', v') \<in> set al \<and> k' \<noteq> k"
  by (auto simp: AList.delete_eq)

lemma quiet_cong: "core st' = core st \<Longrightarrow> quiet p v cs st' = quiet p v cs st"
  by (simp add: core_def quiet_def unreferenced_def calls_on_def)

lemma quiet_settle:
  assumes "quiet p v cs st" "q \<noteq> p"
  shows "quiet p v cs (settle q out c st)"
  using assms by (simp add: quiet_def unreferenced_def settle_promises calls_on_settle)

lemma quiet_request:
  assumes "quiet p v cs st"
  shows "quiet p v cs (snd (sendWithResponse pid payload st))"
proof -
  let ?st' = "snd (sendWithResponse pid payload st)"
  have p: "p < next_handle st" "promises st p = v" "calls_on p st = cs" "unreferenced p st"
    using assms by (simp_all add: quiet_def)
  have 1: "p < next_handle ?st'" using p(1) by (simp add: sendWithResponse_core)
  have 2: "promises ?st' p = v" using p(1,2) by (simp add: sendWithResponse_core)
  have 3: "calls_on p ?st' = cs" using p(1,3) by (simp add: sendWithResponse_core calls_on_def)
  have 4: "unreferenced p ?st'"
    unfolding unreferenced_def
  proof (intro conjI allI impI)
    fix k pm assume "(k, pm) \<in> set (pendingMessages ?st')"
    then have "(k, pm) = (pid, \<lparr>promise = next_handle st, timeout = Suc (next_handle st)\<rparr>) \<or>
        (k, pm) \<in> set (pendingMessages st)"
      by (auto simp: sendWithResponse_core dest: in_update)
    then show "promise pm \<noteq> p" using p(1,4) by (auto simp: unreferenced_def)
  next
    fix t k show "timers ?st' t \<noteq> Some (k, p)"
      using p(1,4) by (simp add: sendWithResponse_core unreferenced_def)
  qed
  from 1 2 3 4 show ?thesis by (simp add: quiet_def)
qed

lemma unreferenced_fewer:
  assumes "unreferenced p st"
    and "set (pendingMessages st') \<subseteq> set (pendingMessages st)"
    and "\<And>t v. timers st' t = Some v \<Longrightarrow> timers st t = Some v"
  shows "unreferenced p st'"
  using assms unfolding unreferenced_def by (metis subsetD)

lemma quiet_reply:
  assumes "quiet p v cs st"
  shows "quiet p v cs (handleResponse d st)"
proof (cases "pending_get (get d ''responseId'') (pendingMessages st)")
  case None
  then show ?thesis using assms by (simp add: handleResponse_core)
next
  case (Some pm)
  let ?st1 = "st\<lparr>timers := (timers st)(timeout pm := None),
      pendingMessages := AList.delete (the_string (get d ''responseId'')) (pendingMessages st)\<rparr>"
  have ne: "promise pm \<noteq> p"
    using assms pending_get_Some [OF Some] by (auto simp: quiet_def unreferenced_def)
  have u: "unreferenced p ?st1"
    by (rule unreferenced_fewer [of p st]) (use assms in \<open>auto simp: quiet_def in_delete split: if_splits\<close>)
  have "quiet p v cs ?st1" using assms u by (simp add: quiet_def calls_on_def)
  from quiet_settle [OF this ne] show ?thesis using Some by (simp add: handleResponse_core)
qed

lemma quiet_elapsed:
  assumes "quiet p v cs st"
  shows "quiet p v cs (timeout_elapsed t st)"
proof (cases "timers st t")
  case None
  then show ?thesis using assms by (simp add: timeout_elapsed_core)
next
  case (Some a)
  obtain pid q where a: "a = (pid, q)" by (cases a)
  let ?st1 = "st\<lparr>timers := (timers st)(t := None),
      pendingMessages := AList.delete pid (pendingMessages st)\<rparr>"
  have ne: "q \<noteq> p" using assms Some a by (auto simp: quiet_def unreferenced_def)
  have u: "unreferenced p ?st1"
    by (rule unreferenced_fewer [of p st]) (use assms in \<open>auto simp: quiet_def in_delete split: if_splits\<close>)
  have "quiet p v cs ?st1" using assms u by (simp add: quiet_def calls_on_def)
  from quiet_settle [OF this ne] show ?thesis using Some a by (simp add: timeout_elapsed_core)
qed

lemma calls_on_append: "calls_on p (st\<lparr>settle_calls := xs @ ys\<rparr>) =
    map snd (filter (\<lambda>qc. fst qc = p) xs) @ map snd (filter (\<lambda>qc. fst qc = p) ys)"
  by (simp add: calls_on_def)

lemma quiet_destroyed:
  assumes "quiet p v cs st"
  shows "quiet p v cs (destroy st)"
proof -
  let ?s = "st\<lparr>listeners := remove1 HandleMessage (listeners st)\<rparr>"
  let ?f = "fold reject_pending (pendingMessages st) ?s"
  have np': "promise pm \<noteq> p" if "(k, pm) \<in> set (pendingMessages st)" for k pm
    using assms that by (simp add: quiet_def unreferenced_def)
  have np: "p \<notin> promise ` snd ` set (pendingMessages st)"
  proof
    assume "p \<in> promise ` snd ` set (pendingMessages st)"
    then obtain x where x: "x \<in> set (pendingMessages st)" "p = promise (snd x)" by auto
    then have "(fst x, snd x) \<in> set (pendingMessages st)" by simp
    from np' [OF this] x(2) show False by simp
  qed
  have 1: "p < next_handle (destroy st)" using assms by (simp add: quiet_def)
  have 2: "promises (destroy st) p = v"
    using assms np by (simp add: destroy_alt fold_reject_pending quiet_def)
  have "filter (\<lambda>qc. fst qc = p) (map (\<lambda>(k, pm). (promise pm, ByDestroy)) (pendingMessages st)) = []"
    using np by (simp add: filter_empty_conv image_iff split_beta) (metis snd_conv)
  then have 3: "calls_on p (destroy st) = cs"
    using assms by (simp add: destroy_alt fold_reject_pending quiet_def calls_on_def)
  have 4: "unreferenced p (destroy st)"
    using assms by (simp add: destroy_alt fold_reject_pending quiet_def unreferenced_def)
  from 1 2 3 4 show ?thesis by (simp add: quiet_def)
qed

lemma quiet_modal_opened:
  assumes "quiet p v cs st"
  shows "quiet p v cs (snd (handleModalOpen d st))"
  using assms by (simp add: quiet_def handleModalOpen_core unreferenced_def calls_on_def)

lemma quiet_modal_closed:
  assumes "quiet p v cs st" "modalResolve st \<noteq> Some p"
  shows "quiet p v cs (handleModalClose d st)"
  using assms
  by (auto simp: quiet_def handleModalClose_core unreferenced_def calls_on_def split: option.split)

subsection \<open>Well-formed states stay well-formed\<close>

lemma handles_below_cong: "core st' = core st \<Longrightarrow> handles_below n st' = handles_below n st"
  by (simp add: core_def handles_below_def)

lemma handles_below_mono: "handles_below n st \<Longrightarrow> n \<le> m \<Longrightarrow> handles_below m st"
  unfolding handles_below_def by (meson less_le_trans)

lemma handles_below_settle:
  assumes "handles_below n st" "q < n"
  shows "handles_below n (settle q out c st)"
  using assms by (auto simp: handles_below_def)

lemma handles_below_fewer:
  assumes "handles_below n st"
    and "set (pendingMessages st') \<subseteq> set (pendingMessages st)"
    and "\<And>t v. timers st' t = Some v \<Longrightarrow> timers st t = Some v"
    and "settle_calls st' = settle_calls st" "modalResolve st' = modalResolve st"
  shows "handles_below n st'"
  using assms unfolding handles_below_def by (metis subsetD)

lemma handles_below_request:
  assumes "handles_below (next_handle st) st"
  shows "handles_below (Suc (Suc (next_handle st))) (snd (sendWithResponse pid payload st))"
proof -
  let ?st' = "snd (sendWithResponse pid payload st)" and ?n = "Suc (Suc (next_handle st))"
  have hb: "handles_below ?n st" using assms by (rule handles_below_mono) simp
  show ?thesis unfolding handles_below_def
  proof (intro conjI allI impI)
    fix k pm assume "(k, pm) \<in> set (pendingMessages ?st')"
    then have "(k, pm) = (pid, \<lparr>promise = next_handle st, timeout = Suc (next_handle st)\<rparr>) \<or>
        (k, pm) \<in> set (pendingMessages st)"
      by (auto simp: sendWithResponse_core dest: in_update)
    then show "promise pm < ?n" "timeout pm < ?n" using hb by (auto simp: handles_below_def)
  next
    fix t k q assume "timers ?st' t = Some (k, q)"
    then show "t < ?n" "q < ?n" using hb
      by (auto simp: sendWithResponse_core handles_below_def split: if_splits)
  next
    fix q c assume "(q, c) \<in> set (settle_calls ?st')"
    then show "q < ?n" using hb
      by (auto simp: sendWithResponse_core handles_below_def split: if_splits)
  next
    fix q assume "modalResolve ?st' = Some q"
    then show "q < ?n" using hb by (simp add: handles_below_def)
  qed
qed

lemma handles_below_reply:
  assumes "handles_below n st"
  shows "handles_below n (handleResponse d st)"
proof (cases "pending_get (get d ''responseId'') (pendingMessages st)")
  case None
  then show ?thesis using assms by (simp add: handleResponse_core)
next
  case (Some pm)
  let ?st1 = "st\<lparr>timers := (timers st)(timeout pm := None),
      pendingMessages := AList.delete (the_string (get d ''responseId'')) (pendingMessages st)\<rparr>"
  have lt: "promise pm < n"
    using assms pending_get_Some [OF Some] unfolding handles_below_def by blast
  have "handles_below n ?st1"
    by (rule handles_below_fewer [OF assms]) (auto simp: in_delete split: if_splits)
  from handles_below_settle [OF this lt] show ?thesis using Some by (simp add: handleResponse_core)
qed

lemma handles_below_elapsed:
  assumes "handles_below n st"
  shows "handles_below n (timeout_elapsed t st)"
proof (cases "timers st t")
  case None
  then show ?thesis using assms by (simp add: timeout_elapsed_core)
next
  case (Some a)
  obtain pid q where a: "a = (pid, q)" by (cases a)
  let ?st1 = "st\<lparr>timers := (timers st)(t := None),
      pendingMessages := AList.delete pid (pendingMessages st)\<rparr>"
  have lt: "q < n" using assms Some a unfolding handles_below_def by blast
  have "handles_below n ?st1"
    by (rule handles_below_fewer [OF assms]) (auto simp: in_delete split: if_splits)
  from handles_below_settle [OF this lt] show ?thesis using Some a by (simp add: timeout_elapsed_core)
qed

lemma handles_below_destroyed:
  assumes "handles_below n st"
  shows "handles_below n (destroy st)"
  unfolding handles_below_def
proof (intro conjI allI impI)
  fix k pm assume "(k, pm) \<in> set (pendingMessages (destroy st))"
  then show "promise pm < n" "timeout pm < n" by (simp_all add: destroy_alt)
next
  fix t k q assume "timers (destroy st) t = Some (k, q)"
  then have "timers st t = Some (k, q)"
    by (simp add: destroy_alt fold_reject_pending split: if_splits)
  then show "t < n" "q < n" using assms unfolding handles_below_def by blast+
next
  fix q c assume "(q, c) \<in> set (settle_calls (destroy st))"
  then have "(q, c) \<in> set (settle_calls st) \<or> (\<exists>k pm. (k, pm) \<in> set (pendingMessages st) \<and> q = promise pm)"
    by (auto simp: destroy_alt fold_reject_pending)
  then show "q < n" using assms unfolding handles_below_def by blast
next
  fix q assume "modalResolve (destroy st) = Some q"
  then show "q < n" using assms by (simp add: handles_below_def)
qed

lemma handles_below_modal_opened:
  assumes "handles_below (next_handle st) st"
  shows "handles_below (Suc (next_handle st)) (snd (handleModalOpen d st))"
proof -
  have hb: "handles_below (Suc (next_handle st)) st" using assms by (rule handles_below_mono) simp
  then show ?thesis by (simp add: handles_below_def handleModalOpen_core)
qed

lemma handles_below_modal_closed:
  assumes "handles_below n st"
  shows "handles_below n (handleModalClose d st)"
  using assms
  by (auto simp: handles_below_def handleModalClose_core split: option.splits)

lemma well_formed_changes:
  assumes "changes st st'" "well_formed st"
  shows "well_formed st'"
  using assms
proof (induction rule: changes.induct)
  case (same st' st)
  then show ?case
    using handles_below_cong [OF same(1)] quiet_cong [OF same(1)]
    by (simp add: well_formed_def core_def)
next
  case (seq st st' st'')
  then show ?case by simp
next
  case (request st pid payload)
  then show ?case
    using handles_below_request [of st pid payload] quiet_request
    by (simp add: well_formed_def sendWithResponse_core distinct_update)
next
  case (reply st payload)
  have "distinct (map fst (pendingMessages (handleResponse payload st)))"
    using reply by (simp add: well_formed_def handleResponse_core distinct_delete split: option.split)
  then show ?case
    using reply handles_below_reply [of "next_handle st" st payload] quiet_reply
    by (simp add: well_formed_def)
next
  case (elapsed st t)
  have "distinct (map fst (pendingMessages (timeout_elapsed t st)))"
    using elapsed
    by (simp add: well_formed_def timeout_elapsed_core distinct_delete split: option.split prod.split)
  then show ?case
    using elapsed handles_below_elapsed [of "next_handle st" st t] quiet_elapsed
    by (simp add: well_formed_def)
next
  case (destroyed st)
  then show ?case
    using handles_below_destroyed [of "next_handle st" st] quiet_destroyed
    by (simp add: well_formed_def) (simp add: destroy_alt)
next
  case (modal_opened st d)
  have hb: "handles_below (next_handle st) st" using modal_opened by (simp add: well_formed_def)
  have "calls_on (next_handle st) st = []"
    using hb by (auto simp: calls_on_def handles_below_def filter_empty_conv)
  moreover have "unreferenced (next_handle st) st"
    using hb unfolding handles_below_def unreferenced_def by (metis less_irrefl)
  ultimately have "quiet (next_handle st) (Some Pending) [] (snd (handleModalOpen d st))"
    by (simp add: quiet_def handleModalOpen_core unreferenced_def calls_on_def)
  then show ?case
    using modal_opened handles_below_modal_opened [OF hb, of d]
    by (simp add: well_formed_def handleModalOpen_core)
next
  case (modal_closed st d)
  then show ?case
    using handles_below_modal_closed [of "next_handle st" st d]
    by (simp add: well_formed_def handleModalClose_core)
qed

lemma frozen_changes:
  assumes "changes st st'" "frozen p v cs st"
  shows "frozen p v cs st'"
  using assms
proof (induction rule: changes.induct)
  case (same st' st)
  then show ?case using quiet_cong [OF same(1)] by (simp add: frozen_def core_def)
next
  case (seq st st' st'')
  then show ?case by simp
next
  case (request st pid payload)
  then show ?case by (simp add: frozen_def quiet_request)
next
  case (reply st payload)
  then show ?case by (simp add: frozen_def quiet_reply)
next
  case (elapsed st t)
  then show ?case by (simp add: frozen_def quiet_elapsed)
next
  case (destroyed st)
  then show ?case by (simp add: frozen_def quiet_destroyed)
next
  case (modal_opened st d)
  then have "quiet p v cs (snd (handleModalOpen d st))" by (simp add: frozen_def quiet_modal_opened)
  moreover have "p < next_handle st" using modal_opened by (simp add: frozen_def quiet_def)
  ultimately show ?case by (simp add: frozen_def handleModalOpen_core)
next
  case (modal_closed st d)
  then show ?case by (simp add: frozen_def quiet_modal_closed handleModalClose_core)
qed

subsection \<open>A settled request stays settled\<close>

lemma timer_gone_changes:
  assumes "changes st st'" "timer_gone t st"
  shows "timer_gone t st'"
  using assms
proof (induction rule: changes.induct)
  case (same st' st)
  then show ?case by (simp add: timer_gone_def core_def)
next
  case (seq st st' st'')
  then show ?case by simp
next
  case (request st pid payload)
  then show ?case by (simp add: timer_gone_def sendWithResponse_core)
next
  case (reply st payload)
  then show ?case by (simp add: timer_gone_def handleResponse_core split: option.split)
next
  case (elapsed st t')
  then show ?case by (simp add: timer_gone_def timeout_elapsed_core split: option.split prod.split)
next
  case (destroyed st)
  then show ?case by (simp add: timer_gone_def destroy_alt fold_reject_pending)
next
  case (modal_opened st d)
  then show ?case by (simp add: timer_gone_def handleModalOpen_core)
next
  case (modal_closed st d)
  then show ?case by (simp add: timer_gone_def)
qed

lemma settled_by_changes:
  assumes "changes st st'" "settled_by p t c st"
  shows "settled_by p t c st'"
proof -
  have f: "frozen p (promises st p) [c] st'"
    using frozen_changes [OF assms(1)] assms(2) by (simp add: settled_by_def)
  then have v: "promises st' p = promises st p" by (simp add: frozen_def quiet_def)
  have "timer_gone t st'"
    using timer_gone_changes [OF assms(1)] assms(2) by (simp add: settled_by_def timer_gone_def)
  then show ?thesis using f v assms(2) by (simp add: settled_by_def timer_gone_def)
qed

subsection \<open>A request awaiting its reply is settled once\<close>

lemma core_fields:
  assumes "core st' = core st"
  shows "promises st' = promises st" "timers st' = timers st"
    "pendingMessages st' = pendingMessages st" "settle_calls st' = settle_calls st"
    "next_handle st' = next_handle st" "modalResolve st' = modalResolve st"
    "calls_on p st' = calls_on p st"
  using assms by (simp_all add: core_def calls_on_def)

lemma well_formed_cong: "core st' = core st \<Longrightarrow> well_formed st' = well_formed st"
  using handles_below_cong [of st' st] quiet_cong [of st' st]
  by (simp add: well_formed_def core_def)

lemma well_formedI:
  assumes "pendingMessages st = []" "settle_calls st = []" "timers st = Map.empty"
    "modalResolve st = None"
  shows "well_formed st"
  using assms by (simp add: well_formed_def handles_below_def)

lemma linked_cong: "core st' = core st \<Longrightarrow> linked p t pid st' = linked p t pid st"
  by (simp add: core_def linked_def)

lemma awaiting_reply_cong:
  "core st' = core st \<Longrightarrow> awaiting_reply p t pid st' = awaiting_reply p t pid st"
  using linked_cong [of st' st p t pid] by (simp add: core_def awaiting_reply_def calls_on_def)

lemma settled_by_cong: "core st' = core st \<Longrightarrow> settled_by p t c st' = settled_by p t c st"
  using quiet_cong [of st' st p] by (simp add: core_def settled_by_def frozen_def)

lemma linked_handles:
  assumes "linked p t pid st"
  shows "p < next_handle st" "t < next_handle st" "modalResolve st \<noteq> Some p"
proof -
  from assms have c: "p < next_handle st \<and> t < next_handle st \<and> modalResolve st \<noteq> Some p \<and>
     (\<forall>k pm. (k, pm) \<in> set (pendingMessages st) \<longrightarrow>
        promise pm = p \<or> timeout pm = t \<longrightarrow> k = pid \<and> promise pm = p \<and> timeout pm = t) \<and>
     (\<forall>t' k q. timers st t' = Some (k, q) \<longrightarrow> q = p \<or> t' = t \<longrightarrow> t' = t \<and> k = pid \<and> q = p)"
    unfolding linked_def .
  show "p < next_handle st" by (rule conjunct1 [OF c])
  show "t < next_handle st" by (rule conjunct1 [OF conjunct2 [OF c]])
  show "modalResolve st \<noteq> Some p" by (rule conjunct1 [OF conjunct2 [OF conjunct2 [OF c]]])
qed

lemma linked_pending:
  assumes "linked p t pid st" "(k, pm) \<in> set (pendingMessages st)"
    and "promise pm = p \<or> timeout pm = t"
  shows "k = pid \<and> promise pm = p \<and> timeout pm = t"
proof -
  from assms(1) have c: "p < next_handle st \<and> t < next_handle st \<and> modalResolve st \<noteq> Some p \<and>
     (\<forall>k pm. (k, pm) \<in> set (pendingMessages st) \<longrightarrow>
        promise pm = p \<or> timeout pm = t \<longrightarrow> k = pid \<and> promise pm = p \<and> timeout pm = t) \<and>
     (\<forall>t' k q. timers st t' = Some (k, q) \<longrightarrow> q = p \<or> t' = t \<longrightarrow> t' = t \<and> k = pid \<and> q = p)"
    unfolding linked_def .
  note r = conjunct1 [OF conjunct2 [OF conjunct2 [OF conjunct2 [OF c]]]]
  show ?thesis by (rule r [rule_format, OF assms(2) assms(3)])
qed

lemma linked_timer:
  assumes "linked p t pid st" "timers st t' = Some (k, q)" "q = p \<or> t' = t"
  shows "t' = t \<and> k = pid \<and> q = p"
proof -
  from assms(1) have c: "p < next_handle st \<and> t < next_handle st \<and> modalResolve st \<noteq> Some p \<and>
     (\<forall>k pm. (k, pm) \<in> set (pendingMessages st) \<longrightarrow>
        promise pm = p \<or> timeout pm = t \<longrightarrow> k = pid \<and> promise pm = p \<and> timeout pm = t) \<and>
     (\<forall>t' k q. timers st t' = Some (k, q) \<longrightarrow> q = p \<or> t' = t \<longrightarrow> t' = t \<and> k = pid \<and> q = p)"
    unfolding linked_def .
  note r = conjunct2 [OF conjunct2 [OF conjunct2 [OF conjunct2 [OF c]]]]
  show ?thesis by (rule r [rule_format, OF assms(2) assms(3)])
qed

lemma linkedI:
  assumes "p < next_handle st" "t < next_handle st" "modalResolve st \<noteq> Some p"
    and "\<And>k pm. (k, pm) \<in> set (pendingMessages st) \<Longrightarrow> promise pm = p \<or> timeout pm = t \<Longrightarrow>
           k = pid \<and> promise pm = p \<and> timeout pm = t"
    and "\<And>t' k q. timers st t' = Some (k, q) \<Longrightarrow> q = p \<or> t' = t \<Longrightarrow> t' = t \<and> k = pid \<and> q = p"
  shows "linked p t pid st"
  unfolding linked_def
proof (intro conjI)
  show "p < next_handle st" "t < next_handle st" "modalResolve st \<noteq> Some p" by fact+
  show "\<forall>k pm. (k, pm) \<in> set (pendingMessages st) \<longrightarrow>
        promise pm = p \<or> timeout pm = t \<longrightarrow> k = pid \<and> promise pm = p \<and> timeout pm = t"
    by (intro allI impI) (rule assms(4))
  show "\<forall>t' k q. timers st t' = Some (k, q) \<longrightarrow> q = p \<or> t' = t \<longrightarrow> t' = t \<and> k = pid \<and> q = p"
    by (intro allI impI) (rule assms(5))
qed

lemma linked_fewer:
  assumes "linked p t pid st"
    and "\<And>k pm. (k, pm) \<in> set (pendingMessages st') \<Longrightarrow> (k, pm) \<in> set (pendingMessages st)"
    and "\<And>t v. timers st' t = Some v \<Longrightarrow> timers st t = Some v"
    and "next_handle st' = next_handle st" "modalResolve st' = modalResolve st"
  shows "linked p t pid st'"
proof (rule linkedI)
  show "p < next_handle st'" "t < next_handle st'" "modalResolve st' \<noteq> Some p"
    using linked_handles [OF assms(1)] assms(4,5) by simp_all
next
  fix k pm assume "(k, pm) \<in> set (pendingMessages st')" "promise pm = p \<or> timeout pm = t"
  then show "k = pid \<and> promise pm = p \<and> timeout pm = t"
    by (rule linked_pending [OF assms(1) assms(2)])
next
  fix t' k q assume "timers st' t' = Some (k, q)" "q = p \<or> t' = t"
  then show "t' = t \<and> k = pid \<and> q = p"
    by (rule linked_timer [OF assms(1) assms(3)])
qed

lemma awaiting_replyD:
  assumes "awaiting_reply p t pid st"
  shows "promises st p = Some Pending" "calls_on p st = []" "timers st t = Some (pid, p)"
    "linked p t pid st"
  using assms by (simp_all add: awaiting_reply_def)

lemma awaiting_settle_other:
  assumes "awaiting_reply p t pid st" "q \<noteq> p"
  shows "awaiting_reply p t pid (settle q out c st)"
proof -
  note a = awaiting_replyD [OF assms(1)]
  have "linked p t pid (settle q out c st)"
    by (rule linked_fewer [OF a(4)]) simp_all
  then show ?thesis
    using a(1-3) assms(2) by (simp add: awaiting_reply_def settle_promises calls_on_settle)
qed

lemma awaiting_request:
  assumes "awaiting_reply p t pid st"
  shows "awaiting_reply p t pid (snd (sendWithResponse pid' payload st))"
proof -
  let ?st' = "snd (sendWithResponse pid' payload st)"
  note a = awaiting_replyD [OF assms]
  note lt = linked_handles [OF a(4)]
  have "linked p t pid ?st'"
  proof (rule linkedI)
    show "p < next_handle ?st'" "t < next_handle ?st'" "modalResolve ?st' \<noteq> Some p"
      using lt by (simp_all add: sendWithResponse_core)
  next
    fix k pm assume b: "(k, pm) \<in> set (pendingMessages ?st')" "promise pm = p \<or> timeout pm = t"
    from b(1) have "(k, pm) = (pid', \<lparr>promise = next_handle st, timeout = Suc (next_handle st)\<rparr>) \<or>
        (k, pm) \<in> set (pendingMessages st)"
      by (auto simp: sendWithResponse_core dest: in_update)
    then have "(k, pm) \<in> set (pendingMessages st)" using b(2) lt(1,2) by auto
    then show "k = pid \<and> promise pm = p \<and> timeout pm = t"
      using b(2) by (rule linked_pending [OF a(4)])
  next
    fix t' k q assume b: "timers ?st' t' = Some (k, q)" "q = p \<or> t' = t"
    then have "timers st t' = Some (k, q)"
      using lt(1,2) by (auto simp: sendWithResponse_core split: if_splits)
    then show "t' = t \<and> k = pid \<and> q = p" using b(2) by (rule linked_timer [OF a(4)])
  qed
  then show ?thesis
    using a(1-3) lt(1,2) by (simp add: awaiting_reply_def sendWithResponse_core calls_on_def)
qed

lemma awaiting_modal_opened:
  assumes "awaiting_reply p t pid st"
  shows "awaiting_reply p t pid (snd (handleModalOpen d st))"
proof -
  let ?st' = "snd (handleModalOpen d st)"
  note a = awaiting_replyD [OF assms]
  note lt = linked_handles [OF a(4)]
  have "linked p t pid ?st'"
  proof (rule linkedI)
    show "p < next_handle ?st'" "t < next_handle ?st'" "modalResolve ?st' \<noteq> Some p"
      using lt by (simp_all add: handleModalOpen_core)
  next
    fix k pm assume "(k, pm) \<in> set (pendingMessages ?st')" "promise pm = p \<or> timeout pm = t"
    then have "(k, pm) \<in> set (pendingMessages st)" "promise pm = p \<or> timeout pm = t"
      by simp_all
    then show "k = pid \<and> promise pm = p \<and> timeout pm = t" by (rule linked_pending [OF a(4)])
  next
    fix t' k q assume "timers ?st' t' = Some (k, q)" "q = p \<or> t' = t"
    then have "timers st t' = Some (k, q)" "q = p \<or> t' = t" by simp_all
    then show "t' = t \<and> k = pid \<and> q = p" by (rule linked_timer [OF a(4)])
  qed
  then show ?thesis
    using a(1-3) lt(1) by (simp add: awaiting_reply_def handleModalOpen_core calls_on_def)
qed

lemma awaiting_modal_closed:
  assumes "awaiting_reply p t pid st"
  shows "awaiting_reply p t pid (handleModalClose d st)"
proof -
  let ?st' = "handleModalClose d st"
  note a = awaiting_replyD [OF assms]
  note lt = linked_handles [OF a(4)]
  have "linked p t pid ?st'"
  proof (rule linkedI)
    show "p < next_handle ?st'" "t < next_handle ?st'" "modalResolve ?st' \<noteq> Some p"
      using lt by (simp_all add: handleModalClose_core)
  next
    fix k pm assume "(k, pm) \<in> set (pendingMessages ?st')" "promise pm = p \<or> timeout pm = t"
    then have "(k, pm) \<in> set (pendingMessages st)" "promise pm = p \<or> timeout pm = t"
      by simp_all
    then show "k = pid \<and> promise pm = p \<and> timeout pm = t" by (rule linked_pending [OF a(4)])
  next
    fix t' k q assume "timers ?st' t' = Some (k, q)" "q = p \<or> t' = t"
    then have "timers st t' = Some (k, q)" "q = p \<or> t' = t" by simp_all
    then show "t' = t \<and> k = pid \<and> q = p" by (rule linked_timer [OF a(4)])
  qed
  moreover have "promises ?st' p = Some Pending" "calls_on p ?st' = []"
    using a(1,2) lt(3)
    by (auto simp: handleModalClose_core calls_on_def split: option.split)
  ultimately show ?thesis using a(3) by (simp add: awaiting_reply_def)
qed

lemma awaiting_settled:
  assumes "awaiting_reply p t pid st" "outcome_of c (Some out)"
  shows "settled_by p t c (settle p out c (st\<lparr>timers := (timers st)(t := None),
           pendingMessages := AList.delete pid (pendingMessages st)\<rparr>))"
proof -
  let ?s1 = "st\<lparr>timers := (timers st)(t := None),
      pendingMessages := AList.delete pid (pendingMessages st)\<rparr>"
  let ?s' = "settle p out c ?s1"
  note a = awaiting_replyD [OF assms(1)]
  note lt = linked_handles [OF a(4)]
  have 1: "promises ?s' p = Some out" using a(1) by (simp add: settle_promises)
  have "calls_on p ?s1 = []" using a(2) by (simp add: calls_on_def)
  then have 2: "calls_on p ?s' = [c]" by (simp add: calls_on_settle)
  have 3: "unreferenced p ?s'"
    unfolding unreferenced_def
  proof (intro conjI allI impI)
    fix k pm assume "(k, pm) \<in> set (pendingMessages ?s')"
    then have b: "(k, pm) \<in> set (pendingMessages st)" "k \<noteq> pid" by (simp_all add: in_delete)
    show "promise pm \<noteq> p"
    proof
      assume "promise pm = p"
      then have "promise pm = p \<or> timeout pm = t" by simp
      from linked_pending [OF a(4) b(1) this] b(2) show False by simp
    qed
  next
    fix t' k show "timers ?s' t' \<noteq> Some (k, p)"
    proof
      assume c: "timers ?s' t' = Some (k, p)"
      then have d: "t' \<noteq> t" by (auto split: if_splits)
      with c have "timers st t' = Some (k, p)" by simp
      from linked_timer [OF a(4) this] d show False by simp
    qed
  qed
  have 4: "p < next_handle ?s'" "t < next_handle ?s'" "modalResolve ?s' \<noteq> Some p"
    "timers ?s' t = None"
    using lt by simp_all
  show ?thesis
    unfolding settled_by_def frozen_def quiet_def using 1 2 3 4 assms(2) by simp
qed

lemma awaiting_other:
  assumes "awaiting_reply p t pid st" "q \<noteq> p" "t' \<noteq> t"
  shows "awaiting_reply p t pid (settle q out c (st\<lparr>timers := (timers st)(t' := None),
           pendingMessages := AList.delete k (pendingMessages st)\<rparr>))"
proof -
  let ?s1 = "st\<lparr>timers := (timers st)(t' := None),
      pendingMessages := AList.delete k (pendingMessages st)\<rparr>"
  note a = awaiting_replyD [OF assms(1)]
  have "linked p t pid ?s1"
    by (rule linked_fewer [OF a(4)]) (simp_all add: in_delete split: if_splits)
  then have "awaiting_reply p t pid ?s1"
    using a(1-3) assms(3) by (simp add: awaiting_reply_def calls_on_def)
  then show ?thesis using assms(2) by (rule awaiting_settle_other)
qed

lemma awaiting_reply_step:
  assumes "awaiting_reply p t pid st"
  shows "awaiting_reply p t pid (handleResponse d st) \<or> settled_by p t ByReply (handleResponse d st)"
proof (cases "pending_get (get d ''responseId'') (pendingMessages st)")
  case None
  then show ?thesis using assms by (simp add: handleResponse_core)
next
  case (Some pm)
  let ?k = "the_string (get d ''responseId'')"
  note a = awaiting_replyD [OF assms]
  have m: "(?k, pm) \<in> set (pendingMessages st)" by (rule pending_get_Some [OF Some])
  show ?thesis
  proof (cases "promise pm = p \<or> timeout pm = t")
    case True
    from linked_pending [OF a(4) m True]
    have e: "?k = pid" "promise pm = p" "timeout pm = t" by simp_all
    have "settled_by p t ByReply (settle p (Resolved (get d ''data'')) ByReply
        (st\<lparr>timers := (timers st)(t := None),
           pendingMessages := AList.delete pid (pendingMessages st)\<rparr>))"
      by (rule awaiting_settled [OF assms]) simp
    then show ?thesis using Some e by (simp add: handleResponse_core)
  next
    case False
    then have "promise pm \<noteq> p" "timeout pm \<noteq> t" by simp_all
    from awaiting_other [OF assms this]
    show ?thesis using Some by (simp add: handleResponse_core)
  qed
qed

lemma awaiting_elapsed_step:
  assumes "awaiting_reply p t pid st"
  shows "awaiting_reply p t pid (timeout_elapsed t' st) \<or>
         settled_by p t ByTimeout (timeout_elapsed t' st)"
proof (cases "timers st t'")
  case None
  then show ?thesis using assms by (simp add: timeout_elapsed_core)
next
  case (Some a)
  obtain k q where kq: "a = (k, q)" by (cases a)
  note a = awaiting_replyD [OF assms]
  have m: "timers st t' = Some (k, q)" using Some kq by simp
  show ?thesis
  proof (cases "q = p \<or> t' = t")
    case True
    from linked_timer [OF a(4) m True]
    have e: "t' = t" "k = pid" "q = p" by simp_all
    have "settled_by p t ByTimeout (settle p (Rejected (MessageTimeout (config_timeout st))) ByTimeout
        (st\<lparr>timers := (timers st)(t := None),
           pendingMessages := AList.delete pid (pendingMessages st)\<rparr>))"
      by (rule awaiting_settled [OF assms]) simp
    then show ?thesis using m e by (simp add: timeout_elapsed_core)
  next
    case False
    then have "q \<noteq> p" "t' \<noteq> t" by simp_all
    from awaiting_other [OF assms this]
    show ?thesis using m by (simp add: timeout_elapsed_core)
  qed
qed

lemma awaiting_elapsed_own:
  assumes "awaiting_reply p t pid st"
  shows "settled_by p t ByTimeout (timeout_elapsed t st)"
proof -
  note a = awaiting_replyD [OF assms]
  have "settled_by p t ByTimeout (settle p (Rejected (MessageTimeout (config_timeout st))) ByTimeout
      (st\<lparr>timers := (timers st)(t := None),
         pendingMessages := AList.delete pid (pendingMessages st)\<rparr>))"
    by (rule awaiting_settled [OF assms]) simp
  then show ?thesis using a(3) by (simp add: timeout_elapsed_core)
qed

lemma calls_of_destroy:
  assumes "distinct (map fst al)"
    and "\<And>k pm. (k, pm) \<in> set al \<Longrightarrow> promise pm = p \<Longrightarrow> k = pid"
  shows "map snd (filter (\<lambda>qc. fst qc = p) (map (\<lambda>(k, pm). (promise pm, ByDestroy)) al)) =
         (if p \<in> promise ` snd ` set al then [ByDestroy] else [])"
  using assms
proof (induction al)
  case Nil
  show ?case by simp
next
  case (Cons x xs)
  have d: "distinct (map fst xs)" "fst x \<notin> fst ` set xs" using Cons.prems(1) by simp_all
  have r: "k = pid" if "(k, pm) \<in> set xs" "promise pm = p" for k pm
    by (rule Cons.prems(2) [of k pm]) (use that in simp_all)
  note ih = Cons.IH [OF d(1) r]
  show ?case
  proof (cases "promise (snd x) = p")
    case True
    have "(fst x, snd x) \<in> set (x # xs)" by simp
    from Cons.prems(2) [OF this True] have k: "fst x = pid" .
    have "p \<notin> promise ` snd ` set xs"
    proof
      assume "p \<in> promise ` snd ` set xs"
      then obtain y where y: "y \<in> set xs" "promise (snd y) = p" by auto
      then have "(fst y, snd y) \<in> set xs" by simp
      from r [OF this y(2)] have "fst y = pid" .
      with y(1) k d(2) show False by (metis imageI)
    qed
    then show ?thesis using ih True by (simp add: split_beta)
  next
    case False
    then show ?thesis using ih by (auto simp: split_beta)
  qed
qed

lemma awaiting_destroy_step:
  assumes "awaiting_reply p t pid st" "distinct (map fst (pendingMessages st))"
  shows "awaiting_reply p t pid (destroy st) \<or> settled_by p t ByDestroy (destroy st)"
proof -
  note a = awaiting_replyD [OF assms(1)]
  note lt = linked_handles [OF a(4)]
  let ?al = "pendingMessages st"
  have key: "k = pid" if "(k, pm) \<in> set ?al" "promise pm = p" for k pm
  proof -
    from that(2) have "promise pm = p \<or> timeout pm = t" by simp
    from linked_pending [OF a(4) that(1) this] show ?thesis by simp
  qed
  have calls: "calls_on p (destroy st) =
      (if p \<in> promise ` snd ` set ?al then [ByDestroy] else [])"
    using calls_of_destroy [OF assms(2) key] a(2)
    by (simp add: destroy_alt fold_reject_pending calls_on_def)
  have tm: "timers (destroy st) t' = (if t' \<in> timeout ` snd ` set ?al then None else timers st t')"
    for t'
    by (simp add: destroy_alt fold_reject_pending)
  have pr: "promises (destroy st) p =
      (if p \<in> promise ` snd ` set ?al then Some (Rejected MessengerDestroyed) else Some Pending)"
    using a(1) by (simp add: destroy_alt fold_reject_pending)
  have pe: "pendingMessages (destroy st) = []" by (simp add: destroy_alt)
  have same: "t \<in> timeout ` snd ` set ?al \<longleftrightarrow> p \<in> promise ` snd ` set ?al"
  proof
    assume "t \<in> timeout ` snd ` set ?al"
    then obtain x where x: "x \<in> set ?al" "timeout (snd x) = t" by auto
    then have "(fst x, snd x) \<in> set ?al" "promise (snd x) = p \<or> timeout (snd x) = t" by simp_all
    from linked_pending [OF a(4) this] have "promise (snd x) = p" by simp
    with x(1) show "p \<in> promise ` snd ` set ?al" by (metis imageI)
  next
    assume "p \<in> promise ` snd ` set ?al"
    then obtain x where x: "x \<in> set ?al" "promise (snd x) = p" by auto
    then have "(fst x, snd x) \<in> set ?al" "promise (snd x) = p \<or> timeout (snd x) = t" by simp_all
    from linked_pending [OF a(4) this] have "timeout (snd x) = t" by simp
    with x(1) show "t \<in> timeout ` snd ` set ?al" by (metis imageI)
  qed
  show ?thesis
  proof (cases "p \<in> promise ` snd ` set ?al")
    case True
    have u: "unreferenced p (destroy st)"
      unfolding unreferenced_def
    proof (intro conjI allI impI)
      fix k pm assume "(k, pm) \<in> set (pendingMessages (destroy st))"
      then show "promise pm \<noteq> p" by (simp add: pe)
    next
      fix t' k show "timers (destroy st) t' \<noteq> Some (k, p)"
      proof
        assume c: "timers (destroy st) t' = Some (k, p)"
        then have d: "t' \<notin> timeout ` snd ` set ?al" "timers st t' = Some (k, p)"
          by (simp_all add: tm split: if_splits)
        have "p = p \<or> t' = t" by simp
        from linked_timer [OF a(4) d(2) this] have "t' = t" by simp
        with d(1) same True show False by simp
      qed
    qed
    have "timers (destroy st) t = None" using same True by (simp add: tm)
    then have "settled_by p t ByDestroy (destroy st)"
      unfolding settled_by_def frozen_def quiet_def
      using True calls pr u lt by simp
    then show ?thesis ..
  next
    case False
    have "linked p t pid (destroy st)"
      by (rule linked_fewer [OF a(4)]) (simp_all add: pe tm split: if_splits)
    moreover have "timers (destroy st) t = Some (pid, p)" using same False a(3) by (simp add: tm)
    ultimately have "awaiting_reply p t pid (destroy st)"
      using False calls pr by (simp add: awaiting_reply_def)
    then show ?thesis ..
  qed
qed

lemma request_state_cong:
  "core st' = core st \<Longrightarrow> request_state p t pid st' = request_state p t pid st"
  using awaiting_reply_cong [of st' st p t pid] settled_by_cong [of st' st p t]
  by (simp add: request_state_def)

lemma request_state_cases:
  assumes "request_state p t pid st"
  obtains "awaiting_reply p t pid st"
  | c where "settled_by p t c st" "c = ByReply \<or> c = ByTimeout \<or> c = ByDestroy"
  using assms unfolding request_state_def by blast

lemma settled_request_state:
  "settled_by p t c st \<Longrightarrow> c = ByReply \<or> c = ByTimeout \<or> c = ByDestroy \<Longrightarrow>
   request_state p t pid st"
  unfolding request_state_def by blast

lemma request_state_changes:
  assumes "changes st st'" "well_formed st" "request_state p t pid st"
  shows "request_state p t pid st'"
  using assms
proof (induction rule: changes.induct)
  case (same st' st)
  then show ?case using request_state_cong [OF same(1), of p t pid] by simp
next
  case (seq st st' st'')
  from seq.IH(1) [OF seq.prems] have 1: "request_state p t pid st'" .
  have 2: "well_formed st'" by (rule well_formed_changes [OF seq.hyps(1) seq.prems(1)])
  show ?case by (rule seq.IH(2) [OF 2 1])
next
  case (request st pid' payload)
  from request(2) show ?case
  proof (cases rule: request_state_cases)
    case 1
    then show ?thesis by (simp add: request_state_def awaiting_request)
  next
    case (2 c)
    from settled_by_changes [OF changes.request 2(1)] 2(2) show ?thesis
      by (rule settled_request_state)
  qed
next
  case (reply st d)
  from reply(2) show ?case
  proof (cases rule: request_state_cases)
    case 1
    from awaiting_reply_step [OF 1] show ?thesis by (auto simp: request_state_def)
  next
    case (2 c)
    from settled_by_changes [OF changes.reply 2(1)] 2(2) show ?thesis
      by (rule settled_request_state)
  qed
next
  case (elapsed st t')
  from elapsed(2) show ?case
  proof (cases rule: request_state_cases)
    case 1
    from awaiting_elapsed_step [OF 1] show ?thesis by (auto simp: request_state_def)
  next
    case (2 c)
    from settled_by_changes [OF changes.elapsed 2(1)] 2(2) show ?thesis
      by (rule settled_request_state)
  qed
next
  case (destroyed st)
  from destroyed(2) show ?case
  proof (cases rule: request_state_cases)
    case 1
    have "distinct (map fst (pendingMessages st))" using destroyed(1) by (simp add: well_formed_def)
    from awaiting_destroy_step [OF 1 this] show ?thesis by (auto simp: request_state_def)
  next
    case (2 c)
    from settled_by_changes [OF changes.destroyed 2(1)] 2(2) show ?thesis
      by (rule settled_request_state)
  qed
next
  case (modal_opened st d)
  from modal_opened(2) show ?case
  proof (cases rule: request_state_cases)
    case 1
    then show ?thesis by (simp add: request_state_def awaiting_modal_opened)
  next
    case (2 c)
    from settled_by_changes [OF changes.modal_opened 2(1)] 2(2) show ?thesis
      by (rule settled_request_state)
  qed
next
  case (modal_closed st d)
  from modal_closed(2) show ?case
  proof (cases rule: request_state_cases)
    case 1
    then show ?thesis by (simp add: request_state_def awaiting_modal_closed)
  next
    case (2 c)
    from settled_by_changes [OF changes.modal_closed 2(1)] 2(2) show ?thesis
      by (rule settled_request_state)
  qed
qed

lemma request_state_explicit:
  assumes "request_state p t pid st"
  shows "promises st p = Some Pending \<and> calls_on p st = [] \<and> timers st t = Some (pid, p) \<or>
         (\<exists>c. (c = ByReply \<or> c = ByTimeout \<or> c = ByDestroy) \<and> calls_on p st = [c] \<and>
              outcome_of c (promises st p) \<and> timers st t = None)"
  using assms
proof (cases rule: request_state_cases)
  case 1
  then show ?thesis by (simp add: awaiting_reply_def)
next
  case (2 c)
  then have "(c = ByReply \<or> c = ByTimeout \<or> c = ByDestroy) \<and> calls_on p st = [c] \<and>
      outcome_of c (promises st p) \<and> timers st t = None"
    by (simp add: settled_by_def frozen_def quiet_def)
  then show ?thesis by blast
qed

subsection \<open>Sending a request\<close>

lemma awaiting_after_request:
  assumes "well_formed st" "targetWindow st \<noteq> None"
  shows "awaiting_reply (next_handle st) (Suc (next_handle st)) pid
           (snd (sendWithResponse pid payload st))"
proof -
  let ?n = "next_handle st"
  let ?st' = "snd (sendWithResponse pid payload st)"
  have hb: "handles_below ?n st" using assms(1) by (simp add: well_formed_def)
  have pe: "promise pm < ?n \<and> timeout pm < ?n" if "(k, pm) \<in> set (pendingMessages st)" for k pm
    using hb that unfolding handles_below_def by blast
  have ti: "t < ?n \<and> q < ?n" if "timers st t = Some (k, q)" for t k q
    using hb that unfolding handles_below_def by blast
  have sc: "q < ?n" if "(q, c) \<in> set (settle_calls st)" for q c
    using hb that unfolding handles_below_def by blast
  have mr: "modalResolve st \<noteq> Some ?n"
    using hb unfolding handles_below_def by (metis less_irrefl)
  have 1: "promises ?st' ?n = Some Pending" using assms(2) by (simp add: sendWithResponse_core)
  have "filter (\<lambda>qc. fst qc = ?n) (settle_calls st) = []"
    unfolding filter_empty_conv
  proof
    fix x assume "x \<in> set (settle_calls st)"
    then have "(fst x, snd x) \<in> set (settle_calls st)" by simp
    from sc [OF this] show "\<not> fst x = ?n" by simp
  qed
  then have 2: "calls_on ?n ?st' = []"
    using assms(2) by (simp add: calls_on_def sendWithResponse_core)
  have 3: "timers ?st' (Suc ?n) = Some (pid, ?n)" by (simp add: sendWithResponse_core)
  have 4: "linked ?n (Suc ?n) pid ?st'"
  proof (rule linkedI)
    show "?n < next_handle ?st'" "Suc ?n < next_handle ?st'" by (simp_all add: sendWithResponse_core)
    show "modalResolve ?st' \<noteq> Some ?n" using mr by simp
  next
    fix k pm assume b: "(k, pm) \<in> set (pendingMessages ?st')" "promise pm = ?n \<or> timeout pm = Suc ?n"
    from b(1) have "(k, pm) = (pid, \<lparr>promise = ?n, timeout = Suc ?n\<rparr>) \<or>
        (k, pm) \<in> set (pendingMessages st)"
      by (auto simp: sendWithResponse_core dest: in_update)
    then show "k = pid \<and> promise pm = ?n \<and> timeout pm = Suc ?n"
    proof
      assume "(k, pm) = (pid, \<lparr>promise = ?n, timeout = Suc ?n\<rparr>)"
      then show ?thesis by simp
    next
      assume "(k, pm) \<in> set (pendingMessages st)"
      from pe [OF this] b(2) show ?thesis by simp
    qed
  next
    fix t' k q assume b: "timers ?st' t' = Some (k, q)" "q = ?n \<or> t' = Suc ?n"
    show "t' = Suc ?n \<and> k = pid \<and> q = ?n"
    proof (cases "t' = Suc ?n")
      case True
      then show ?thesis using b(1) by (simp add: sendWithResponse_core)
    next
      case False
      then have "timers st t' = Some (k, q)" using b(1) by (simp add: sendWithResponse_core)
      from ti [OF this] b(2) False show ?thesis by simp
    qed
  qed
  from 1 2 3 4 show ?thesis by (simp add: awaiting_reply_def)
qed

lemma send_request:
  "\<exists>payload st3. core st3 = core st \<and> targetWindow st3 = targetWindow st \<and>
     get payload ''id'' = JStr (fst (generateId st)) \<and>
     send type action data True st =
       (SendAwaits (next_handle st), snd (sendWithResponse (fst (generateId st)) payload st3))"
proof -
  let ?payload = "JObj [''id'' \<mapsto> JStr (fst (generateId st)), ''type'' \<mapsto> JStr type,
             ''action'' \<mapsto> JStr action, ''data'' \<mapsto> data,
             ''timestamp'' \<mapsto> JNum (fst (date_now (snd (generateId st)))),
             ''requiresResponse'' \<mapsto> JBool True,
             ''source'' \<mapsto> source_tag (snd (date_now (snd (generateId st)))),
             ''targetOrigin'' \<mapsto> JStr (config_targetOrigin (snd (date_now (snd (generateId st)))))]"
  let ?st3 = "debug_log ''Sending message:'' ?payload (snd (date_now (snd (generateId st))))"
  have c: "core ?st3 = core st" by simp
  then have n: "next_handle ?st3 = next_handle st" by (simp add: core_def)
  have t: "targetWindow ?st3 = targetWindow st" by simp
  have i: "get ?payload ''id'' = JStr (fst (generateId st))" by simp
  have "send type action data True st =
      (SendAwaits (fst (sendWithResponse (fst (generateId st)) ?payload ?st3)),
       snd (sendWithResponse (fst (generateId st)) ?payload ?st3))"
    by (simp add: send_def split_beta Let_def)
  then have "send type action data True st =
      (SendAwaits (next_handle st), snd (sendWithResponse (fst (generateId st)) ?payload ?st3))"
    by (simp only: sendWithResponse_core(6) n)
  with c t i show ?thesis by blast
qed

lemma awaiting_after_send:
  assumes "well_formed st" "targetWindow st \<noteq> None"
  shows "fst (send type action data True st) = SendAwaits (next_handle st)"
    and "awaiting_reply (next_handle st) (Suc (next_handle st)) (fst (generateId st))
           (snd (send type action data True st))"
proof -
  from send_request [of st type action data] obtain payload st3 where
    s: "core st3 = core st" "targetWindow st3 = targetWindow st"
      "send type action data True st =
       (SendAwaits (next_handle st), snd (sendWithResponse (fst (generateId st)) payload st3))"
    by blast
  have w: "well_formed st3" using well_formed_cong [OF s(1)] assms(1) by simp
  have n: "next_handle st3 = next_handle st" using s(1) by (simp add: core_def)
  show "fst (send type action data True st) = SendAwaits (next_handle st)" by (simp add: s(3))
  from awaiting_after_request [OF w, of "fst (generateId st)" payload] assms(2) s(2)
  show "awaiting_reply (next_handle st) (Suc (next_handle st)) (fst (generateId st))
           (snd (send type action data True st))"
    by (simp add: s(3) n)
qed

lemma entry_after_send:
  "map_of (pendingMessages (snd (send type action data True st))) (fst (generateId st)) =
     Some \<lparr>promise = next_handle st, timeout = Suc (next_handle st)\<rparr>"
proof -
  from send_request [of st type action data] obtain payload st3 where
    s: "core st3 = core st"
      "send type action data True st =
       (SendAwaits (next_handle st), snd (sendWithResponse (fst (generateId st)) payload st3))"
    by blast
  have n: "next_handle st3 = next_handle st" using s(1) by (simp add: core_def)
  show ?thesis by (simp add: s(2) sendWithResponse_core n update_conv')
qed

lemma rejected_without_target_window:
  assumes "targetWindow st = None" "next_handle st = 0" "settle_calls st = []"
  shows "fst (send type action data True st) = SendAwaits 0"
    and "promises (snd (send type action data True st)) 0 = Some (Rejected TargetWindowNotAvailable)"
    and "settle_calls (snd (send type action data True st)) = [(0, ByThrow)]"
    and "timers (snd (send type action data True st)) (Suc 0) = Some (fst (generateId st), 0)"
proof -
  from send_request [of st type action data] obtain payload st3 where
    s: "core st3 = core st" "targetWindow st3 = targetWindow st"
      "send type action data True st =
       (SendAwaits (next_handle st), snd (sendWithResponse (fst (generateId st)) payload st3))"
    by blast
  have c: "next_handle st3 = 0" "settle_calls st3 = []"
    using core_fields(4,5) [OF s(1)] assms(2,3) by simp_all
  have tw: "targetWindow st3 = None" using s(2) assms(1) by simp
  show "fst (send type action data True st) = SendAwaits 0" by (simp add: s(3) assms(2))
  show "promises (snd (send type action data True st)) 0 = Some (Rejected TargetWindowNotAvailable)"
    by (simp add: s(3) sendWithResponse_core c tw)
  show "settle_calls (snd (send type action data True st)) = [(0, ByThrow)]"
    by (simp add: s(3) sendWithResponse_core c tw)
  show "timers (snd (send type action data True st)) (Suc 0) = Some (fst (generateId st), 0)"
    by (simp add: s(3) sendWithResponse_core c)
qed

lemma reply_settles:
  assumes "awaiting_reply p t pid st"
    and "map_of (pendingMessages st) pid = Some \<lparr>promise = p, timeout = t\<rparr>"
    and "get d ''responseId'' = JStr pid"
  shows "settled_by p t ByReply (handleResponse d st)"
    and "promises (handleResponse d st) p = Some (Resolved (get d ''data''))"
proof -
  have g: "pending_get (get d ''responseId'') (pendingMessages st) = Some \<lparr>promise = p, timeout = t\<rparr>"
    using assms(2,3) by simp
  have "promises st (promise \<lparr>promise = p, timeout = t\<rparr>) = Some Pending"
    using assms(1) by (simp add: awaiting_reply_def)
  from handleResponse_pending [OF g this]
  show r: "promises (handleResponse d st) p = Some (Resolved (get d ''data''))" by simp
  from awaiting_reply_step [OF assms(1), of d]
  show "settled_by p t ByReply (handleResponse d st)"
  proof
    assume "awaiting_reply p t pid (handleResponse d st)"
    then show ?thesis using r by (simp add: awaiting_reply_def)
  qed
qed

lemma destroy_settles:
  assumes "awaiting_reply p t pid st" "distinct (map fst (pendingMessages st))"
    and "map_of (pendingMessages st) pid = Some \<lparr>promise = p, timeout = t\<rparr>"
  shows "settled_by p t ByDestroy (destroy st)"
proof -
  have "(pid, \<lparr>promise = p, timeout = t\<rparr>) \<in> set (pendingMessages st)"
    by (rule map_of_SomeD [OF assms(3)])
  then have "p \<in> promise ` snd ` set (pendingMessages st)" by force
  moreover have "promises st p = Some Pending" using assms(1) by (simp add: awaiting_reply_def)
  ultimately have r: "promises (destroy st) p = Some (Rejected MessengerDestroyed)"
    by (simp add: destroy_alt fold_reject_pending)
  from awaiting_destroy_step [OF assms(1,2)] show ?thesis
  proof
    assume "awaiting_reply p t pid (destroy st)"
    then show ?thesis using r by (simp add: awaiting_reply_def)
  qed
qed

subsection \<open>Sequences of tasks\<close>

lemma run_append: "run (es @ es') st = run es' (run es st)"
  by (simp add: run_def)

lemma run_Cons: "run (e # es) st = run es (step e st)"
  by (simp add: run_def)

lemma request_state_run:
  assumes "well_formed st" "request_state p t pid st"
  shows "request_state p t pid (run es st)"
  by (rule request_state_changes [OF changes_run assms])

lemma settled_run:
  assumes "settled_by p t c st"
  shows "settled_by p t c (run es st)"
  by (rule settled_by_changes [OF changes_run assms])

lemma settled_step:
  assumes "settled_by p t c st"
  shows "settled_by p t c (step e st)"
  by (rule settled_by_changes [OF changes_step assms])

lemma frozen_run:
  assumes "frozen p v cs st"
  shows "frozen p v cs (run es st)"
  by (rule frozen_changes [OF changes_run assms])

lemma well_formed_run:
  assumes "well_formed st"
  shows "well_formed (run es st)"
  by (rule well_formed_changes [OF changes_run assms])

lemma timer_fires_settles:
  assumes "request_state p t pid st"
  shows "\<exists>c. (c = ByReply \<or> c = ByTimeout \<or> c = ByDestroy) \<and>
           settled_by p t c (step (TimerFires t) st)"
  using assms
proof (cases rule: request_state_cases)
  case 1
  have "settled_by p t ByTimeout (timeout_elapsed t st)" by (rule awaiting_elapsed_own [OF 1])
  then have "settled_by p t ByTimeout (drain (timeout_elapsed t st))"
    using settled_by_cong [of "drain (timeout_elapsed t st)" "timeout_elapsed t st" p t ByTimeout]
    by simp
  then show ?thesis by (auto simp: step_def)
next
  case (2 c)
  from settled_step [OF 2(1)] 2(2) show ?thesis by blast
qed

lemma settled_when_timer_fired:
  assumes "well_formed st" "request_state p t pid st" "TimerFires t \<in> set es"
  shows "\<exists>c. (c = ByReply \<or> c = ByTimeout \<or> c = ByDestroy) \<and> settled_by p t c (run es st)"
proof -
  from assms(3) obtain es1 es2 where es: "es = es1 @ TimerFires t # es2"
    by (auto simp: in_set_conv_decomp)
  have "request_state p t pid (run es1 st)" by (rule request_state_run [OF assms(1,2)])
  from timer_fires_settles [OF this] obtain c where
    c: "c = ByReply \<or> c = ByTimeout \<or> c = ByDestroy"
      "settled_by p t c (step (TimerFires t) (run es1 st))"
    by blast
  have "settled_by p t c (run es2 (step (TimerFires t) (run es1 st)))"
    by (rule settled_run [OF c(2)])
  then have "settled_by p t c (run es st)" by (simp add: es run_append run_Cons)
  with c(1) show ?thesis by blast
qed

lemma step_message:
  assumes "listeners st = [BoundHandleMessage]" "origin = config_targetOrigin st"
    and "isValidPayload d"
    and "\<not> (strict_eq_str (get d ''type'') ''response'' \<and> truthy (get d ''responseId''))"
  shows "step (Message origin d) st =
           drain (handleIncomingMessage d (debug_log ''Received message:'' d st))"
  using handleMessage_request [OF assms(2-4)] assms(1) by (simp add: step_def deliver_def)

lemma message_keeps:
  "listeners (step (Message origin d) st) = listeners st"
  "messageHandlers (step (Message origin d) st) = messageHandlers st"
  by (simp_all add: step_def)

subsection \<open>The promise kept in \<open>modalResolve\<close>\<close>

lemma modal_promise_quiet:
  assumes "well_formed st" "modalResolve st = Some q"
  shows "quiet q (Some Pending) [] st"
  using assms by (simp add: well_formed_def)

lemma modal_closed_resolves:
  assumes "well_formed st" "modalResolve st = Some q"
  shows "frozen q (Some (Resolved d)) [ByModalClose] (handleModalClose d st)"
proof -
  note q = modal_promise_quiet [OF assms]
  then have f: "q < next_handle st" "promises st q = Some Pending" "calls_on q st = []"
    "unreferenced q st"
    by (simp_all add: quiet_def)
  have "calls_on q (handleModalClose d st) = [ByModalClose]"
    using f(3) assms(2) by (simp add: calls_on_def handleModalClose_core)
  moreover have "promises (handleModalClose d st) q = Some (Resolved d)"
    using f(2) assms(2) by (simp add: handleModalClose_core)
  moreover have "unreferenced q (handleModalClose d st)"
    using f(4) by (simp add: unreferenced_def)
  ultimately show ?thesis
    using f(1) by (simp add: frozen_def quiet_def handleModalClose_core)
qed

lemma modal_opened_twice:
  assumes "well_formed st" "modalResolve st = Some q"
  shows "orphaned q (snd (handleModalOpen d st))"
    and "fst (handleModalOpen d st) \<noteq> q"
    and "modalResolve (snd (handleModalOpen d st)) = Some (fst (handleModalOpen d st))"
proof -
  note q = modal_promise_quiet [OF assms]
  then have lt: "q < next_handle st" by (simp add: quiet_def)
  have "quiet q (Some Pending) [] (snd (handleModalOpen d st))"
    by (rule quiet_modal_opened [OF q])
  then show "orphaned q (snd (handleModalOpen d st))"
    using lt by (simp add: orphaned_def frozen_def handleModalOpen_core)
  show "fst (handleModalOpen d st) \<noteq> q" using lt by (simp add: handleModalOpen_core)
  show "modalResolve (snd (handleModalOpen d st)) = Some (fst (handleModalOpen d st))"
    by (simp add: handleModalOpen_core)
qed

lemma modal_open_received:
  assumes "listeners st = [BoundHandleMessage]" "origin = config_targetOrigin st"
    and "map_of (messageHandlers st) ''ui:modal_open'' = Some HostModalOpen"
  shows "\<exists>st0. core st0 = core st \<and>
           core (step (Message origin (modal_open_message i route)) st) =
             core (snd (handleModalOpen (JObj [''route'' \<mapsto> JStr route]) st0))"
proof -
  let ?d = "modal_open_message i route"
  let ?s = "debug_log ''Received message:'' ?d st"
  let ?st0 = "?s\<lparr>invoked := invoked ?s @ [(''ui:modal_open'', ?d)]\<rparr>"
  have v: "isValidPayload ?d" by (simp add: modal_open_message_def isValidPayload_def)
  have n: "\<not> (strict_eq_str (get ?d ''type'') ''response'' \<and> truthy (get ?d ''responseId''))"
    by (simp add: modal_open_message_def)
  have ty: "the_string (get ?d ''type'') = ''ui''" "the_string (get ?d ''action'') = ''modal_open''"
    "get ?d ''data'' = JObj [''route'' \<mapsto> JStr route]"
    by (simp_all add: modal_open_message_def)
  have h: "map_of (messageHandlers ?s) (''ui'' @ '':'' @ ''modal_open'') = Some HostModalOpen"
    using assms(3) by simp
  have "handleIncomingMessage ?d ?s = dispatch (''ui'' @ '':'' @ ''modal_open'') HostModalOpen ?d ?s"
    by (rule handleIncomingMessage_action [OF ty(1,2) h])
  then have "step (Message origin ?d) st = drain (dispatch ''ui:modal_open'' HostModalOpen ?d ?s)"
    using step_message [OF assms(1,2) v n] by simp
  then have "core (step (Message origin ?d) st) =
      core (snd (handleModalOpen (JObj [''route'' \<mapsto> JStr route]) ?st0))"
    by (simp add: dispatch_def split_beta ty(3))
  moreover have "core ?st0 = core st" by simp
  ultimately show ?thesis by blast
qed

lemma modal_close_received:
  assumes "listeners st = [BoundHandleMessage]" "origin = config_targetOrigin st"
    and "map_of (messageHandlers st) ''ui:modal_close'' = Some HostModalClose"
  shows "\<exists>st0. core st0 = core st \<and>
           core (step (Message origin (modal_close_message i result)) st) =
             core (handleModalClose result st0)"
proof -
  let ?d = "modal_close_message i result"
  let ?s = "debug_log ''Received message:'' ?d st"
  let ?st0 = "?s\<lparr>invoked := invoked ?s @ [(''ui:modal_close'', ?d)]\<rparr>"
  have v: "isValidPayload ?d" by (simp add: modal_close_message_def isValidPayload_def)
  have n: "\<not> (strict_eq_str (get ?d ''type'') ''response'' \<and> truthy (get ?d ''responseId''))"
    by (simp add: modal_close_message_def)
  have ty: "the_string (get ?d ''type'') = ''ui''" "the_string (get ?d ''action'') = ''modal_close''"
    "get ?d ''data'' = result"
    by (simp_all add: modal_close_message_def)
  have h: "map_of (messageHandlers ?s) (''ui'' @ '':'' @ ''modal_close'') = Some HostModalClose"
    using assms(3) by simp
  have "handleIncomingMessage ?d ?s = dispatch (''ui'' @ '':'' @ ''modal_close'') HostModalClose ?d ?s"
    by (rule handleIncomingMessage_action [OF ty(1,2) h])
  then have "step (Message origin ?d) st = drain (dispatch ''ui:modal_close'' HostModalClose ?d ?s)"
    using step_message [OF assms(1,2) v n] by simp
  then have "core (step (Message origin ?d) st) = core (handleModalClose result ?st0)"
    by (simp add: dispatch_def ty(3))
  moreover have "core ?st0 = core st" by simp
  ultimately show ?thesis by blast
qed

subsection \<open>The example states\<close>

lemmas construct_defs = new_IframeApp_def boot_def new_IframeMessenger_def new_ContextManager_def
  generateContextId_def date_now_def math_random_def split_beta Let_def setupDefaultHandlers_def
  setupMessageHandlers_def onAction_def spread_def

lemma guest0_context:
  "cm_context guest0 =
     [''id'' \<mapsto> JStr ''ctx_1000_k3x9'', ''route'' \<mapsto> JStr ''/'',
      ''navigation'' \<mapsto> JObj [''currentRoute'' \<mapsto> JStr ''/''],
      ''app'' \<mapsto> JObj [''environment'' \<mapsto> JStr ''development''],
      ''createdAt'' \<mapsto> JNum 1000, ''updatedAt'' \<mapsto> JNum 1000]"
  "clock guest0 = frozen_clock" "contextHistory guest0 = []"
  by (simp_all add: guest0_def construct_defs frozen_clock_def show_int_def show_nat.simps
      digit_char_def some_random_def)

lemma guest1_facts:
  "updatedAt guest1 = JNum 1002" "next_reading guest1 = 1003"
  by (simp_all add: guest1_def updatedAt_def lookup_def next_reading_def construct_defs
      ticking_clock_def)

lemma guest0_fields:
  "config_targetOrigin guest0 = ''https://host.example''"
  "config_debug guest0 = False"
  "config_timeout guest0 = 5000"
  "isHost guest0 = False"
  "targetWindow guest0 = Some ParentWindow"
  "listeners guest0 = [BoundHandleMessage]"
  "microtasks guest0 = []"
  "awaiting guest0 = []"
  "posted guest0 = []"
  "invoked guest0 = []"
  "pendingMessages guest0 = []"
  "settle_calls guest0 = []"
  "next_handle guest0 = 0"
  "clock_reads guest0 = 3"
  "random_reads guest0 = 1"
  "random guest0 = some_random"
  "messageHandlers guest0 =
     [(''state:request'', ContextRequest), (''state:update'', ContextUpdate),
      (''state:sync'', ContextSync), (''ui:focus'', GuestFocus), (''ui:blur'', GuestBlur),
      (''ui:resize'', GuestResize)]"
  by (simp_all add: guest0_def construct_defs)

lemma host0_fields:
  "config_targetOrigin host0 = ''https://guest.example''"
  "config_debug host0 = False"
  "config_timeout host0 = 5000"
  "isHost host0 = True"
  "targetWindow host0 = None"
  "listeners host0 = [BoundHandleMessage]"
  "microtasks host0 = []"
  "awaiting host0 = []"
  "posted host0 = []"
  "invoked host0 = []"
  "pendingMessages host0 = []"
  "settle_calls host0 = []"
  "next_handle host0 = 0"
  "modalResolve host0 = None"
  "modalStack host0 = []"
  "iframe_id host0 = ''frame1''"
  "clock host0 = frozen_clock"
  "clock_reads host0 = 3"
  "random_reads host0 = 1"
  "random host0 = some_random"
  "messageHandlers host0 =
     [(''state:request'', ContextRequest), (''state:update'', HostStateUpdate),
      (''state:sync'', ContextSync), (''navigation:navigate_to'', HostNavigate),
      (''navigation:go_back'', HostGoBack), (''ui:modal_open'', HostModalOpen),
      (''ui:modal_close'', HostModalClose), (''error'', HostError)]"
  by (simp_all add: host0_def createIframe_def setupIframeHandlers_def on_type_def construct_defs)

subsection \<open>The states that are reached are well formed\<close>

text \<open>
  A new messenger, a new \<open>IframeApp\<close> and the host side that \<open>createIframe\<close> builds are well
  formed, and so is every state that a sequence of tasks reaches from them.
\<close>

lemma well_formed_new:
  "well_formed (new_IframeMessenger config host (boot clk rnd))"
  "well_formed (new_IframeApp hostOrigin dbg (boot clk rnd))"
  "well_formed (createIframe iid origin pathname dbg (boot clk rnd))"
proof -
  show "well_formed (new_IframeMessenger config host (boot clk rnd))"
    by (rule well_formedI) (simp_all add: new_IframeMessenger_def boot_def Let_def)
  show "well_formed (new_IframeApp hostOrigin dbg (boot clk rnd))"
    by (rule well_formedI) (simp_all add: construct_defs)
  show "well_formed (createIframe iid origin pathname dbg (boot clk rnd))"
    by (rule well_formedI)
       (simp_all add: createIframe_def setupIframeHandlers_def on_type_def construct_defs)
qed

lemma well_formed_reachable:
  "well_formed (run es (new_IframeMessenger config host (boot clk rnd)))"
  "well_formed (run es (new_IframeApp hostOrigin dbg (boot clk rnd)))"
  "well_formed (run es (createIframe iid origin pathname dbg (boot clk rnd)))"
  by (rule well_formed_run, rule well_formed_new)+

lemma guest0_well_formed: "well_formed guest0"
  by (rule well_formedI) (simp_all add: guest0_def construct_defs)

lemma host0_well_formed: "well_formed host0"
  by (rule well_formedI)
     (simp_all add: host0_def createIframe_def setupIframeHandlers_def on_type_def construct_defs)

lemma host_loaded_fields:
  "listeners host_loaded = [BoundHandleMessage]"
  "config_targetOrigin host_loaded = ''https://guest.example''"
  "map_of (messageHandlers host_loaded) ''ui:modal_open'' = Some HostModalOpen"
  "map_of (messageHandlers host_loaded) ''ui:modal_close'' = Some HostModalClose"
  "next_handle host_loaded = 0"
  "well_formed host_loaded"
proof -
  show "listeners host_loaded = [BoundHandleMessage]"
    "config_targetOrigin host_loaded = ''https://guest.example''"
    "map_of (messageHandlers host_loaded) ''ui:modal_open'' = Some HostModalOpen"
    "map_of (messageHandlers host_loaded) ''ui:modal_close'' = Some HostModalClose"
    "next_handle host_loaded = 0"
    by (simp_all add: host_loaded_def setTargetWindow_def host0_fields)
  have "core host_loaded = core host0" by (simp add: host_loaded_def)
  from well_formed_cong [OF this] show "well_formed host_loaded" by (simp add: host0_well_formed)
qed

lemma sync_message_received:
  "core (step (Message ''https://guest.example'' sync_message) host0) =
     core (snd (send ''state'' ''request'' JUndefined True
       (host0\<lparr>invoked := invoked host0 @ [(''state:sync'', sync_message)]\<rparr>)))"
proof -
  let ?d = "sync_message"
  let ?st0 = "host0\<lparr>invoked := invoked host0 @ [(''state:sync'', ?d)]\<rparr>"
  have v: "isValidPayload ?d" by (simp add: sync_message_def isValidPayload_def)
  have n: "\<not> (strict_eq_str (get ?d ''type'') ''response'' \<and> truthy (get ?d ''responseId''))"
    by (simp add: sync_message_def)
  have ty: "the_string (get ?d ''type'') = ''state''" "the_string (get ?d ''action'') = ''sync''"
    "get ?d ''data'' = JUndefined"
    by (simp_all add: sync_message_def)
  have dl: "debug_log ''Received message:'' ?d host0 = host0"
    by (simp add: debug_log_def host0_fields)
  have h: "map_of (messageHandlers host0) (''state'' @ '':'' @ ''sync'') = Some ContextSync"
    by (simp add: host0_fields)
  have "handleIncomingMessage ?d host0 = dispatch (''state'' @ '':'' @ ''sync'') ContextSync ?d host0"
    by (rule handleIncomingMessage_action [OF ty(1,2) h])
  then have "step (Message ''https://guest.example'' ?d) host0 =
      drain (dispatch ''state:sync'' ContextSync ?d host0)"
    using step_message [OF host0_fields(6) _ v n, of "''https://guest.example''"]
    by (simp add: dl host0_fields)
  then have "core (step (Message ''https://guest.example'' ?d) host0) =
      core (syncContext JUndefined ?st0)"
    by (simp add: dispatch_def ty(3))
  also have "\<dots> = core (snd (send ''state'' ''request'' JUndefined True ?st0))"
    by (simp add: syncContext_def split_beta split: send_result.split)
  finally show ?thesis .
qed

section \<open>Claims\<close>

subsection \<open>C4: \<open>updatedAt\<close>\<close>

text \<open>
  C4, as stated, fails: \<open>updatedAt\<close> is set to \<open>Date.now()\<close>, and two readings of the clock can be
  the same millisecond. On a guest built at millisecond 1000, an \<open>updateContext\<close> in the same
  millisecond changes the route and leaves \<open>updatedAt\<close> at 1000.
\<close>

theorem C4_updatedAt_not_strict:
  "lookup (cm_context guest0) ''route'' = JStr ''/'' \<and>
   lookup (cm_context (snd (updateContext (JObj [''route'' \<mapsto> JStr ''/orders'']) False guest0))) ''route''
     = JStr ''/orders'' \<and>
   updatedAt guest0 = JNum 1000 \<and>
   updatedAt (snd (updateContext (JObj [''route'' \<mapsto> JStr ''/orders'']) False guest0)) = JNum 1000 \<and>
   \<not> num_less (updatedAt guest0)
         (updatedAt (snd (updateContext (JObj [''route'' \<mapsto> JStr ''/orders'']) False guest0)))"
  by (simp add: updatedAt_def lookup_def updateContext_context guest0_context spread_def
      frozen_clock_def)

text \<open>
  C4, amended: every mutation of the context (\<open>updateContext\<close>, \<open>syncContext\<close> with a remote
  context, and the merge of the reply on the pull path of \<open>syncContext\<close>) sets \<open>updatedAt\<close> to
  the reading of the clock it takes; so \<open>updatedAt\<close> becomes strictly greater whenever that
  reading is greater than the \<open>updatedAt\<close> before the call.
\<close>

theorem C4_updatedAt_is_clock_reading:
  "updatedAt (snd (updateContext updates notify st)) = JNum (next_reading st) \<and>
   (truthy remote \<longrightarrow> updatedAt (syncContext remote st) = JNum (next_reading st)) \<and>
   (truthy remote \<longrightarrow>
      updatedAt (run_microtask (AfterSyncRequest, Resolved remote) st) = JNum (next_reading st)) \<and>
   (updatedAt st = JNum old \<and> old < next_reading st \<longrightarrow>
      num_less (updatedAt st) (updatedAt (snd (updateContext updates notify st))) \<and>
      (truthy remote \<longrightarrow> num_less (updatedAt st) (updatedAt (syncContext remote st))) \<and>
      (truthy remote \<longrightarrow>
         num_less (updatedAt st) (updatedAt (run_microtask (AfterSyncRequest, Resolved remote) st))))"
  by (simp add: updatedAt_def lookup_def updateContext_context merge_remote_context
      syncContext_def next_reading_def)

theorem C4_updatedAt_is_clock_reading_witness:
  "truthy (JObj [''route'' \<mapsto> JStr ''/orders'']) \<and>
   updatedAt guest1 = JNum 1002 \<and> (1002::int) < next_reading guest1 \<and>
   updatedAt (snd (updateContext (JObj [''route'' \<mapsto> JStr ''/orders'']) True guest1)) = JNum 1003 \<and>
   updatedAt (syncContext (JObj [''route'' \<mapsto> JStr ''/orders'']) guest1) = JNum 1003 \<and>
   num_less (updatedAt guest1)
     (updatedAt (snd (updateContext (JObj [''route'' \<mapsto> JStr ''/orders'']) True guest1))) \<and>
   num_less (updatedAt guest1) (updatedAt (syncContext (JObj [''route'' \<mapsto> JStr ''/orders'']) guest1))"
  using C4_updatedAt_is_clock_reading [of "JObj [''route'' \<mapsto> JStr ''/orders'']" True guest1
      "JObj [''route'' \<mapsto> JStr ''/orders'']" 1002]
  by (simp add: guest1_facts)

subsection \<open>C6: the merge of \<open>updateContext\<close> is shallow\<close>

text \<open>
  C6, as stated, fails for one key: \<open>updatedAt\<close> is written after the partial is spread, so an
  \<open>updatedAt\<close> carried by the partial does not replace the one of the context.
\<close>

theorem C6_updatedAt_key_not_replaced:
  "own_props (JObj [''updatedAt'' \<mapsto> JNum 5]) ''updatedAt'' = Some (JNum 5) \<and>
   cm_context (snd (updateContext (JObj [''updatedAt'' \<mapsto> JNum 5]) False guest0)) ''updatedAt''
     = Some (JNum 1000)"
  by (simp add: updateContext_context guest0_context frozen_clock_def)

text \<open>
  C6, amended: after \<open>updateContext\<close> every top-level key other than \<open>updatedAt\<close> holds the value
  the partial gives it, whatever the context held there, and the value of the context where
  the partial has none; \<open>updatedAt\<close> holds the clock reading. In particular
  \<open>updateContext({app:{theme:'dark'}})\<close> followed by \<open>updateContext({app:{lang:'en'}})\<close> leaves
  \<open>app\<close> equal to \<open>{lang:'en'}\<close>, with no \<open>theme\<close>.
\<close>

theorem C6_shallow_merge:
  "(\<forall>k. k \<noteq> ''updatedAt'' \<longrightarrow>
       cm_context (snd (updateContext updates notify st)) k =
         (case own_props updates k of Some v \<Rightarrow> Some v | None \<Rightarrow> cm_context st k)) \<and>
   cm_context (snd (updateContext updates notify st)) ''updatedAt'' = Some (JNum (next_reading st)) \<and>
   lookup (cm_context
      (snd (updateContext (JObj [''app'' \<mapsto> JObj [''lang'' \<mapsto> JStr ''en'']]) n2
         (snd (updateContext (JObj [''app'' \<mapsto> JObj [''theme'' \<mapsto> JStr ''dark'']]) n1 st))))) ''app''
     = JObj [''lang'' \<mapsto> JStr ''en''] \<and>
   get (lookup (cm_context
      (snd (updateContext (JObj [''app'' \<mapsto> JObj [''lang'' \<mapsto> JStr ''en'']]) n2
         (snd (updateContext (JObj [''app'' \<mapsto> JObj [''theme'' \<mapsto> JStr ''dark'']]) n1 st))))) ''app'')
      ''theme'' = JUndefined"
  by (simp add: updateContext_context spread_def map_add_def next_reading_def lookup_def
      split: option.split)

theorem C6_shallow_merge_witness:
  "''app'' \<noteq> ''updatedAt'' \<and>
   cm_context (snd (updateContext (JObj [''app'' \<mapsto> JObj [''theme'' \<mapsto> JStr ''dark'']]) True guest0)) ''app''
     = Some (JObj [''theme'' \<mapsto> JStr ''dark'']) \<and>
   cm_context (snd (updateContext (JObj [''app'' \<mapsto> JObj [''theme'' \<mapsto> JStr ''dark'']]) True guest0)) ''route''
     = Some (JStr ''/'') \<and>
   lookup (cm_context
      (snd (updateContext (JObj [''app'' \<mapsto> JObj [''lang'' \<mapsto> JStr ''en'']]) True
         (snd (updateContext (JObj [''app'' \<mapsto> JObj [''theme'' \<mapsto> JStr ''dark'']]) True guest0))))) ''app''
     = JObj [''lang'' \<mapsto> JStr ''en'']"
  using C6_shallow_merge [of "JObj [''app'' \<mapsto> JObj [''theme'' \<mapsto> JStr ''dark'']]" True guest0 True True]
  by (simp add: guest0_context)

subsection \<open>C9: \<open>addBreadcrumb\<close>\<close>

lemma updateNavigation_breadcrumbs:
  "breadcrumbs (snd (updateNavigation (JObj [''breadcrumbs'' \<mapsto> v]) st)) = v"
  by (simp add: breadcrumbs_def updateNavigation_def updateContext_context lookup_def spread_def Let_def)

lemma findIndex_path_none:
  "\<forall>b\<in>set bs. b \<noteq> JUndefined \<and> b \<noteq> JNull \<Longrightarrow> \<forall>b\<in>set bs. \<not> has_path path b \<Longrightarrow>
     findIndex_path path bs = Inr None"
proof (induction bs)
  case Nil
  then show ?case by simp
next
  case (Cons b bs)
  then show ?case by (cases b) (auto simp: has_path_def)
qed

lemma findIndex_path_first:
  "\<forall>b\<in>set bs. b \<noteq> JUndefined \<and> b \<noteq> JNull \<Longrightarrow> i < length bs \<Longrightarrow> has_path path (bs ! i) \<Longrightarrow>
   \<forall>j<i. \<not> has_path path (bs ! j) \<Longrightarrow> findIndex_path path bs = Inr (Some i)"
proof (induction bs arbitrary: i)
  case Nil
  then show ?case by simp
next
  case (Cons b bs)
  show ?case
  proof (cases i)
    case 0
    with Cons.prems show ?thesis by (cases b) (auto simp: has_path_def)
  next
    case (Suc i')
    have nb: "\<not> has_path path b" using Cons.prems(4) Suc by (metis nth_Cons_0 zero_less_Suc)
    have "findIndex_path path bs = Inr (Some i')"
    proof (rule Cons.IH)
      show "\<forall>b\<in>set bs. b \<noteq> JUndefined \<and> b \<noteq> JNull" using Cons.prems(1) by simp
      show "i' < length bs" using Cons.prems(2) Suc by simp
      show "has_path path (bs ! i')" using Cons.prems(3) Suc by simp
      show "\<forall>j<i'. \<not> has_path path (bs ! j)"
      proof (intro allI impI)
        fix j assume "j < i'"
        then have "Suc j < i" using Suc by simp
        then have "\<not> has_path path ((b # bs) ! Suc j)" using Cons.prems(4) by blast
        then show "\<not> has_path path (bs ! j)" by simp
      qed
    qed
    moreover have "b \<noteq> JUndefined \<and> b \<noteq> JNull" using Cons.prems(1) by simp
    ultimately show ?thesis using nb Suc by (cases b) (auto simp: has_path_def)
  qed
qed

lemma updateNavigation_navigation:
  "lookup (cm_context (snd (updateNavigation (JObj m) st))) ''navigation'' =
     JObj (own_props (lookup (cm_context st) ''navigation'') ++ m)"
  by (simp add: updateNavigation_def updateContext_context lookup_def spread_def Let_def)

lemma addBreadcrumb_append:
  assumes "lookup (cm_context st) ''navigation'' = JObj nav"
    and "nav ''breadcrumbs'' = Some (JArr bs) \<or> nav ''breadcrumbs'' = None \<and> bs = []"
    and "\<forall>b\<in>set bs. b \<noteq> JUndefined \<and> b \<noteq> JNull"
    and "\<forall>b\<in>set bs. \<not> has_path path b"
  shows "lookup (cm_context (snd (addBreadcrumb label path params st))) ''navigation'' =
           JObj (nav(''breadcrumbs'' \<mapsto> JArr (bs @ [crumb label path params])))"
proof -
  have "findIndex_path path bs = Inr None" using assms by (simp add: findIndex_path_none)
  with assms show ?thesis
    by (auto simp: addBreadcrumb_def updateNavigation_navigation crumb_def)
qed

lemma addBreadcrumb_truncate:
  assumes "lookup (cm_context st) ''navigation'' = JObj nav"
    and "nav ''breadcrumbs'' = Some (JArr bs)"
    and "\<forall>b\<in>set bs. b \<noteq> JUndefined \<and> b \<noteq> JNull"
    and "i < length bs" "has_path path (bs ! i)" "\<forall>j<i. \<not> has_path path (bs ! j)"
  shows "lookup (cm_context (snd (addBreadcrumb label path params st))) ''navigation'' =
           JObj (nav(''breadcrumbs'' \<mapsto> JArr (take (i + 1) bs)))"
proof -
  have "findIndex_path path bs = Inr (Some i)" using assms by (simp add: findIndex_path_first)
  with assms show ?thesis
    by (auto simp: addBreadcrumb_def updateNavigation_navigation)
qed

text \<open>
  C9: on a context whose \<open>navigation\<close> is an object and whose breadcrumbs (none yet, or an array
  of objects) are \<open>bs\<close>, \<open>addBreadcrumb(label, path, params)\<close> appends \<open>{label, path, params}\<close>
  when no breadcrumb has that path, and when one has, keeps the breadcrumbs up to and including
  the first such one. On a new \<open>IframeApp\<close>, \<open>addBreadcrumb('Home','/')\<close>,
  \<open>addBreadcrumb('List','/list')\<close>, \<open>addBreadcrumb('Home','/')\<close> leave the breadcrumbs
  \<open>[{Home, /}]\<close>.
\<close>

theorem C9_addBreadcrumb:
  "(lookup (cm_context st) ''navigation'' = JObj nav \<and>
    (nav ''breadcrumbs'' = Some (JArr bs) \<or> nav ''breadcrumbs'' = None \<and> bs = []) \<and>
    (\<forall>b\<in>set bs. b \<noteq> JUndefined \<and> b \<noteq> JNull) \<longrightarrow>
      ((\<forall>b\<in>set bs. \<not> has_path path b) \<longrightarrow>
         breadcrumbs (snd (addBreadcrumb label path params st)) = JArr (bs @ [crumb label path params])) \<and>
      (\<forall>i. i < length bs \<and> has_path path (bs ! i) \<and> (\<forall>j<i. \<not> has_path path (bs ! j)) \<longrightarrow>
         breadcrumbs (snd (addBreadcrumb label path params st)) = JArr (take (i + 1) bs))) \<and>
   breadcrumbs
     (snd (addBreadcrumb ''Home'' ''/'' JUndefined
        (snd (addBreadcrumb ''List'' ''/list'' JUndefined
           (snd (addBreadcrumb ''Home'' ''/'' JUndefined
              (new_IframeApp hostOrigin dbg (boot clk rnd))))))))
     = JArr [crumb ''Home'' ''/'' JUndefined]"
proof (intro conjI impI allI)
  assume a: "lookup (cm_context st) ''navigation'' = JObj nav \<and>
    (nav ''breadcrumbs'' = Some (JArr bs) \<or> nav ''breadcrumbs'' = None \<and> bs = []) \<and>
    (\<forall>b\<in>set bs. b \<noteq> JUndefined \<and> b \<noteq> JNull)"
  and n: "\<forall>b\<in>set bs. \<not> has_path path b"
  from a n have "findIndex_path path bs = Inr None" by (simp add: findIndex_path_none)
  with a show "breadcrumbs (snd (addBreadcrumb label path params st)) = JArr (bs @ [crumb label path params])"
    by (auto simp: addBreadcrumb_def updateNavigation_breadcrumbs crumb_def)
next
  fix i
  assume a: "lookup (cm_context st) ''navigation'' = JObj nav \<and>
    (nav ''breadcrumbs'' = Some (JArr bs) \<or> nav ''breadcrumbs'' = None \<and> bs = []) \<and>
    (\<forall>b\<in>set bs. b \<noteq> JUndefined \<and> b \<noteq> JNull)"
  and i: "i < length bs \<and> has_path path (bs ! i) \<and> (\<forall>j<i. \<not> has_path path (bs ! j))"
  from a i have "findIndex_path path bs = Inr (Some i)" by (simp add: findIndex_path_first)
  with a i show "breadcrumbs (snd (addBreadcrumb label path params st)) = JArr (take (i + 1) bs)"
    by (auto simp: addBreadcrumb_def updateNavigation_breadcrumbs)
next
  let ?g = "new_IframeApp hostOrigin dbg (boot clk rnd)"
  have nav0: "lookup (cm_context ?g) ''navigation'' = JObj [''currentRoute'' \<mapsto> JStr ''/'']"
    by (simp add: construct_defs lookup_def)
  let ?home = "crumb ''Home'' ''/'' JUndefined" and ?list = "crumb ''List'' ''/list'' JUndefined"
  let ?nav0 = "[''currentRoute'' \<mapsto> JStr ''/'']"
  let ?g1 = "snd (addBreadcrumb ''Home'' ''/'' JUndefined ?g)"
  let ?g2 = "snd (addBreadcrumb ''List'' ''/list'' JUndefined ?g1)"
  let ?g3 = "snd (addBreadcrumb ''Home'' ''/'' JUndefined ?g2)"
  have n1: "lookup (cm_context ?g1) ''navigation'' = JObj (?nav0(''breadcrumbs'' \<mapsto> JArr ([] @ [?home])))"
    by (rule addBreadcrumb_append [OF nav0]) simp_all
  have n2: "lookup (cm_context ?g2) ''navigation'' =
      JObj ((?nav0(''breadcrumbs'' \<mapsto> JArr ([] @ [?home])))(''breadcrumbs'' \<mapsto> JArr ([?home] @ [?list])))"
    by (rule addBreadcrumb_append [OF n1]) (simp_all add: crumb_def has_path_def)
  have n3: "lookup (cm_context ?g3) ''navigation'' =
      JObj (((?nav0(''breadcrumbs'' \<mapsto> JArr ([] @ [?home])))(''breadcrumbs'' \<mapsto> JArr ([?home] @ [?list])))
               (''breadcrumbs'' \<mapsto> JArr (take (0 + 1) [?home, ?list])))"
    by (rule addBreadcrumb_truncate [OF n2]) (simp_all add: crumb_def has_path_def)
  show "breadcrumbs
     (snd (addBreadcrumb ''Home'' ''/'' JUndefined
        (snd (addBreadcrumb ''List'' ''/list'' JUndefined
           (snd (addBreadcrumb ''Home'' ''/'' JUndefined ?g))))))
     = JArr [crumb ''Home'' ''/'' JUndefined]"
    by (simp add: breadcrumbs_def n3)
qed

lemma guest_home_list_navigation:
  "lookup (cm_context guest_home_list) ''navigation'' =
     JObj [''currentRoute'' \<mapsto> JStr ''/'',
           ''breadcrumbs'' \<mapsto> JArr [crumb ''Home'' ''/'' JUndefined, crumb ''List'' ''/list'' JUndefined]]"
proof -
  let ?home = "crumb ''Home'' ''/'' JUndefined" and ?list = "crumb ''List'' ''/list'' JUndefined"
  let ?nav0 = "[''currentRoute'' \<mapsto> JStr ''/'']"
  let ?g1 = "snd (addBreadcrumb ''Home'' ''/'' JUndefined guest0)"
  have nav0: "lookup (cm_context guest0) ''navigation'' = JObj ?nav0"
    by (simp add: guest0_context lookup_def)
  have n1: "lookup (cm_context ?g1) ''navigation'' = JObj (?nav0(''breadcrumbs'' \<mapsto> JArr ([] @ [?home])))"
    by (rule addBreadcrumb_append [OF nav0]) simp_all
  have "lookup (cm_context guest_home_list) ''navigation'' =
      JObj ((?nav0(''breadcrumbs'' \<mapsto> JArr ([] @ [?home])))(''breadcrumbs'' \<mapsto> JArr ([?home] @ [?list])))"
    unfolding guest_home_list_def
    by (rule addBreadcrumb_append [OF n1]) (simp_all add: crumb_def has_path_def)
  then show ?thesis by simp
qed

theorem C9_addBreadcrumb_witness:
  "breadcrumbs guest_home_list =
     JArr [crumb ''Home'' ''/'' JUndefined, crumb ''List'' ''/list'' JUndefined] \<and>
   breadcrumbs (snd (addBreadcrumb ''Cart'' ''/cart'' JNull guest_home_list)) =
     JArr [crumb ''Home'' ''/'' JUndefined, crumb ''List'' ''/list'' JUndefined,
           crumb ''Cart'' ''/cart'' JNull] \<and>
   breadcrumbs (snd (addBreadcrumb ''Home'' ''/'' JUndefined guest_home_list)) =
     JArr [crumb ''Home'' ''/'' JUndefined]"
proof -
  let ?home = "crumb ''Home'' ''/'' JUndefined" and ?list = "crumb ''List'' ''/list'' JUndefined"
  let ?nav = "[''currentRoute'' \<mapsto> JStr ''/'', ''breadcrumbs'' \<mapsto> JArr [?home, ?list]]"
  let ?bs = "[?home, ?list]"
  have pre: "lookup (cm_context guest_home_list) ''navigation'' = JObj ?nav \<and>
      (?nav ''breadcrumbs'' = Some (JArr ?bs) \<or> ?nav ''breadcrumbs'' = None \<and> ?bs = []) \<and>
      (\<forall>b\<in>set ?bs. b \<noteq> JUndefined \<and> b \<noteq> JNull)"
    by (simp add: guest_home_list_navigation crumb_def)
  have now: "breadcrumbs guest_home_list = JArr ?bs"
    by (simp add: breadcrumbs_def guest_home_list_navigation)
  have "(\<forall>b\<in>set ?bs. \<not> has_path ''/cart'' b) \<longrightarrow>
      breadcrumbs (snd (addBreadcrumb ''Cart'' ''/cart'' JNull guest_home_list)) =
        JArr (?bs @ [crumb ''Cart'' ''/cart'' JNull])"
    by (rule conjunct1 [OF mp [OF conjunct1
          [OF C9_addBreadcrumb [of guest_home_list ?nav ?bs "''/cart''" "''Cart''" JNull]] pre]])
  then have cart: "breadcrumbs (snd (addBreadcrumb ''Cart'' ''/cart'' JNull guest_home_list)) =
      JArr (?bs @ [crumb ''Cart'' ''/cart'' JNull])"
    by (simp add: has_path_def crumb_def)
  have "\<forall>i. i < length ?bs \<and> has_path ''/'' (?bs ! i) \<and> (\<forall>j<i. \<not> has_path ''/'' (?bs ! j)) \<longrightarrow>
      breadcrumbs (snd (addBreadcrumb ''Home'' ''/'' JUndefined guest_home_list)) =
        JArr (take (i + 1) ?bs)"
    by (rule conjunct2 [OF mp [OF conjunct1
          [OF C9_addBreadcrumb [of guest_home_list ?nav ?bs "''/''" "''Home''" JUndefined]] pre]])
  then have "0 < length ?bs \<and> has_path ''/'' (?bs ! 0) \<and> (\<forall>j<0. \<not> has_path ''/'' (?bs ! j)) \<longrightarrow>
      breadcrumbs (snd (addBreadcrumb ''Home'' ''/'' JUndefined guest_home_list)) =
        JArr (take (0 + 1) ?bs)"
    by (rule spec)
  then have home: "breadcrumbs (snd (addBreadcrumb ''Home'' ''/'' JUndefined guest_home_list)) =
      JArr [?home]"
    by (simp add: has_path_def crumb_def)
  from now cart home show ?thesis by simp
qed

subsection \<open>C1: a request that requires a response is settled once\<close>



text \<open>
  Each of the three settles the request that has just been sent: its timer firing, \<open>destroy\<close>,
  and a reply whose \<open>responseId\<close> is the id of the request.
\<close>

lemma each_cause_settles:
  assumes "well_formed st" "targetWindow st = Some w"
  shows "calls_on (next_handle st)
           (step (TimerFires (Suc (next_handle st))) (snd (send type action data True st))) =
         [ByTimeout]"
    and "calls_on (next_handle st) (step Destroy (snd (send type action data True st))) =
         [ByDestroy]"
    and "get d ''responseId'' = JStr (fst (generateId st)) \<Longrightarrow>
         calls_on (next_handle st) (handleResponse d (snd (send type action data True st))) =
         [ByReply]"
proof -
  let ?p = "next_handle st" and ?t = "Suc (next_handle st)" and ?pid = "fst (generateId st)"
  let ?st1 = "snd (send type action data True st)"
  have tw: "targetWindow st \<noteq> None" using assms(2) by simp
  have a: "awaiting_reply ?p ?t ?pid ?st1" by (rule awaiting_after_send(2) [OF assms(1) tw])
  have e: "map_of (pendingMessages ?st1) ?pid = Some \<lparr>promise = ?p, timeout = ?t\<rparr>"
    by (rule entry_after_send)
  have w: "well_formed ?st1" by (rule well_formed_changes [OF changes_send assms(1)])
  then have di: "distinct (map fst (pendingMessages ?st1))" by (simp add: well_formed_def)
  have "settled_by ?p ?t ByTimeout (timeout_elapsed ?t ?st1)" by (rule awaiting_elapsed_own [OF a])
  then have "calls_on ?p (timeout_elapsed ?t ?st1) = [ByTimeout]"
    by (simp add: settled_by_def frozen_def quiet_def)
  then show "calls_on ?p (step (TimerFires ?t) ?st1) = [ByTimeout]"
    by (simp add: step_def calls_on_def)
  have "settled_by ?p ?t ByDestroy (destroy ?st1)" by (rule destroy_settles [OF a di e])
  then have "calls_on ?p (destroy ?st1) = [ByDestroy]"
    by (simp add: settled_by_def frozen_def quiet_def)
  then show "calls_on ?p (step Destroy ?st1) = [ByDestroy]"
    by (simp add: step_def calls_on_def)
  assume "get d ''responseId'' = JStr ?pid"
  from reply_settles(1) [OF a e this]
  show "calls_on ?p (handleResponse d ?st1) = [ByReply]"
    by (simp add: settled_by_def frozen_def quiet_def)
qed


subsection \<open>C3: a state update from the peer is applied without notifying\<close>

text \<open>
  C3 holds for the handler the host registers (\<open>updateContext(payload.data, false)\<close>) and fails
  for the one \<open>ContextManager\<close> registers, \<open>this.updateContext(payload.data)\<close>, whose \<open>notify\<close>
  defaults to \<open>true\<close>. The guest built by \<open>IframeApp\<close> keeps that handler: on a \<open>state/update\<close>
  from the host it sends a \<open>state/update\<close> with the same partial back.
\<close>

lemma guest0_update_delivered:
  "deliver ''https://host.example'' update_message guest0 =
     dispatch ''state:update'' ContextUpdate update_message guest0"
proof -
  have v: "isValidPayload update_message" by (simp add: update_message_def isValidPayload_def)
  have req: "\<not> (strict_eq_str (get update_message ''type'') ''response'' \<and>
                 truthy (get update_message ''responseId''))"
    by (simp add: update_message_def)
  have hm: "handleMessage ''https://host.example'' update_message guest0 =
      handleIncomingMessage update_message (debug_log ''Received message:'' update_message guest0)"
    by (rule handleMessage_request [OF _ v req]) (simp add: guest0_fields)
  have dl: "debug_log ''Received message:'' update_message guest0 = guest0"
    by (simp add: debug_log_def guest0_fields)
  have "handleIncomingMessage update_message guest0 =
      dispatch (''state'' @ '':'' @ ''update'') ContextUpdate update_message guest0"
    by (rule handleIncomingMessage_action) (simp_all add: update_message_def guest0_fields)
  then show ?thesis by (simp add: deliver_def guest0_fields hm dl)
qed

theorem C3_guest_echoes_update:
  "map posted_summary (posted (step (Message ''https://host.example'' update_message) guest0)) =
     [(ParentWindow, JStr ''state'', JStr ''update'', JUndefined,
       JObj [''route'' \<mapsto> JStr ''/orders''], ''https://host.example'')]"
proof -
  let ?g = "guest0\<lparr>invoked := invoked guest0 @ [(''state:update'', update_message)]\<rparr>"
  let ?u = "snd (updateContext (get update_message ''data'') True ?g)"
  have d: "deliver ''https://host.example'' update_message guest0 =
      ?u\<lparr>microtasks := microtasks guest0 @ [(AfterHandler update_message, Resolved JUndefined)]\<rparr>"
    by (simp add: guest0_update_delivered dispatch_ContextUpdate)
  have tw: "targetWindow ?g = Some ParentWindow" by (simp add: guest0_fields)
  from updateContext_posted [OF tw, of "get update_message ''data''"]
  obtain p where p: "posted ?u = posted ?g @ [(ParentWindow, p, config_targetOrigin ?g)]"
    "get p ''type'' = JStr ''state''" "get p ''action'' = JStr ''update''"
    "get p ''data'' = get update_message ''data''" "get p ''responseId'' = JUndefined"
    by blast
  have rr: "\<not> truthy (get update_message ''requiresResponse'')"
    by (simp add: update_message_def)
  have "posted (step (Message ''https://host.example'' update_message) guest0) = posted ?u"
    by (simp add: step_def d drain_def guest0_fields rr)
  moreover have "get update_message ''data'' = JObj [''route'' \<mapsto> JStr ''/orders'']"
    by (simp add: update_message_def)
  ultimately show ?thesis
    using p by (simp add: posted_summary_def guest0_fields)
qed

text \<open>The handler of the host, for comparison, posts nothing.\<close>

lemma HostStateUpdate_posts_nothing:
  "posted (dispatch key HostStateUpdate d st) = posted st"
  by (simp add: dispatch_HostStateUpdate updateContext_silent)

subsection \<open>C2: envelopes from another origin\<close>

lemma handleMessage_foreign:
  "origin \<noteq> config_targetOrigin st \<Longrightarrow>
     handleMessage origin d st = debug_log ''Message from unauthorized origin:'' (JStr origin) st"
  by (simp add: handleMessage_def)

lemma debug_log_only_console: "debug_log m a st = st\<lparr>console := console (debug_log m a st)\<rparr>"
  by (simp add: debug_log_def)

lemma debug_log_silent: "\<not> config_debug st \<Longrightarrow> debug_log m a st = st"
  by (simp add: debug_log_def)

lemma deliver_foreign:
  "origin \<noteq> config_targetOrigin st \<Longrightarrow>
     fold (call_listener origin d) ls st = st\<lparr>console := console (fold (call_listener origin d) ls st)\<rparr> \<and>
     (\<not> config_debug st \<longrightarrow> fold (call_listener origin d) ls st = st)"
proof (induction ls arbitrary: st)
  case Nil
  show ?case by simp
next
  case (Cons l ls)
  show ?case
  proof (cases l)
    case HandleMessage
    with Cons show ?thesis by simp
  next
    case BoundHandleMessage
    let ?st1 = "debug_log ''Message from unauthorized origin:'' (JStr origin) st"
    let ?st2 = "fold (call_listener origin d) ls ?st1"
    have o: "origin \<noteq> config_targetOrigin ?st1" using Cons.prems by simp
    have step: "fold (call_listener origin d) (l # ls) st = ?st2"
      using BoundHandleMessage Cons.prems by (simp add: handleMessage_foreign)
    have ih: "?st2 = ?st1\<lparr>console := console ?st2\<rparr>" "\<not> config_debug ?st1 \<longrightarrow> ?st2 = ?st1"
      using Cons.IH [OF o] by simp_all
    have "?st2 = st\<lparr>console := console ?st2\<rparr>"
      by (subst ih(1), subst debug_log_only_console) simp
    moreover have "\<not> config_debug st \<longrightarrow> ?st2 = st"
      using ih(2) by (simp add: debug_log_silent)
    ultimately show ?thesis unfolding step by blast
  qed
qed

text \<open>
  C2: when \<open>event.origin\<close> is not the configured target origin, delivering the event invokes no
  handler, calls no \<open>resolve\<close> or \<open>reject\<close>, leaves the promises, the pending messages and the
  timers as they are and posts nothing: only the console may have changed, and without \<open>debug\<close>
  the state is the same, also after the microtasks.
\<close>

theorem C2_foreign_origin_dropped:
  assumes "origin \<noteq> config_targetOrigin st"
  shows "invoked (deliver origin d st) = invoked st \<and>
         settle_calls (deliver origin d st) = settle_calls st \<and>
         promises (deliver origin d st) = promises st \<and>
         pendingMessages (deliver origin d st) = pendingMessages st \<and>
         timers (deliver origin d st) = timers st \<and>
         posted (deliver origin d st) = posted st \<and>
         deliver origin d st = st\<lparr>console := console (deliver origin d st)\<rparr> \<and>
         (\<not> config_debug st \<longrightarrow> deliver origin d st = st) \<and>
         (\<not> config_debug st \<and> microtasks st = [] \<longrightarrow> step (Message origin d) st = st)"
proof -
  let ?st' = "deliver origin d st"
  have eq: "?st' = st\<lparr>console := console ?st'\<rparr>" and silent: "\<not> config_debug st \<longrightarrow> ?st' = st"
    using deliver_foreign [OF assms, of d "listeners st"] by (simp_all add: deliver_def)
  have "invoked ?st' = invoked st" by (subst eq) simp
  moreover have "settle_calls ?st' = settle_calls st" by (subst eq) simp
  moreover have "promises ?st' = promises st" by (subst eq) simp
  moreover have "pendingMessages ?st' = pendingMessages st" by (subst eq) simp
  moreover have "timers ?st' = timers st" by (subst eq) simp
  moreover have "posted ?st' = posted st" by (subst eq) simp
  moreover have "\<not> config_debug st \<and> microtasks st = [] \<longrightarrow> step (Message origin d) st = st"
    using silent by (simp add: step_def drain_def)
  ultimately show ?thesis using eq silent by simp
qed

text \<open>
  On the guest \<open>guest0\<close>, whose host is \<open>https://host.example\<close>, a \<open>state/update\<close> envelope from
  \<open>https://evil.example\<close> changes nothing; the same envelope from the host is handled.
\<close>

theorem C2_foreign_origin_dropped_witness:
  "''https://evil.example'' \<noteq> config_targetOrigin guest0 \<and>
   \<not> config_debug guest0 \<and> microtasks guest0 = [] \<and>
   invoked (deliver ''https://evil.example'' update_message guest0) = [] \<and>
   settle_calls (deliver ''https://evil.example'' update_message guest0) = [] \<and>
   posted (deliver ''https://evil.example'' update_message guest0) = [] \<and>
   step (Message ''https://evil.example'' update_message) guest0 = guest0"
  using C2_foreign_origin_dropped [of "''https://evil.example''" guest0 update_message]
  by (simp add: guest0_fields)

lemma guest0_handles_the_host_update:
  "invoked (deliver ''https://host.example'' update_message guest0) =
     [(''state:update'', update_message)]"
  by (simp add: guest0_update_delivered dispatch_invoked guest0_fields)

subsection \<open>C5: \<open>destroy\<close> and the message listener\<close>

text \<open>
  C5 fails on the code. \<open>init\<close> registers \<open>this.handleMessage.bind(this)\<close>, and \<open>destroy\<close> asks
  the window to remove \<open>this.handleMessage\<close>, another function object: the listener stays. After
  \<open>destroy\<close> the messenger still receives envelopes; its handler table is empty, so a request
  that requires a response is answered with \<open>{error: 'No handler found'}\<close>.
\<close>

lemma destroy_guest0:
  "destroy guest0 = guest0\<lparr>messageHandlers := []\<rparr>"
  by (simp add: destroy_def guest0_fields)

theorem C5_destroy_keeps_listener:
  "listeners guest0 = [BoundHandleMessage] \<and>
   listeners (step Destroy guest0) = [BoundHandleMessage] \<and>
   map posted_summary
     (posted (step (Message ''https://host.example'' (data_request ''host'')) (step Destroy guest0))) =
     [(ParentWindow, JStr ''response'', JStr ''message_response'', JStr ''m2'', no_handler_error,
       ''https://host.example'')]"
proof -
  let ?d = "data_request ''host''"
  let ?g = "guest0\<lparr>messageHandlers := []\<rparr>"
  have sd: "step Destroy guest0 = ?g"
    by (simp add: step_def destroy_guest0 drain_empty guest0_fields)
  have v: "isValidPayload ?d" by (simp add: data_request_def isValidPayload_def)
  have req: "\<not> (strict_eq_str (get ?d ''type'') ''response'' \<and> truthy (get ?d ''responseId''))"
    by (simp add: data_request_def)
  have dl: "debug_log m a ?g = ?g" for m a by (simp add: debug_log_def guest0_fields)
  have hm: "handleMessage ''https://host.example'' ?d ?g = handleIncomingMessage ?d ?g"
    using handleMessage_request [OF _ v req, of "''https://host.example''" ?g]
    by (simp add: guest0_fields dl)
  have him: "handleIncomingMessage ?d ?g = snd (respond (the_string (get ?d ''id'')) no_handler_error ?g)"
    using handleIncomingMessage_no_handler [of ?g ?d] by (simp add: dl data_request_def)
  have d: "deliver ''https://host.example'' ?d ?g = snd (respond ''m2'' no_handler_error ?g)"
    by (simp add: deliver_def guest0_fields hm him) (simp add: data_request_def)
  have tw: "targetWindow ?g = Some ParentWindow" by (simp add: guest0_fields)
  from respond_posted [OF tw, of "''m2''" no_handler_error]
  obtain reply where r: "posted (snd (respond ''m2'' no_handler_error ?g)) =
      posted ?g @ [(ParentWindow, reply, config_targetOrigin ?g)]"
    "get reply ''type'' = JStr ''response''" "get reply ''responseId'' = JStr ''m2''"
    "get reply ''data'' = no_handler_error" "get reply ''action'' = JStr ''message_response''"
    by blast
  have "step (Message ''https://host.example'' ?d) ?g = snd (respond ''m2'' no_handler_error ?g)"
    by (simp add: step_def d drain_empty guest0_fields)
  then show ?thesis
    using r by (simp add: sd guest0_fields posted_summary_def)
qed

subsection \<open>C7: a request nobody handles is answered\<close>


text \<open>
  The handler table is keyed by strings: \<open>onAction(c, a, h)\<close> stores \<open>h\<close> under \<open>c + ':' + a\<close>
  and \<open>on(c, h)\<close> under \<open>c\<close>, and \<open>handleIncomingMessage\<close> looks up \<open>`${type}:${action}`\<close>, then
  \<open>type\<close>. So "no handler is registered" has to be read on the keys: a request whose \<open>type\<close> is
  the string \<open>state:update\<close> finds, under its category key, the handler that \<open>ContextManager\<close>
  registered for the pair (\<open>state\<close>, \<open>update\<close>), and the guest runs it instead of answering
  "no handler".
\<close>

lemma colon_request_dispatched:
  "isValidPayload colon_request"
  "truthy (get colon_request ''requiresResponse'')"
  "map_of (messageHandlers guest0) (''state:update'' @ '':'' @ ''x'') = None"
  "map_of (messageHandlers guest0) ''state:update'' = Some ContextUpdate"
  "deliver ''https://host.example'' colon_request guest0 =
     dispatch ''state:update'' ContextUpdate colon_request guest0"
  "invoked (deliver ''https://host.example'' colon_request guest0) =
     [(''state:update'', colon_request)]"
proof -
  show v: "isValidPayload colon_request" by (simp add: colon_request_def isValidPayload_def)
  show "truthy (get colon_request ''requiresResponse'')" by (simp add: colon_request_def)
  show h1: "map_of (messageHandlers guest0) (''state:update'' @ '':'' @ ''x'') = None"
    and h2: "map_of (messageHandlers guest0) ''state:update'' = Some ContextUpdate"
    by (simp_all add: guest0_fields)
  have req: "\<not> (strict_eq_str (get colon_request ''type'') ''response'' \<and>
                 truthy (get colon_request ''responseId''))"
    by (simp add: colon_request_def)
  have hm: "handleMessage ''https://host.example'' colon_request guest0 =
      handleIncomingMessage colon_request (debug_log ''Received message:'' colon_request guest0)"
    by (rule handleMessage_request [OF _ v req]) (simp add: guest0_fields)
  have dl: "debug_log ''Received message:'' colon_request guest0 = guest0"
    by (simp add: debug_log_def guest0_fields)
  have ty: "the_string (get colon_request ''type'') = ''state:update''"
    "the_string (get colon_request ''action'') = ''x''"
    by (simp_all add: colon_request_def)
  have "handleIncomingMessage colon_request guest0 =
      dispatch ''state:update'' ContextUpdate colon_request guest0"
    unfolding handleIncomingMessage_def Let_def ty using h1 h2 by simp
  then show d: "deliver ''https://host.example'' colon_request guest0 =
      dispatch ''state:update'' ContextUpdate colon_request guest0"
    by (simp add: deliver_def guest0_fields hm dl)
  show "invoked (deliver ''https://host.example'' colon_request guest0) =
      [(''state:update'', colon_request)]"
    unfolding d by (simp add: dispatch_invoked guest0_fields)
qed


lemma host_waiting_fields:
  "pendingMessages host_waiting = [(''m2'', \<lparr>promise = 0, timeout = 1\<rparr>)]"
  "promises host_waiting 0 = Some Pending"
  "settle_calls host_waiting = []"
  "config_targetOrigin host_waiting = ''https://guest.example''"
  by (simp_all add: host_waiting_def sendWithResponse_def new_promise_def setTimeout_def
      postMessage_def setTargetWindow_def host0_fields split_beta Let_def)


subsection \<open>C8: the history\<close>

lemma addToHistory_history:
  "contextHistory (addToHistory st) =
     (if length (contextHistory st) < maxHistorySize then contextHistory st @ [cm_context st]
      else tl (contextHistory st @ [cm_context st]))"
  by (simp add: addToHistory_def Let_def)

lemma addToHistory_last_n:
  "length (contextHistory st) \<le> maxHistorySize \<Longrightarrow>
     contextHistory (addToHistory st) = last_n maxHistorySize (contextHistory st @ [cm_context st])"
  by (cases "contextHistory st") (auto simp: addToHistory_history last_n_def maxHistorySize_def)

lemma last_n_length: "length (last_n n xs) \<le> n"
  by (simp add: last_n_def)

lemma last_n_append: "last_n n (last_n n xs @ ys) = last_n n (xs @ ys)"
proof (cases "length xs \<le> n")
  case True
  then show ?thesis by (simp add: last_n_def)
next
  case False
  then have "length xs - n + n = length xs" by simp
  moreover have "length ys + (length xs - n) = length xs + length ys - n" using False by simp
  ultimately show ?thesis by (simp add: last_n_def)
qed

lemma addToHistory_bounded:
  "length (contextHistory st) \<le> maxHistorySize \<Longrightarrow>
     length (contextHistory (addToHistory st)) \<le> maxHistorySize"
  by (simp add: addToHistory_last_n last_n_length)

lemma updateContexts_history:
  "length (contextHistory st) \<le> maxHistorySize \<Longrightarrow>
     contextHistory (updateContexts us st) =
       last_n maxHistorySize (contextHistory st @ prior_contexts us st)"
proof (induction us arbitrary: st)
  case Nil
  then show ?case by (simp add: last_n_def)
next
  case (Cons a us)
  obtain u n where a: "a = (u, n)" by (cases a)
  let ?st1 = "snd (updateContext u n st)"
  have h1: "contextHistory ?st1 = last_n maxHistorySize (contextHistory st @ [cm_context st])"
    using Cons.prems by (simp add: updateContext_history addToHistory_last_n)
  then have b1: "length (contextHistory ?st1) \<le> maxHistorySize" by (simp add: last_n_length)
  have "contextHistory (updateContexts (a # us) st) =
      last_n maxHistorySize (contextHistory ?st1 @ prior_contexts us ?st1)"
    using Cons.IH [OF b1] a by simp
  also have "\<dots> = last_n maxHistorySize ((contextHistory st @ [cm_context st]) @ prior_contexts us ?st1)"
    unfolding h1 by (rule last_n_append)
  finally show ?case using a by simp
qed

lemma prior_contexts_length [simp]: "length (prior_contexts us st) = length us"
  by (induction us arbitrary: st) auto

text \<open>No operation takes the history over the limit.\<close>

lemma history_bounded_cong: "contextHistory st' = contextHistory st \<Longrightarrow> history_bounded st' = history_bounded st"
  by (simp add: history_bounded_def)

lemma updateContext_bounded: "history_bounded st \<Longrightarrow> history_bounded (snd (updateContext u n st))"
  by (simp add: history_bounded_def updateContext_history addToHistory_bounded)

lemma updateNavigation_bounded: "history_bounded st \<Longrightarrow> history_bounded (snd (updateNavigation nav st))"
  by (simp add: updateNavigation_def Let_def updateContext_bounded)

lemma addBreadcrumb_bounded: "history_bounded st \<Longrightarrow> history_bounded (snd (addBreadcrumb l p q st))"
  by (simp add: addBreadcrumb_def updateNavigation_bounded split: sum.split jsval.split option.split)

lemma restoreFromHistory_bounded: "history_bounded st \<Longrightarrow> history_bounded (snd (restoreFromHistory i st))"
  by (simp add: restoreFromHistory_def split_beta updateContext_bounded split: sum.split)

lemma handleNavigation_bounded: "history_bounded st \<Longrightarrow> history_bounded (snd (handleNavigation d st))"
  using updateNavigation_bounded
  by (simp add: handleNavigation_def Let_def history_bounded_def split: sum.split)

lemma invoke_bounded: "history_bounded st \<Longrightarrow> history_bounded (snd (invoke h d st))"
  by (cases h)
     (simp_all add: updateContext_bounded handleNavigation_bounded split_beta,
      simp_all add: history_bounded_def)

lemma dispatch_bounded: "history_bounded st \<Longrightarrow> history_bounded (dispatch key h d st)"
proof -
  assume a: "history_bounded st"
  have "history_bounded (st\<lparr>invoked := invoked st @ [(key, d)]\<rparr>)" using a by (simp add: history_bounded_def)
  from invoke_bounded [OF this, of h d] show ?thesis
    by (simp add: dispatch_def split_beta history_bounded_def split: handler_result.split)
qed

lemma handleIncomingMessage_bounded: "history_bounded st \<Longrightarrow> history_bounded (handleIncomingMessage d st)"
  by (simp add: handleIncomingMessage_def Let_def dispatch_bounded split: option.split)
     (simp add: history_bounded_def)

lemma handleMessage_bounded: "history_bounded st \<Longrightarrow> history_bounded (handleMessage origin d st)"
  using handleIncomingMessage_bounded [of "debug_log ''Received message:'' d st" d]
  by (simp add: handleMessage_def Let_def history_bounded_def)

lemma deliver_bounded: "history_bounded st \<Longrightarrow> history_bounded (deliver origin d st)"
proof -
  have "history_bounded st \<Longrightarrow> history_bounded (fold (call_listener origin d) ls st)" for ls
  proof (induction ls arbitrary: st)
    case Nil
    then show ?case by simp
  next
    case (Cons l ls)
    then show ?case by (cases l) (simp_all add: handleMessage_bounded)
  qed
  then show "history_bounded st \<Longrightarrow> history_bounded (deliver origin d st)"
    by (simp add: deliver_def)
qed

lemma task_bounded: "history_bounded st \<Longrightarrow> history_bounded (task e st)"
  by (cases e)
     (simp_all add: deliver_bounded updateContext_bounded updateNavigation_bounded
        addBreadcrumb_bounded restoreFromHistory_bounded,
      simp_all add: history_bounded_def)

lemma step_bounded: "history_bounded st \<Longrightarrow> history_bounded (step e st)"
  using task_bounded [of st e] by (simp add: step_def history_bounded_def)

lemma run_bounded: "history_bounded st \<Longrightarrow> history_bounded (run es st)"
  unfolding run_def by (induction es arbitrary: st) (simp_all add: step_bounded)

text \<open>
  C8, as stated, fails in one part: not every mutation is preceded by a snapshot. \<open>syncContext\<close>
  replaces the context without calling \<open>addToHistory\<close>: here it changes the route and the
  history stays empty.
\<close>

theorem C8_sync_not_snapshotted:
  "route_of (cm_context guest0) = JStr ''/'' \<and>
   route_of (cm_context (syncContext (JObj [''route'' \<mapsto> JStr ''/orders'']) guest0)) = JStr ''/orders'' \<and>
   contextHistory guest0 = [] \<and>
   contextHistory (syncContext (JObj [''route'' \<mapsto> JStr ''/orders'']) guest0) = []"
  by (simp add: route_of_def lookup_def guest0_context syncContext_def merge_remote_context spread_def)

text \<open>
  C8, amended: the limit is 10; from a new \<open>ContextManager\<close> on, and from any state whose
  history has at most 10 entries, no sequence of tasks makes the history longer than 10;
  \<open>updateContext\<close> appends the context it finds and then keeps the last 10 entries; after a
  sequence of \<open>updateContext\<close> calls the history is the last 10 of what it was followed by the
  contexts held before each call, in that order; after 11 calls on an empty history it is the
  contexts held before the 2nd to the 11th call, the one before the first having been dropped.
\<close>

theorem C8_history_bounded_fifo:
  "maxHistorySize = 10 \<and>
   length (contextHistory (run es (new_ContextManager initialContext st0))) \<le> 10 \<and>
   (length (contextHistory st) \<le> 10 \<longrightarrow>
      length (contextHistory (run es st)) \<le> 10 \<and>
      contextHistory (snd (updateContext updates notify st)) =
        last_n 10 (contextHistory st @ [cm_context st]) \<and>
      contextHistory (updateContexts us st) = last_n 10 (contextHistory st @ prior_contexts us st)) \<and>
   (contextHistory st = [] \<and> length us = 11 \<longrightarrow>
      contextHistory (updateContexts us st) = tl (prior_contexts us st) \<and>
      length (contextHistory (updateContexts us st)) = 10)"
proof -
  have m: "maxHistorySize = 10" by (simp add: maxHistorySize_def)
  have fresh: "contextHistory (new_ContextManager initialContext st0) = []"
    by (simp add: new_ContextManager_def setupMessageHandlers_def split_beta Let_def)
  have b0: "length (contextHistory (run es (new_ContextManager initialContext st0))) \<le> 10"
    using run_bounded [of "new_ContextManager initialContext st0" es] fresh
    by (simp add: history_bounded_def m)
  have b1: "length (contextHistory (run es st)) \<le> 10" if "length (contextHistory st) \<le> 10"
    using run_bounded [of st es] that by (simp add: history_bounded_def m)
  have u1: "contextHistory (snd (updateContext updates notify st)) =
        last_n 10 (contextHistory st @ [cm_context st])" if "length (contextHistory st) \<le> 10"
    using that addToHistory_last_n [of st] by (simp add: updateContext_history m)
  have us: "contextHistory (updateContexts us st) = last_n 10 (contextHistory st @ prior_contexts us st)"
    if "length (contextHistory st) \<le> 10"
    using that updateContexts_history [of st us] by (simp add: m)
  have eleven: "contextHistory (updateContexts us st) = tl (prior_contexts us st) \<and>
      length (contextHistory (updateContexts us st)) = 10"
    if a: "contextHistory st = [] \<and> length us = 11"
  proof -
    have "contextHistory (updateContexts us st) = last_n 10 (prior_contexts us st)"
      using updateContexts_history [of st us] a by (simp add: m)
    also have "\<dots> = drop 1 (prior_contexts us st)" using a by (simp add: last_n_def)
    finally show ?thesis using a by (simp add: drop_Suc)
  qed
  from m b0 b1 u1 us eleven show ?thesis by blast
qed

lemma route_of_update:
  "route_of (cm_context (snd (updateContext (JObj [''route'' \<mapsto> r]) n st))) = r"
  by (simp add: route_of_def lookup_def updateContext_context spread_def)

theorem C8_history_bounded_fifo_witness:
  "length (contextHistory guest0) \<le> 10 \<and> contextHistory guest0 = [] \<and>
   length eleven_updates = 11 \<and>
   length (contextHistory (updateContexts eleven_updates guest0)) = 10 \<and>
   route_of (cm_context guest0) = JStr ''/'' \<and>
   map route_of (contextHistory (updateContexts eleven_updates guest0)) =
     [JStr ''/1'', JStr ''/2'', JStr ''/3'', JStr ''/4'', JStr ''/5'', JStr ''/6'', JStr ''/7'',
      JStr ''/8'', JStr ''/9'', JStr ''/10''] \<and>
   route_of (cm_context (updateContexts eleven_updates guest0)) = JStr ''/11''"
proof -
  have pre: "contextHistory guest0 = [] \<and> length eleven_updates = 11"
    by (simp add: guest0_context eleven_updates_def)
  have "contextHistory (updateContexts eleven_updates guest0) = tl (prior_contexts eleven_updates guest0) \<and>
      length (contextHistory (updateContexts eleven_updates guest0)) = 10"
    by (rule mp [OF conjunct2 [OF conjunct2 [OF conjunct2
          [OF C8_history_bounded_fifo [of _ _ _ guest0 _ _ eleven_updates]]]] pre])
  moreover have "map route_of (tl (prior_contexts eleven_updates guest0)) =
     [JStr ''/1'', JStr ''/2'', JStr ''/3'', JStr ''/4'', JStr ''/5'', JStr ''/6'', JStr ''/7'',
      JStr ''/8'', JStr ''/9'', JStr ''/10'']"
    by (simp add: eleven_updates_def route_update_def route_of_update show_nat.simps digit_char_def)
  moreover have "route_of (cm_context (updateContexts eleven_updates guest0)) = JStr ''/11''"
    by (simp add: eleven_updates_def route_update_def route_of_update show_nat.simps digit_char_def)
  moreover have "route_of (cm_context guest0) = JStr ''/''"
    by (simp add: route_of_def lookup_def guest0_context)
  ultimately show ?thesis using pre by simp
qed

subsection \<open>C10: a second modal overwrites the resolver of the first\<close>

text \<open>
  C10: \<open>handleModalOpen\<close> keeps the \<open>resolve\<close> of the promise it returns in the one
  \<open>modalResolve\<close> field of the managed iframe. When a second \<open>ui/modal_open\<close> of the same guest
  is handled while the field still holds the resolver of the first (\<open>modalResolve st1' = Some p1\<close>:
  no \<open>ui/modal_close\<close> has been handled since), the field is overwritten. The second promise
  \<open>p2\<close> is another promise; the next \<open>handleModalClose\<close> resolves \<open>p2\<close> with the data of the
  close, by one call, and clears the field. The first promise \<open>p1\<close> is pending then, no call has
  been made on it, and so it is in every later state (\<open>changes\<close>, of which every sequence of
  tasks is one): nothing holds its \<open>resolve\<close> any more. The state \<open>st\<close> is any well-formed state,
  as is every state reached from \<open>createIframe\<close> (lemma \<open>well_formed_reachable\<close>).
\<close>

theorem C10_second_open_overwrites:
  assumes "well_formed st"
    and "handleModalOpen d1 st = (p1, st1)"
    and "changes st1 st1'" "modalResolve st1' = Some p1"
    and "handleModalOpen d2 st1' = (p2, st2)"
    and "changes st2 st2'" "modalResolve st2' = Some p2"
    and "st3 = handleModalClose result st2'"
  shows "modalResolve st1 = Some p1 \<and> promises st1 p1 = Some Pending \<and>
     p2 \<noteq> p1 \<and> modalResolve st2 = Some p2 \<and> promises st2 p2 = Some Pending \<and>
     promises st2 p1 = Some Pending \<and>
     modalResolve st3 = None \<and>
     promises st3 p2 = Some (Resolved result) \<and> calls_on p2 st3 = [ByModalClose] \<and>
     promises st3 p1 = Some Pending \<and> calls_on p1 st3 = [] \<and>
     (\<forall>st4. changes st3 st4 \<longrightarrow>
        promises st4 p2 = Some (Resolved result) \<and> calls_on p2 st4 = [ByModalClose] \<and>
        promises st4 p1 = Some Pending \<and> calls_on p1 st4 = []) \<and>
     (\<forall>es.
        promises (run es st3) p2 = Some (Resolved result) \<and>
        calls_on p2 (run es st3) = [ByModalClose] \<and>
        promises (run es st3) p1 = Some Pending \<and> calls_on p1 (run es st3) = [])"
proof -
  have s1: "st1 = snd (handleModalOpen d1 st)" "p1 = fst (handleModalOpen d1 st)"
    using assms(2) by simp_all
  have s2: "st2 = snd (handleModalOpen d2 st1')" "p2 = fst (handleModalOpen d2 st1')"
    using assms(5) by simp_all
  have w1: "well_formed st1"
    unfolding s1 by (rule well_formed_changes [OF changes.modal_opened assms(1)])
  have w1': "well_formed st1'" by (rule well_formed_changes [OF assms(3) w1])
  have w2: "well_formed st2"
    unfolding s2 by (rule well_formed_changes [OF changes.modal_opened w1'])
  have w2': "well_formed st2'" by (rule well_formed_changes [OF assms(6) w2])
  have a: "modalResolve st1 = Some p1" "promises st1 p1 = Some Pending"
    by (simp_all add: s1 handleModalOpen_core)
  have b: "p2 \<noteq> p1" "modalResolve st2 = Some p2"
    using modal_opened_twice(2,3) [OF w1' assms(4), of d2] by (simp_all add: s2)
  have b': "promises st2 p2 = Some Pending" by (simp add: s2 handleModalOpen_core)
  have o: "frozen p1 (Some Pending) [] st2"
    using modal_opened_twice(1) [OF w1' assms(4), of d2] by (simp add: s2 orphaned_def)
  then have o': "promises st2 p1 = Some Pending" by (simp add: frozen_def quiet_def)
  have "frozen p1 (Some Pending) [] st2'" by (rule frozen_changes [OF assms(6) o])
  then have f1: "frozen p1 (Some Pending) [] st3"
    unfolding assms(8) by (rule frozen_changes [OF changes.modal_closed])
  have f2: "frozen p2 (Some (Resolved result)) [ByModalClose] st3"
    unfolding assms(8) by (rule modal_closed_resolves [OF w2' assms(7)])
  have c: "modalResolve st3 = None" by (simp add: assms(8) handleModalClose_core)
  have r: "promises st4 p2 = Some (Resolved result) \<and> calls_on p2 st4 = [ByModalClose] \<and>
        promises st4 p1 = Some Pending \<and> calls_on p1 st4 = []" if "changes st3 st4" for st4
    using frozen_changes [OF that f1] frozen_changes [OF that f2] by (simp add: frozen_def quiet_def)
  have e: "promises st3 p2 = Some (Resolved result)" "calls_on p2 st3 = [ByModalClose]"
    "promises st3 p1 = Some Pending" "calls_on p1 st3 = []"
    using f1 f2 by (simp_all add: frozen_def quiet_def)
  show ?thesis
  proof (intro conjI allI impI)
    show "modalResolve st1 = Some p1" "promises st1 p1 = Some Pending" by (rule a)+
    show "p2 \<noteq> p1" "modalResolve st2 = Some p2" by (rule b)+
    show "promises st2 p2 = Some Pending" by (rule b')
    show "promises st2 p1 = Some Pending" by (rule o')
    show "modalResolve st3 = None" by (rule c)
    show "promises st3 p2 = Some (Resolved result)" "calls_on p2 st3 = [ByModalClose]"
      "promises st3 p1 = Some Pending" "calls_on p1 st3 = []" by (rule e)+
  next
    fix st4 assume "changes st3 st4"
    from r [OF this]
    show "promises st4 p2 = Some (Resolved result)" "calls_on p2 st4 = [ByModalClose]"
      "promises st4 p1 = Some Pending" "calls_on p1 st4 = []" by simp_all
  next
    fix es
    from r [OF changes_run, of es]
    show "promises (run es st3) p2 = Some (Resolved result)"
      "calls_on p2 (run es st3) = [ByModalClose]"
      "promises (run es st3) p1 = Some Pending" "calls_on p1 (run es st3) = []" by simp_all
  qed
qed

text \<open>
  The host that \<open>createIframe\<close> builds, once the iframe has loaded, receives two
  \<open>ui/modal_open\<close> requests and one \<open>ui/modal_close\<close> from the guest.
\<close>

theorem C10_second_open_overwrites_witness:
  "promises (run two_opens_one_close host_loaded) 0 = Some Pending \<and>
   calls_on 0 (run two_opens_one_close host_loaded) = [] \<and>
   promises (run two_opens_one_close host_loaded) 1 = Some (Resolved (JStr ''saved'')) \<and>
   calls_on 1 (run two_opens_one_close host_loaded) = [ByModalClose] \<and>
   modalResolve (run two_opens_one_close host_loaded) = None"
proof -
  let ?g = "''https://guest.example''"
  let ?d1 = "JObj [''route'' \<mapsto> JStr ''/pick-a'']" and ?d2 = "JObj [''route'' \<mapsto> JStr ''/pick-b'']"
  let ?S1 = "step (Message ?g (modal_open_message ''m1'' ''/pick-a'')) host_loaded"
  let ?S2 = "step (Message ?g (modal_open_message ''m2'' ''/pick-b'')) ?S1"
  let ?F = "step (Message ?g (modal_close_message ''m3'' (JStr ''saved''))) ?S2"
  have F: "run two_opens_one_close host_loaded = ?F"
    by (simp add: two_opens_one_close_def run_def)
  have k1: "listeners ?S1 = [BoundHandleMessage]" "?g = config_targetOrigin ?S1"
    "map_of (messageHandlers ?S1) ''ui:modal_open'' = Some HostModalOpen"
    by (simp_all only: message_keeps step_frame host_loaded_fields)
  have k2: "listeners ?S2 = [BoundHandleMessage]" "?g = config_targetOrigin ?S2"
    "map_of (messageHandlers ?S2) ''ui:modal_close'' = Some HostModalClose"
    by (simp_all only: message_keeps step_frame host_loaded_fields)
  have k0: "?g = config_targetOrigin host_loaded" by (simp only: host_loaded_fields)
  from modal_open_received [OF host_loaded_fields(1) k0 host_loaded_fields(3), of "''m1''" "''/pick-a''"]
  obtain A where A: "core A = core host_loaded" "core ?S1 = core (snd (handleModalOpen ?d1 A))"
    by blast
  from modal_open_received [OF k1, of "''m2''" "''/pick-b''"]
  obtain B where B: "core B = core ?S1" "core ?S2 = core (snd (handleModalOpen ?d2 B))"
    by blast
  from modal_close_received [OF k2, of "''m3''" "JStr ''saved''"]
  obtain C where C: "core C = core ?S2" "core ?F = core (handleModalClose (JStr ''saved'') C)"
    by blast
  let ?st1 = "snd (handleModalOpen ?d1 A)" and ?st2 = "snd (handleModalOpen ?d2 B)"
  let ?st3 = "handleModalClose (JStr ''saved'') C"
  have wA: "well_formed A" using well_formed_cong [OF A(1)] host_loaded_fields(6) by simp
  have nA: "next_handle A = 0" using core_fields(5) [OF A(1)] host_loaded_fields(5) by simp
  have o1: "handleModalOpen ?d1 A = (0, ?st1)"
    using handleModalOpen_core(4) [of ?d1 A] nA by (simp add: prod_eq_iff)
  have cB: "core B = core ?st1" using A(2) B(1) by simp
  have c1: "changes ?st1 B" by (rule changes.same [OF cB])
  have mB: "modalResolve B = Some 0"
    using core_fields(6) [OF cB] nA by (simp add: handleModalOpen_core)
  have nB: "next_handle B = Suc 0"
    using core_fields(5) [OF cB] nA by (simp add: handleModalOpen_core)
  have o2: "handleModalOpen ?d2 B = (Suc 0, ?st2)"
    using handleModalOpen_core(4) [of ?d2 B] nB by (simp add: prod_eq_iff)
  have cC: "core C = core ?st2" using B(2) C(1) by simp
  have c2: "changes ?st2 C" by (rule changes.same [OF cC])
  have mC: "modalResolve C = Some (Suc 0)"
    using core_fields(6) [OF cC] nB by (simp add: handleModalOpen_core)
  note t = C10_second_open_overwrites [OF wA o1 c1 mB o2 c2 mC refl]
  have "promises ?st3 (Suc 0) = Some (Resolved (JStr ''saved''))"
    "calls_on (Suc 0) ?st3 = [ByModalClose]"
    "promises ?st3 0 = Some Pending" "calls_on 0 ?st3 = []" "modalResolve ?st3 = None"
    using t by blast+
  then have "promises ?F (Suc 0) = Some (Resolved (JStr ''saved''))"
    "calls_on (Suc 0) ?F = [ByModalClose]"
    "promises ?F 0 = Some Pending" "calls_on 0 ?F = []" "modalResolve ?F = None"
    by (simp_all only: core_fields [OF C(2)])
  then show ?thesis unfolding F by simp
qed

end
